theory Spec2Isabelle
  imports Main "HOL-Library.Signed_Division" "HOL-Library.Sublist"
begin

section \<open>Values of the runtime: byte strings, big integers, keys\<close>

text \<open>
  The mapping of \<^verbatim>\<open>src/src/perps.ts\<close> works on three kinds of values.
  \<^item> \<^verbatim>\<open>Bytes\<close> and \<^verbatim>\<open>Address\<close> are byte strings; a HOL \<open>char\<close> is one byte, so they
    are \<open>string\<close>s here. \<^verbatim>\<open>toHex()\<close> prints \<^verbatim>\<open>0x\<close> and two lower-case digits per byte.
  \<^item> \<^verbatim>\<open>BigInt\<close> is an unbounded integer: \<open>int\<close>. \<^verbatim>\<open>plus\<close>, \<^verbatim>\<open>minus\<close>, \<^verbatim>\<open>times\<close> are
    \<open>+\<close>, \<open>-\<close>, \<open>*\<close>; \<^verbatim>\<open>div\<close> truncates towards zero (\<open>sdiv\<close>) and aborts the handler
    on a zero divisor (\<open>bigIntDiv\<close>); \<^verbatim>\<open>mod\<close> is the matching remainder (\<open>smod\<close>). A
    division by the constant \<^verbatim>\<open>ETHER\<close> cannot abort and is written with \<open>sdiv\<close> directly.
  \<^item> entity ids are strings, built by concatenation as the source builds them.
\<close>

type_synonym Bytes = string
type_synonym BigInt = int

definition hexDigit :: "int \<Rightarrow> char" where
  "hexDigit n = (''0123456789abcdef'' ! nat (n mod 16))"

definition hexByte :: "char \<Rightarrow> string" where
  "hexByte c = [hexDigit (of_char c div 16), hexDigit (of_char c mod 16)]"

definition toHex :: "Bytes \<Rightarrow> string" where
  "toHex b = ''0x'' @ concat (map hexByte b)"

definition bytesToString :: "Bytes \<Rightarrow> string" where
  \<comment> \<open>\<^verbatim>\<open>Bytes.toString()\<close>, also what a template literal prints for a \<^verbatim>\<open>Bytes\<close>: the
      bytes read as UTF-8, without the trailing zero bytes of a padded fixed-length
      buffer. A string is kept as its UTF-8 bytes.\<close>
  "bytesToString b = rev (dropWhile (\<lambda>c. c = char_of (0::nat)) (rev b))"

function digitsOf :: "int \<Rightarrow> int \<Rightarrow> string" where
  \<comment> \<open>The digits of a non-negative number in a base from 2 to 16.\<close>
  "digitsOf base n =
     (if n < base \<or> base < 2 then [hexDigit n]
      else digitsOf base (n div base) @ [hexDigit (n mod base)])"
  by pat_completeness auto
termination
proof (relation "measure (\<lambda>(base, n). nat n)")
  show "wf (measure (\<lambda>(base, n). nat n))"
    by simp
next
  fix base n :: int
  assume "\<not> (n < base \<or> base < 2)"
  then have "2 \<le> base" and "base \<le> n"
    by simp_all
  then have "n div base < n"
    by (simp add: int_div_less_self)
  moreover have "0 < n"
    using \<open>2 \<le> base\<close> \<open>base \<le> n\<close> by simp
  ultimately show "((base, n div base), (base, n)) \<in> measure (\<lambda>(base, n). nat n)"
    by simp
qed

declare digitsOf.simps [simp del]

definition bigIntToString :: "BigInt \<Rightarrow> string" where
  \<comment> \<open>\<^verbatim>\<open>BigInt.toString()\<close>: decimal, with a minus sign.\<close>
  "bigIntToString i = (if i < 0 then ''-'' @ digitsOf 10 (- i) else digitsOf 10 i)"

definition bigIntToHex :: "BigInt \<Rightarrow> string" where
  \<comment> \<open>\<^verbatim>\<open>BigInt.toHex()\<close> of a position id, which is unsigned.\<close>
  "bigIntToHex i = ''0x'' @ digitsOf 16 \<bar>i\<bar>"

text \<open>Constants of \<^verbatim>\<open>./lib/helpers\<close>, which is not among the sources.\<close>

definition ZERO :: BigInt where
  \<comment> \<open>Modelled from the spec: \<^verbatim>\<open>ZERO\<close> of \<^verbatim>\<open>./lib/helpers\<close>; new entities
      "start fully zeroed".\<close>
  "ZERO = 0"

definition ONE :: BigInt where
  \<comment> \<open>Modelled from the spec: \<^verbatim>\<open>ONE\<close> of \<^verbatim>\<open>./lib/helpers\<close>, the trade-count delta
      of one trade.\<close>
  "ONE = 1"

definition ETHER :: BigInt where
  \<comment> \<open>Modelled from the spec: \<^verbatim>\<open>ETHER\<close> of \<^verbatim>\<open>./lib/helpers\<close>, the \<open>UNIT\<close> of the
      protocol's 18-decimal fixed-point scale.\<close>
  "ETHER = 10 ^ 18"

definition ZERO_ADDRESS :: Bytes where
  \<comment> \<open>Modelled from the spec: \<^verbatim>\<open>ZERO_ADDRESS\<close> of \<^verbatim>\<open>./lib/helpers\<close>, the address of
      twenty zero bytes.\<close>
  "ZERO_ADDRESS = replicate 20 (char_of (0::nat))"

definition ONE_HOUR_SECONDS :: BigInt where
  \<comment> \<open>Modelled from the spec: \<^verbatim>\<open>ONE_HOUR_SECONDS\<close> of \<^verbatim>\<open>./lib/helpers\<close>
      ("the system ships two: 1 hour, 1 day").\<close>
  "ONE_HOUR_SECONDS = 3600"

definition DAY_SECONDS :: BigInt where
  \<comment> \<open>Modelled from the spec: \<^verbatim>\<open>DAY_SECONDS\<close> of \<^verbatim>\<open>./lib/helpers\<close>.\<close>
  "DAY_SECONDS = 86400"

definition SINGLE_INDEX :: string where
  "SINGLE_INDEX = ''0''"

definition AGG_PERIODS :: "BigInt list" where
  "AGG_PERIODS = [ONE_HOUR_SECONDS, DAY_SECONDS]"

datatype error = DivisionByZero | NullValue | IndexOutOfRange

definition bigIntDiv :: "BigInt \<Rightarrow> BigInt \<Rightarrow> error + BigInt" where
  "bigIntDiv a b = (if b = 0 then Inl DivisionByZero else Inr (a sdiv b))"

section \<open>Entities and the store\<close>

text \<open>
  One record per entity type of the schema, with the fields the handlers read or write.
  A field that some path of the code leaves unset, or that the code tests for presence
  (\<^verbatim>\<open>marketEntity.asset\<close>, \<^verbatim>\<open>positionEntity.asset\<close>), is an \<open>option\<close>. The string-typed
  enums (account type, order type, order status) are strings, as in the source.
\<close>

record SmartMarginAccount =
  sma_owner :: Bytes

record FuturesMarketEntity =
  m_asset :: "Bytes option"
  m_marketKey :: Bytes
  m_marketStats :: string

record FuturesPosition =
  p_market :: Bytes
  p_asset :: "Bytes option"
  p_marketKey :: "Bytes option"
  p_account :: Bytes
  p_abstractAccount :: Bytes
  p_accountType :: string
  p_isLiquidated :: bool
  p_isOpen :: bool
  p_size :: BigInt
  p_timestamp :: BigInt
  p_openTimestamp :: BigInt
  p_avgEntryPrice :: BigInt
  p_trades :: BigInt
  p_entryPrice :: BigInt
  p_lastPrice :: BigInt
  p_margin :: BigInt
  p_initialMargin :: BigInt
  p_pnl :: BigInt
  p_feesPaid :: BigInt
  p_netFunding :: BigInt
  p_pnlWithFeesPaid :: BigInt
  p_netTransfers :: BigInt
  p_totalDeposits :: BigInt
  p_totalVolume :: BigInt
  p_fundingIndex :: BigInt
  p_exitPrice :: "BigInt option"
  p_closeTimestamp :: "BigInt option"
  p_lastTxHash :: "Bytes option"

record FuturesTrade =
  t_timestamp :: BigInt
  t_account :: Bytes
  t_abstractAccount :: Bytes
  t_accountType :: string
  t_margin :: BigInt
  t_size :: BigInt
  t_asset :: "Bytes option"
  t_marketKey :: "Bytes option"
  t_price :: BigInt
  t_positionId :: string
  t_positionSize :: BigInt
  t_positionClosed :: bool
  t_pnl :: BigInt
  t_feesPaid :: BigInt
  t_fundingAccrued :: BigInt
  t_keeperFeesPaid :: BigInt
  t_orderType :: string
  t_trackingCode :: Bytes

record FuturesStat =
  st_account :: Bytes
  st_feesPaid :: BigInt
  st_pnl :: BigInt
  st_pnlWithFeesPaid :: BigInt
  st_liquidations :: BigInt
  st_totalTrades :: BigInt
  st_totalVolume :: BigInt
  st_smartMarginVolume :: BigInt

record FuturesCumulativeStat =
  c_totalLiquidations :: BigInt
  c_totalTrades :: BigInt
  c_totalTraders :: BigInt
  c_totalVolume :: BigInt
  c_averageTradeSize :: BigInt

record FuturesAggregateStat =
  a_period :: BigInt
  a_timestamp :: BigInt
  a_marketKey :: "Bytes option"
  a_asset :: Bytes
  a_trades :: BigInt
  a_volume :: BigInt
  a_feesKwenta :: BigInt
  a_feesSynthetix :: BigInt
  a_feesCrossMarginAccounts :: BigInt

record FuturesMarginTransfer =
  mt_timestamp :: BigInt
  mt_account :: Bytes
  mt_market :: Bytes
  mt_size :: BigInt
  mt_txHash :: string
  mt_asset :: "Bytes option"
  mt_marketKey :: "Bytes option"

record FuturesMarginAccount =
  ma_timestamp :: BigInt
  ma_account :: Bytes
  ma_market :: Bytes
  ma_margin :: BigInt
  ma_deposits :: BigInt
  ma_withdrawals :: BigInt
  ma_asset :: "Bytes option"

record FundingPayment =
  fp_timestamp :: BigInt
  fp_account :: Bytes
  fp_positionId :: string
  fp_marketKey :: "Bytes option"
  fp_asset :: "Bytes option"
  fp_amount :: BigInt

record FundingRateUpdate =
  fr_timestamp :: BigInt
  fr_market :: Bytes
  fr_sequenceLength :: BigInt
  fr_funding :: BigInt
  fr_fundingRate :: BigInt
  fr_asset :: "Bytes option"
  fr_marketKey :: Bytes

record FuturesOrder =
  o_size :: BigInt
  o_marketKey :: Bytes
  o_account :: Bytes
  o_abstractAccount :: Bytes
  o_targetPrice :: BigInt
  o_marginDelta :: BigInt
  o_timestamp :: BigInt
  o_txnHash :: Bytes
  o_orderId :: BigInt
  o_orderType :: string
  o_status :: string
  o_keeper :: Bytes

record SmartMarginOrder =
  smo_recordTrade :: bool
  smo_orderType :: "string option"

record FundingRatePeriod =
  frp_fundingRate :: BigInt
  frp_asset :: "Bytes option"
  frp_marketKey :: Bytes
  frp_period :: string
  frp_timestamp :: BigInt

text \<open>
  The entity store: one table per entity type, from the entity id to the entity.
  \<^verbatim>\<open>load\<close> is application of the table, \<^verbatim>\<open>save\<close> is an update of it. The last two
  fields are the entities of type \<^verbatim>\<open>PerpsMarket\<close>, which the mapping only ever removes,
  and the addresses for which a \<^verbatim>\<open>PerpsMarket\<close> data source was created.
\<close>

record store =
  smartMarginAccounts :: "string \<rightharpoonup> SmartMarginAccount"
  markets :: "string \<rightharpoonup> FuturesMarketEntity"
  positions :: "string \<rightharpoonup> FuturesPosition"
  trades :: "string \<rightharpoonup> FuturesTrade"
  stats :: "string \<rightharpoonup> FuturesStat"
  cumulativeStats :: "string \<rightharpoonup> FuturesCumulativeStat"
  aggregateStats :: "string \<rightharpoonup> FuturesAggregateStat"
  marginTransfers :: "string \<rightharpoonup> FuturesMarginTransfer"
  marginAccounts :: "string \<rightharpoonup> FuturesMarginAccount"
  fundingPayments :: "string \<rightharpoonup> FundingPayment"
  fundingRateUpdates :: "string \<rightharpoonup> FundingRateUpdate"
  orders :: "string \<rightharpoonup> FuturesOrder"
  smartMarginOrders :: "string \<rightharpoonup> SmartMarginOrder"
  fundingRatePeriods :: "string \<rightharpoonup> FundingRatePeriod"
  perpsMarketEntities :: "string \<rightharpoonup> unit"
  perpsMarketSources :: "Bytes list"

section \<open>Events\<close>

text \<open>
  The fields every event carries (\<^verbatim>\<open>event.address\<close>, \<^verbatim>\<open>event.logIndex\<close>,
  \<^verbatim>\<open>event.block.timestamp\<close>, \<^verbatim>\<open>event.transaction.hash\<close>, \<^verbatim>\<open>event.transaction.from\<close>),
  extended by the parameters of each event type.
\<close>

record event =
  ev_address :: Bytes
  ev_logIndex :: BigInt
  ev_timestamp :: BigInt
  ev_txHash :: Bytes
  ev_txFrom :: Bytes

record PositionModifiedEvent = event +
  pm_id :: BigInt
  pm_account :: Bytes
  pm_margin :: BigInt
  pm_size :: BigInt
  pm_tradeSize :: BigInt
  pm_lastPrice :: BigInt
  pm_fundingIndex :: BigInt
  pm_fee :: BigInt

record PositionModifiedV2Event = PositionModifiedEvent +
  pm_skew :: BigInt

record PositionLiquidatedEvent = event +
  pl_id :: BigInt
  pl_account :: Bytes
  pl_size :: BigInt
  pl_fee :: BigInt

record PositionLiquidatedV2Event = event +
  pl2_id :: BigInt
  pl2_account :: Bytes
  pl2_size :: BigInt
  pl2_flaggerFee :: BigInt
  pl2_liquidatorFee :: BigInt
  pl2_stakersFee :: BigInt

record MarginTransferredEvent = event +
  mtr_account :: Bytes
  mtr_marginDelta :: BigInt

record MarketAddedEvent = event +
  mad_market :: Bytes
  mad_asset :: Bytes
  mad_marketKey :: Bytes

record MarketRemovedEvent = event +
  mrm_market :: Bytes

record FundingRecomputedEvent = event +
  frc_funding :: BigInt
  frc_fundingRate :: BigInt
  frc_index :: BigInt
  frc_timestamp :: BigInt

record DelayedOrderSubmittedEvent = event +
  dos_account :: Bytes
  dos_sizeDelta :: BigInt
  dos_targetRoundId :: BigInt
  dos_isOffchain :: bool

record DelayedOrderRemovedEvent = event +
  dor_account :: Bytes
  dor_targetRoundId :: BigInt
  dor_keeperDeposit :: BigInt
  dor_trackingCode :: Bytes

section \<open>Helpers of the mapping\<close>

definition resolveAccount :: "store \<Rightarrow> Bytes \<Rightarrow> Bytes \<times> string" where
  \<comment> \<open>\<^verbatim>\<open>account\<close> and \<^verbatim>\<open>accountType\<close>, as each handler derives them from the
      \<^verbatim>\<open>SmartMarginAccount\<close> of the sending account.\<close>
  "resolveAccount s sendingAccount =
     (case smartMarginAccounts s (toHex sendingAccount) of
        Some sma \<Rightarrow> (sma_owner sma, ''smart_margin'')
      | None \<Rightarrow> (sendingAccount, ''isolated_margin''))"

definition positionIdOf :: "Bytes \<Rightarrow> BigInt \<Rightarrow> string" where
  "positionIdOf market posId = toHex market @ ''-'' @ bigIntToHex posId"

definition tradeIdOf :: "Bytes \<Rightarrow> BigInt \<Rightarrow> string" where
  "tradeIdOf txHash logIndex = toHex txHash @ ''-'' @ bigIntToString logIndex"

definition marginTransferIdOf :: "Bytes \<Rightarrow> Bytes \<Rightarrow> BigInt \<Rightarrow> string" where
  "marginTransferIdOf market txHash logIndex =
     toHex market @ ''-'' @ toHex txHash @ ''-'' @ bigIntToString logIndex"

definition marginAccountIdOf :: "Bytes \<Rightarrow> Bytes \<Rightarrow> string" where
  "marginAccountIdOf account market = toHex account @ ''-'' @ toHex market"

definition fundingRateUpdateIdOf :: "Bytes \<Rightarrow> BigInt \<Rightarrow> string" where
  "fundingRateUpdateIdOf market idx = toHex market @ ''-'' @ bigIntToString idx"

definition fundingPaymentIdOf :: "string \<Rightarrow> Bytes \<Rightarrow> BigInt \<Rightarrow> string" where
  "fundingPaymentIdOf positionId txHash logIndex =
     positionId @ ''-'' @ toHex txHash @ ''-'' @ bigIntToString logIndex"

definition newCumulativeStat :: FuturesCumulativeStat where
  "newCumulativeStat =
     \<lparr> c_totalLiquidations = ZERO, c_totalTrades = ZERO, c_totalTraders = ZERO,
       c_totalVolume = ZERO, c_averageTradeSize = ZERO \<rparr>"

definition getOrCreateCumulativeEntity :: "store \<Rightarrow> FuturesCumulativeStat" where
  "getOrCreateCumulativeEntity s =
     (case cumulativeStats s SINGLE_INDEX of None \<Rightarrow> newCumulativeStat | Some c \<Rightarrow> c)"

definition getOrCreateMarketCumulativeStats :: "store \<Rightarrow> string \<Rightarrow> FuturesCumulativeStat" where
  "getOrCreateMarketCumulativeStats s marketKey =
     (case cumulativeStats s marketKey of None \<Rightarrow> newCumulativeStat | Some c \<Rightarrow> c)"

definition aggregateIdOf :: "BigInt \<Rightarrow> BigInt \<Rightarrow> Bytes \<Rightarrow> string" where
  "aggregateIdOf timestamp period asset =
     bigIntToString timestamp @ ''-'' @ bigIntToString period @ ''-'' @ toHex asset"

definition getOrCreateMarketAggregateStats ::
  "store \<Rightarrow> Bytes option \<Rightarrow> Bytes \<Rightarrow> BigInt \<Rightarrow> BigInt \<Rightarrow> FuturesAggregateStat" where
  "getOrCreateMarketAggregateStats s marketKey asset timestamp period =
     (case aggregateStats s (aggregateIdOf timestamp period asset) of
        None \<Rightarrow>
          \<lparr> a_period = period, a_timestamp = timestamp, a_marketKey = marketKey,
            a_asset = asset, a_trades = ZERO, a_volume = ZERO, a_feesKwenta = ZERO,
            a_feesSynthetix = ZERO, a_feesCrossMarginAccounts = ZERO \<rparr>
      | Some a \<Rightarrow> a)"

definition getTimeID :: "BigInt \<Rightarrow> BigInt \<Rightarrow> error + BigInt" where
  \<comment> \<open>\<^verbatim>\<open>timestamp.mod(num)\<close> aborts on a zero \<^verbatim>\<open>num\<close>.\<close>
  "getTimeID timestamp num =
     (if num = 0 then Inl DivisionByZero else Inr (timestamp - timestamp smod num))"

definition addToAggregate ::
  "FuturesAggregateStat \<Rightarrow> BigInt \<Rightarrow> BigInt \<Rightarrow> BigInt \<Rightarrow> BigInt \<Rightarrow> BigInt \<Rightarrow> FuturesAggregateStat"
  where
  \<comment> \<open>The five \<^verbatim>\<open>plus\<close> assignments made to an aggregate row.\<close>
  "addToAggregate a nTrades volume feesSynthetix feesKwenta feesCrossMarginAccounts =
     a\<lparr> a_trades := a_trades a + nTrades,
        a_volume := a_volume a + volume,
        a_feesSynthetix := a_feesSynthetix a + feesSynthetix,
        a_feesKwenta := a_feesKwenta a + feesKwenta,
        a_feesCrossMarginAccounts := a_feesCrossMarginAccounts a + feesCrossMarginAccounts \<rparr>"

definition updateAggregatePeriod ::
  "string \<Rightarrow> Bytes option \<Rightarrow> Bytes \<Rightarrow> BigInt \<Rightarrow> BigInt \<Rightarrow> BigInt \<Rightarrow> BigInt \<Rightarrow> BigInt \<Rightarrow>
   BigInt \<Rightarrow> store \<Rightarrow> error + store" where
  \<comment> \<open>One iteration of the loop of \<^verbatim>\<open>updateAggregateStatEntities\<close>.\<close>
  "updateAggregatePeriod accountType marketKey asset timestamp nTrades volume feesSynthetix
       feesKwenta thisPeriod s =
     (case getTimeID timestamp thisPeriod of
        Inl e \<Rightarrow> Inl e
      | Inr aggTimestamp \<Rightarrow>
          let totalFees = feesSynthetix + feesKwenta;
              feesCrossMarginAccounts =
                (if accountType = ''smart_margin'' then totalFees else ZERO);
              aggStats = addToAggregate
                (getOrCreateMarketAggregateStats s marketKey asset aggTimestamp thisPeriod)
                nTrades volume feesSynthetix feesKwenta feesCrossMarginAccounts;
              s1 = s\<lparr> aggregateStats :=
                (aggregateStats s)(aggregateIdOf aggTimestamp thisPeriod asset \<mapsto> aggStats) \<rparr>;
              aggCumulativeStats = addToAggregate
                (getOrCreateMarketAggregateStats s1 (Some []) [] aggTimestamp thisPeriod)
                nTrades volume feesSynthetix feesKwenta feesCrossMarginAccounts
          in Inr (s1\<lparr> aggregateStats :=
                (aggregateStats s1)(aggregateIdOf aggTimestamp thisPeriod [] \<mapsto>
                   aggCumulativeStats) \<rparr>))"

fun updateAggregatePeriods ::
  "BigInt list \<Rightarrow> string \<Rightarrow> Bytes option \<Rightarrow> Bytes \<Rightarrow> BigInt \<Rightarrow> BigInt \<Rightarrow> BigInt \<Rightarrow> BigInt \<Rightarrow>
   BigInt \<Rightarrow> store \<Rightarrow> error + store" where
  "updateAggregatePeriods [] accountType marketKey asset timestamp nTrades volume
       feesSynthetix feesKwenta s = Inr s"
| "updateAggregatePeriods (thisPeriod # periods) accountType marketKey asset timestamp nTrades
       volume feesSynthetix feesKwenta s =
     (case updateAggregatePeriod accountType marketKey asset timestamp nTrades volume
             feesSynthetix feesKwenta thisPeriod s of
        Inl e \<Rightarrow> Inl e
      | Inr s1 \<Rightarrow>
          updateAggregatePeriods periods accountType marketKey asset timestamp nTrades volume
            feesSynthetix feesKwenta s1)"

definition updateAggregateStatEntities ::
  "string \<Rightarrow> Bytes option \<Rightarrow> Bytes \<Rightarrow> BigInt \<Rightarrow> BigInt \<Rightarrow> BigInt \<Rightarrow> BigInt \<Rightarrow> BigInt \<Rightarrow>
   store \<Rightarrow> error + store" where
  "updateAggregateStatEntities accountType marketKey asset timestamp nTrades volume
       feesSynthetix feesKwenta s =
     updateAggregatePeriods AGG_PERIODS accountType marketKey asset timestamp nTrades volume
       feesSynthetix feesKwenta s"

section \<open>handlePositionModified\<close>

text \<open>
  The handler keeps four things in hand between its loads and its final saves: the store
  (the entities saved so far), and the in-memory \<^verbatim>\<open>statEntity\<close>, \<^verbatim>\<open>positionEntity\<close> and
  \<^verbatim>\<open>cumulativeEntity\<close>. The model threads them through the blocks of the handler, in the
  order of the source.
\<close>

record pm_state =
  cx_store :: store
  cx_stat :: FuturesStat
  cx_position :: FuturesPosition
  cx_cumulative :: FuturesCumulativeStat

definition newFuturesStat :: "Bytes \<Rightarrow> FuturesStat" where
  "newFuturesStat account =
     \<lparr> st_account = account, st_feesPaid = ZERO, st_pnl = ZERO, st_pnlWithFeesPaid = ZERO,
       st_liquidations = ZERO, st_totalTrades = ZERO, st_totalVolume = ZERO,
       st_smartMarginVolume = ZERO \<rparr>"

definition newFuturesPosition ::
  "PositionModifiedEvent \<Rightarrow> FuturesMarketEntity option \<Rightarrow> Bytes \<Rightarrow> string \<Rightarrow> FuturesPosition"
  where
  "newFuturesPosition ev marketEntity account accountType =
     \<lparr> p_market = ev_address ev,
       p_asset = (case marketEntity of None \<Rightarrow> None | Some m \<Rightarrow> m_asset m),
       p_marketKey = (case marketEntity of None \<Rightarrow> None | Some m \<Rightarrow> Some (m_marketKey m)),
       p_account = account,
       p_abstractAccount = pm_account ev,
       p_accountType = accountType,
       p_isLiquidated = False,
       p_isOpen = True,
       p_size = pm_size ev,
       p_timestamp = ev_timestamp ev,
       p_openTimestamp = ev_timestamp ev,
       p_avgEntryPrice = pm_lastPrice ev,
       p_trades = ZERO,
       p_entryPrice = pm_lastPrice ev,
       p_lastPrice = pm_lastPrice ev,
       p_margin = pm_margin ev,
       p_initialMargin = pm_margin ev + pm_fee ev,
       p_pnl = ZERO,
       p_feesPaid = ZERO,
       p_netFunding = ZERO,
       p_pnlWithFeesPaid = ZERO,
       p_netTransfers = ZERO,
       p_totalDeposits = ZERO,
       p_totalVolume = ZERO,
       p_fundingIndex = pm_fundingIndex ev,
       p_exitPrice = None,
       p_closeTimestamp = None,
       p_lastTxHash = None \<rparr>"

definition loadEntities :: "PositionModifiedEvent \<Rightarrow> store \<Rightarrow> pm_state" where
  \<comment> \<open>The loads at the head of the handler, and the creation of a missing stat and of a
      missing position.\<close>
  "loadEntities ev s =
     (let sendingAccount = pm_account ev;
          account = fst (resolveAccount s sendingAccount);
          accountType = snd (resolveAccount s sendingAccount);
          positionId = positionIdOf (ev_address ev) (pm_id ev);
          marketEntity = markets s (toHex (ev_address ev));
          cumulativeEntity = getOrCreateCumulativeEntity s
      in \<lparr> cx_store = s,
           cx_stat = (case stats s (toHex account) of
                        None \<Rightarrow> newFuturesStat account
                      | Some st \<Rightarrow> st),
           cx_position = (case positions s positionId of
                            None \<Rightarrow> newFuturesPosition ev marketEntity account accountType
                          | Some pos \<Rightarrow> pos),
           cx_cumulative = (case stats s (toHex account) of
                              None \<Rightarrow> cumulativeEntity
                                \<lparr> c_totalTraders := c_totalTraders cumulativeEntity + 1 \<rparr>
                            | Some st \<Rightarrow> cumulativeEntity) \<rparr>)"

definition fundingAccruedOf :: "PositionModifiedEvent \<Rightarrow> pm_state \<Rightarrow> BigInt" where
  \<comment> \<open>The value of the local \<^verbatim>\<open>fundingAccrued\<close> after the funding block.\<close>
  "fundingAccruedOf ev cx =
     (let pos = cx_position cx; s = cx_store cx in
      if p_fundingIndex pos \<noteq> pm_fundingIndex ev then
        (case fundingRateUpdates s (fundingRateUpdateIdOf (ev_address ev) (p_fundingIndex pos)) of
           None \<Rightarrow> ZERO
         | Some pastFundingEntity \<Rightarrow>
             (case fundingRateUpdates s
                     (fundingRateUpdateIdOf (ev_address ev) (pm_fundingIndex ev)) of
                None \<Rightarrow> ZERO
              | Some currentFundingEntity \<Rightarrow>
                  ((fr_funding currentFundingEntity - fr_funding pastFundingEntity)
                     * p_size pos) sdiv ETHER))
      else ZERO)"

definition accrueFunding :: "PositionModifiedEvent \<Rightarrow> Bytes \<Rightarrow> pm_state \<Rightarrow> pm_state" where
  \<comment> \<open>The funding block: the payment record, the position's net funding, the stat's fees
      and the new funding index, when both checkpoints are found.\<close>
  "accrueFunding ev account cx =
     (let pos = cx_position cx; s = cx_store cx;
          positionId = positionIdOf (ev_address ev) (pm_id ev) in
      if p_fundingIndex pos \<noteq> pm_fundingIndex ev then
        (case fundingRateUpdates s (fundingRateUpdateIdOf (ev_address ev) (p_fundingIndex pos)) of
           None \<Rightarrow> cx
         | Some pastFundingEntity \<Rightarrow>
             (case fundingRateUpdates s
                     (fundingRateUpdateIdOf (ev_address ev) (pm_fundingIndex ev)) of
                None \<Rightarrow> cx
              | Some currentFundingEntity \<Rightarrow>
                  let fundingAccrued =
                        ((fr_funding currentFundingEntity - fr_funding pastFundingEntity)
                           * p_size pos) sdiv ETHER;
                      s1 = (if \<bar>fundingAccrued\<bar> > ZERO then
                              s\<lparr> fundingPayments := (fundingPayments s)
                                   (fundingPaymentIdOf positionId (ev_txHash ev) (ev_logIndex ev) \<mapsto>
                                    \<lparr> fp_timestamp = ev_timestamp ev,
                                      fp_account = account,
                                      fp_positionId = positionId,
                                      fp_marketKey = p_marketKey pos,
                                      fp_asset = p_asset pos,
                                      fp_amount = fundingAccrued \<rparr>) \<rparr>
                            else s)
                  in cx\<lparr> cx_store := s1,
                         cx_position := pos
                           \<lparr> p_netFunding := p_netFunding pos + fundingAccrued,
                             p_fundingIndex := pm_fundingIndex ev \<rparr>,
                         cx_stat := (cx_stat cx)
                           \<lparr> st_feesPaid := st_feesPaid (cx_stat cx) - fundingAccrued \<rparr> \<rparr>))
      else cx)"

definition newMarketTrade ::
  "PositionModifiedEvent \<Rightarrow> FuturesMarketEntity option \<Rightarrow> Bytes \<Rightarrow> string \<Rightarrow> BigInt \<Rightarrow>
   FuturesTrade" where
  \<comment> \<open>The trade entity of a size-changing event, before its PnL is known.\<close>
  "newMarketTrade ev marketEntity account accountType fundingAccrued =
     \<lparr> t_timestamp = ev_timestamp ev,
       t_account = account,
       t_abstractAccount = pm_account ev,
       t_accountType = accountType,
       t_margin = pm_margin ev + pm_fee ev,
       t_size = pm_tradeSize ev,
       t_asset = (case marketEntity of None \<Rightarrow> Some ZERO_ADDRESS | Some m \<Rightarrow> m_asset m),
       t_marketKey = (case marketEntity of None \<Rightarrow> Some ZERO_ADDRESS
                      | Some m \<Rightarrow> Some (m_marketKey m)),
       t_price = pm_lastPrice ev,
       t_positionId = positionIdOf (ev_address ev) (pm_id ev),
       t_positionSize = pm_size ev,
       t_positionClosed = (pm_size ev = 0),
       t_pnl = ZERO,
       t_feesPaid = pm_fee ev,
       t_fundingAccrued = fundingAccrued,
       t_keeperFeesPaid = ZERO,
       t_orderType = ''Market'',
       t_trackingCode = ZERO_ADDRESS \<rparr>"

definition priceMovePnl :: "PositionModifiedEvent \<Rightarrow> FuturesPosition \<Rightarrow> BigInt" where
  \<comment> \<open>\<^verbatim>\<open>newPnl\<close> of a close and of a side flip.\<close>
  "priceMovePnl ev pos =
     ((pm_lastPrice ev - p_avgEntryPrice pos) * p_size pos) sdiv ETHER"

definition reducePnl :: "PositionModifiedEvent \<Rightarrow> FuturesPosition \<Rightarrow> BigInt" where
  \<comment> \<open>\<^verbatim>\<open>newPnl\<close> of a size reduction.\<close>
  "reducePnl ev pos =
     ((pm_lastPrice ev - p_avgEntryPrice pos) * \<bar>pm_tradeSize ev\<bar>
        * (if pm_size ev > ZERO then 1 else - 1)) sdiv ETHER"

definition changesSides :: "PositionModifiedEvent \<Rightarrow> FuturesPosition \<Rightarrow> bool" where
  "changesSides ev pos \<longleftrightarrow>
     (p_size pos < ZERO \<and> pm_size ev > ZERO) \<or> (p_size pos > ZERO \<and> pm_size ev < ZERO)"

definition updatePnlAndEntryPrice ::
  "PositionModifiedEvent \<Rightarrow> FuturesTrade \<Rightarrow> FuturesStat \<Rightarrow> FuturesPosition \<Rightarrow>
   error + (FuturesTrade \<times> FuturesStat \<times> FuturesPosition)" where
  \<comment> \<open>"update pnl and avg entry price": close, side flip, size increase, size reduction.\<close>
  "updatePnlAndEntryPrice ev trade stat pos =
     (if pm_size ev = 0 then
        let newPnl = priceMovePnl ev pos in
        Inr (trade\<lparr> t_pnl := newPnl \<rparr>,
             stat\<lparr> st_pnl := st_pnl stat + newPnl \<rparr>,
             pos\<lparr> p_pnl := p_pnl pos + newPnl,
                  p_isOpen := False,
                  p_exitPrice := Some (pm_lastPrice ev),
                  p_closeTimestamp := Some (ev_timestamp ev) \<rparr>)
      else if changesSides ev pos then
        let newPnl = priceMovePnl ev pos in
        Inr (trade\<lparr> t_pnl := newPnl \<rparr>,
             stat\<lparr> st_pnl := st_pnl stat + newPnl \<rparr>,
             pos\<lparr> p_pnl := p_pnl pos + newPnl,
                  p_entryPrice := pm_lastPrice ev,
                  p_avgEntryPrice := pm_lastPrice ev \<rparr>)
      else if \<bar>pm_size ev\<bar> > \<bar>p_size pos\<bar> then
        let existingSize = \<bar>p_size pos\<bar>;
            existingPrice = existingSize * p_entryPrice pos;
            newSize = \<bar>pm_tradeSize ev\<bar>;
            newPrice = newSize * pm_lastPrice ev
        in (case bigIntDiv (existingPrice + newPrice) \<bar>pm_size ev\<bar> of
              Inl e \<Rightarrow> Inl e
            | Inr q \<Rightarrow> Inr (trade, stat, pos\<lparr> p_entryPrice := q, p_avgEntryPrice := q \<rparr>))
      else
        let newPnl = reducePnl ev pos in
        Inr (trade\<lparr> t_pnl := newPnl \<rparr>,
             stat\<lparr> st_pnl := st_pnl stat + newPnl \<rparr>,
             pos\<lparr> p_pnl := p_pnl pos + newPnl \<rparr>))"

definition tradeVolume :: "PositionModifiedEvent \<Rightarrow> BigInt" where
  \<comment> \<open>\<^verbatim>\<open>tradeEntity.size.times(tradeEntity.price).div(ETHER).abs()\<close>\<close>
  "tradeVolume ev = \<bar>(pm_tradeSize ev * pm_lastPrice ev) sdiv ETHER\<bar>"

definition addTradeToCumulative ::
  "FuturesCumulativeStat \<Rightarrow> BigInt \<Rightarrow> error + FuturesCumulativeStat" where
  \<comment> \<open>One more trade and its volume on a cumulative entity, and the average trade size.\<close>
  "addTradeToCumulative c volume =
     (let totalTrades = c_totalTrades c + 1;
          totalVolume = c_totalVolume c + volume
      in case bigIntDiv totalVolume totalTrades of
           Inl e \<Rightarrow> Inl e
         | Inr avg \<Rightarrow>
             Inr (c\<lparr> c_totalTrades := totalTrades, c_totalVolume := totalVolume,
                     c_averageTradeSize := avg \<rparr>))"

definition updateMarketStats ::
  "PositionModifiedEvent \<Rightarrow> FuturesMarketEntity option \<Rightarrow> string \<Rightarrow> FuturesPosition \<Rightarrow>
   store \<Rightarrow> error + store" where
  \<comment> \<open>"update cumulative and aggregate stats", under
      \<^verbatim>\<open>if (marketEntity && marketEntity.asset)\<close>. The aggregate rows are keyed by
      \<^verbatim>\<open>asset.toHex()\<close> of the position's asset, which has no value when unset.\<close>
  "updateMarketStats ev marketEntity accountType pos s =
     (case marketEntity of
        None \<Rightarrow> Inr s
      | Some m \<Rightarrow>
          (case m_asset m of
             None \<Rightarrow> Inr s
           | Some marketAsset \<Rightarrow>
               (case addTradeToCumulative
                       (getOrCreateMarketCumulativeStats s (toHex marketAsset))
                       (tradeVolume ev) of
                  Inl e \<Rightarrow> Inl e
                | Inr marketCumulativeStats \<Rightarrow>
                    let s1 = s\<lparr> cumulativeStats :=
                               (cumulativeStats s)(toHex marketAsset \<mapsto> marketCumulativeStats) \<rparr>
                    in (case p_asset pos of
                          None \<Rightarrow> Inl NullValue
                        | Some asset \<Rightarrow>
                            updateAggregateStatEntities accountType (p_marketKey pos) asset
                              (ev_timestamp ev) ONE (tradeVolume ev) (pm_fee ev) ZERO s1))))"

definition applyTrade ::
  "PositionModifiedEvent \<Rightarrow> FuturesMarketEntity option \<Rightarrow> Bytes \<Rightarrow> string \<Rightarrow> BigInt \<Rightarrow>
   pm_state \<Rightarrow> error + pm_state" where
  \<comment> \<open>The branch \<^verbatim>\<open>event.params.tradeSize.isZero() == false\<close>.\<close>
  "applyTrade ev marketEntity account accountType fundingAccrued cx =
     (case updatePnlAndEntryPrice ev
             (newMarketTrade ev marketEntity account accountType fundingAccrued)
             (cx_stat cx) (cx_position cx) of
        Inl e \<Rightarrow> Inl e
      | Inr (tradeEntity, stat1, pos1) \<Rightarrow>
          let s1 = (cx_store cx)\<lparr> trades := (trades (cx_store cx))
                     (tradeIdOf (ev_txHash ev) (ev_logIndex ev) \<mapsto> tradeEntity) \<rparr>;
              volume = tradeVolume ev
          in (case addTradeToCumulative (cx_cumulative cx) volume of
                Inl e \<Rightarrow> Inl e
              | Inr cumulative1 \<Rightarrow>
                  let stat2 = stat1
                        \<lparr> st_totalTrades := st_totalTrades stat1 + 1,
                          st_totalVolume := st_totalVolume stat1 + volume,
                          st_smartMarginVolume :=
                            (if accountType = ''smart_margin''
                             then st_smartMarginVolume stat1 + volume
                             else st_smartMarginVolume stat1) \<rparr>;
                      pos2 = pos1
                        \<lparr> p_trades := p_trades pos1 + 1,
                          p_totalVolume := p_totalVolume pos1 + volume \<rparr>
                  in (case updateMarketStats ev marketEntity accountType pos2 s1 of
                        Inl e \<Rightarrow> Inl e
                      | Inr s2 \<Rightarrow>
                          Inr \<lparr> cx_store = s2, cx_stat = stat2, cx_position = pos2,
                                cx_cumulative = cumulative1 \<rparr>)))"

definition applyMarginChange ::
  "PositionModifiedEvent \<Rightarrow> Bytes \<Rightarrow> string \<Rightarrow> BigInt \<Rightarrow> pm_state \<Rightarrow> pm_state" where
  \<comment> \<open>The branch of a zero \<^verbatim>\<open>tradeSize\<close>: "it must be a margin transfer or a
      liquidation".\<close>
  "applyMarginChange ev account accountType fundingAccrued cx =
     (let s = cx_store cx; pos = cx_position cx; stat = cx_stat cx;
          marginTransferEntity =
            marginTransfers s
              (marginTransferIdOf (ev_address ev) (ev_txHash ev) (ev_logIndex ev - 1))
      in if marginTransferEntity = None \<and> pm_size ev = 0 \<and> pm_margin ev = 0 then
           let newPositionPnlWithFeesPaid = (p_initialMargin pos + p_netTransfers pos) * (- 1);
               newPositionPnl = newPositionPnlWithFeesPaid + p_feesPaid pos - p_netFunding pos;
               newTradePnl = newPositionPnl - p_pnl pos;
               tradeEntity =
                 \<lparr> t_timestamp = ev_timestamp ev,
                   t_account = account,
                   t_abstractAccount = pm_account ev,
                   t_accountType = accountType,
                   t_margin = ZERO,
                   t_size = ZERO,
                   t_asset = p_asset pos,
                   t_marketKey = p_marketKey pos,
                   t_price = pm_lastPrice ev,
                   t_positionId = positionIdOf (ev_address ev) (pm_id ev),
                   t_positionSize = ZERO,
                   t_positionClosed = True,
                   t_pnl = newTradePnl,
                   t_feesPaid = pm_fee ev,
                   t_fundingAccrued = fundingAccrued,
                   t_keeperFeesPaid = ZERO,
                   t_orderType = ''Liquidation'',
                   t_trackingCode = ZERO_ADDRESS \<rparr>
           in cx\<lparr> cx_store := s\<lparr> trades := (trades s)
                       (tradeIdOf (ev_txHash ev) (ev_logIndex ev) \<mapsto> tradeEntity) \<rparr>,
                  cx_position := pos
                    \<lparr> p_pnl := newPositionPnl,
                      p_pnlWithFeesPaid := newPositionPnlWithFeesPaid \<rparr>,
                  cx_stat := stat\<lparr> st_pnl := st_pnl stat + newTradePnl \<rparr> \<rparr>
         else
           (case marginTransferEntity of
              None \<Rightarrow> cx
            | Some mt \<Rightarrow>
                cx\<lparr> cx_position := pos
                      \<lparr> p_netTransfers := p_netTransfers pos + mt_size mt,
                        p_totalDeposits :=
                          (if mt_size mt > ZERO then p_totalDeposits pos + mt_size mt
                           else p_totalDeposits pos) \<rparr> \<rparr>))"

definition updateGlobalStat :: "PositionModifiedEvent \<Rightarrow> FuturesStat \<Rightarrow> FuturesStat" where
  \<comment> \<open>"update global values", the two assignments to \<^verbatim>\<open>statEntity\<close>, in their order.\<close>
  "updateGlobalStat ev stat =
     (let stat1 = stat\<lparr> st_pnlWithFeesPaid := st_pnl stat - st_feesPaid stat \<rparr>
      in stat1\<lparr> st_feesPaid := st_feesPaid stat1 + pm_fee ev \<rparr>)"

definition updateGlobalPosition ::
  "PositionModifiedEvent \<Rightarrow> FuturesPosition \<Rightarrow> FuturesPosition" where
  \<comment> \<open>"update global values", the assignments to \<^verbatim>\<open>positionEntity\<close>, in their order.\<close>
  "updateGlobalPosition ev pos =
     (let pos1 = pos\<lparr> p_size := pm_size ev,
                      p_margin := pm_margin ev,
                      p_lastPrice := pm_lastPrice ev,
                      p_feesPaid := p_feesPaid pos + pm_fee ev \<rparr>
      in pos1\<lparr> p_pnlWithFeesPaid := p_pnl pos1 - p_feesPaid pos1 + p_netFunding pos1,
                p_lastTxHash := Some (ev_txHash ev),
                p_timestamp := ev_timestamp ev \<rparr>)"

definition saveEntities ::
  "PositionModifiedEvent \<Rightarrow> Bytes \<Rightarrow> FuturesMarginAccount option \<Rightarrow> pm_state \<Rightarrow> store" where
  \<comment> \<open>The tail of the handler: the global values, the margin account loaded at the head
      of the handler, and the three saves.\<close>
  "saveEntities ev account marginAccountEntity cx =
     (let s = cx_store cx;
          s1 = (case marginAccountEntity of
                  None \<Rightarrow> s
                | Some ma \<Rightarrow>
                    s\<lparr> marginAccounts := (marginAccounts s)
                         (marginAccountIdOf (pm_account ev) (ev_address ev) \<mapsto>
                          ma\<lparr> ma_margin := pm_margin ev,
                              ma_timestamp := ev_timestamp ev \<rparr>) \<rparr>);
          s2 = s1\<lparr> positions := (positions s1)
                    (positionIdOf (ev_address ev) (pm_id ev) \<mapsto>
                     updateGlobalPosition ev (cx_position cx)) \<rparr>;
          s3 = s2\<lparr> stats := (stats s2)
                    (toHex account \<mapsto> updateGlobalStat ev (cx_stat cx)) \<rparr>
      in s3\<lparr> cumulativeStats := (cumulativeStats s3)(SINGLE_INDEX \<mapsto> cx_cumulative cx) \<rparr>)"

definition applyEvent :: "PositionModifiedEvent \<Rightarrow> store \<Rightarrow> error + pm_state" where
  \<comment> \<open>The handler up to "update global values": the loads, the funding block, and the
      branch on \<^verbatim>\<open>tradeSize\<close>.\<close>
  "applyEvent ev s =
     (let sendingAccount = pm_account ev;
          account = fst (resolveAccount s sendingAccount);
          accountType = snd (resolveAccount s sendingAccount);
          marketEntity = markets s (toHex (ev_address ev));
          cx0 = loadEntities ev s;
          fundingAccrued = fundingAccruedOf ev cx0;
          cx1 = accrueFunding ev account cx0
      in if pm_tradeSize ev \<noteq> 0
         then applyTrade ev marketEntity account accountType fundingAccrued cx1
         else Inr (applyMarginChange ev account accountType fundingAccrued cx1))"

definition handlePositionModified :: "PositionModifiedEvent \<Rightarrow> store \<Rightarrow> error + store" where
  "handlePositionModified ev s =
     (let sendingAccount = pm_account ev;
          account = fst (resolveAccount s sendingAccount);
          marginAccountEntity =
            marginAccounts s (marginAccountIdOf sendingAccount (ev_address ev))
      in case applyEvent ev s of
           Inl e \<Rightarrow> Inl e
         | Inr cx \<Rightarrow> Inr (saveEntities ev account marginAccountEntity cx))"

definition handlePositionModifiedV2 ::
  "PositionModifiedV2Event \<Rightarrow> store \<Rightarrow> error + store" where
  \<comment> \<open>The wrapper drops the parameter \<^verbatim>\<open>skew\<close> and calls the handler of the old event.\<close>
  "handlePositionModifiedV2 ev s =
     handlePositionModified (PositionModifiedEvent.truncate ev) s"

section \<open>handlePositionLiquidated and its V2 variant\<close>

definition liquidatePosition :: "BigInt \<Rightarrow> BigInt \<Rightarrow> FuturesPosition \<Rightarrow> FuturesPosition" where
  \<comment> \<open>"update position values" and "adjust pnl for the additional fees paid".\<close>
  "liquidatePosition timestamp fee pos =
     (let pos1 = pos\<lparr> p_isLiquidated := True,
                      p_isOpen := False,
                      p_closeTimestamp := Some timestamp,
                      p_feesPaid := p_feesPaid pos + fee \<rparr>;
          pos2 = pos1\<lparr> p_pnl := p_pnl pos1 + fee \<rparr>
      in pos2\<lparr> p_pnlWithFeesPaid := p_pnl pos2 - p_feesPaid pos2 + p_netFunding pos2 \<rparr>)"

definition liquidateStat :: "BigInt \<Rightarrow> FuturesStat \<Rightarrow> FuturesStat" where
  \<comment> \<open>"update stats entity"\<close>
  "liquidateStat fee stat =
     (let stat1 = stat\<lparr> st_liquidations := st_liquidations stat + 1,
                        st_feesPaid := st_feesPaid stat + fee,
                        st_pnl := st_pnl stat + fee \<rparr>
      in stat1\<lparr> st_pnlWithFeesPaid := st_pnl stat1 - st_feesPaid stat1 \<rparr>)"

definition liquidateTrade :: "BigInt \<Rightarrow> BigInt \<Rightarrow> FuturesTrade \<Rightarrow> FuturesTrade" where
  \<comment> \<open>"update trade entity"\<close>
  "liquidateTrade eventSize fee trade =
     trade\<lparr> t_size := eventSize * (- 1),
            t_positionSize := ZERO,
            t_feesPaid := t_feesPaid trade + fee,
            t_pnl := t_pnl trade + fee \<rparr>"

definition handlePositionLiquidated :: "PositionLiquidatedEvent \<Rightarrow> store \<Rightarrow> store" where
  "handlePositionLiquidated ev s =
     (let sendingAccount = pl_account ev;
          account = fst (resolveAccount s sendingAccount);
          positionId = positionIdOf (ev_address ev) (pl_id ev);
          positionEntity = positions s positionId;
          tradeId = tradeIdOf (ev_txHash ev) (ev_logIndex ev - 1);
          tradeEntity = trades s tradeId;
          statEntity = stats s (toHex account);
          s1 = (case positionEntity of
                  None \<Rightarrow> s
                | Some pos \<Rightarrow>
                    let sa = s\<lparr> positions := (positions s)
                                 (positionId \<mapsto> liquidatePosition (ev_timestamp ev) (pl_fee ev) pos) \<rparr>;
                        sb = (case statEntity of
                                None \<Rightarrow> sa
                              | Some stat \<Rightarrow>
                                  sa\<lparr> stats := (stats sa)
                                        (toHex account \<mapsto> liquidateStat (pl_fee ev) stat) \<rparr>)
                    in (case tradeEntity of
                          None \<Rightarrow> sb
                        | Some trade \<Rightarrow>
                            sb\<lparr> trades := (trades sb)
                                  (tradeId \<mapsto> liquidateTrade (pl_size ev) (pl_fee ev) trade) \<rparr>));
          cumulativeEntity = getOrCreateCumulativeEntity s1;
          s2 = s1\<lparr> cumulativeStats := (cumulativeStats s1)
                    (SINGLE_INDEX \<mapsto> cumulativeEntity
                       \<lparr> c_totalLiquidations := c_totalLiquidations cumulativeEntity + 1 \<rparr>) \<rparr>
      in (case positionEntity of
            None \<Rightarrow> s2
          | Some pos \<Rightarrow>
              (case p_asset pos of
                 None \<Rightarrow> s2
               | Some asset \<Rightarrow>
                   let marketCumulativeStats = getOrCreateMarketCumulativeStats s2 (toHex asset)
                   in s2\<lparr> cumulativeStats := (cumulativeStats s2)
                           (toHex asset \<mapsto> marketCumulativeStats
                              \<lparr> c_totalLiquidations :=
                                  c_totalLiquidations marketCumulativeStats + 1 \<rparr>) \<rparr>)))"

definition handlePositionLiquidatedV2 :: "PositionLiquidatedV2Event \<Rightarrow> store \<Rightarrow> store" where
  "handlePositionLiquidatedV2 ev s =
     (let sendingAccount = pl2_account ev;
          account = fst (resolveAccount s sendingAccount);
          positionId = positionIdOf (ev_address ev) (pl2_id ev);
          positionEntity = positions s positionId;
          tradeId = tradeIdOf (ev_txHash ev) (ev_logIndex ev - 1);
          tradeEntity = trades s tradeId;
          statEntity = stats s (toHex account);
          totalFee = pl2_flaggerFee ev + pl2_liquidatorFee ev + pl2_stakersFee ev;
          s1 = (case positionEntity of
                  None \<Rightarrow> s
                | Some pos \<Rightarrow>
                    let sa = s\<lparr> positions := (positions s)
                                 (positionId \<mapsto> liquidatePosition (ev_timestamp ev) totalFee pos) \<rparr>;
                        sb = (case statEntity of
                                None \<Rightarrow> sa
                              | Some stat \<Rightarrow>
                                  sa\<lparr> stats := (stats sa)
                                        (toHex account \<mapsto> liquidateStat totalFee stat) \<rparr>)
                    in (case tradeEntity of
                          None \<Rightarrow> sb
                        | Some trade \<Rightarrow>
                            sb\<lparr> trades := (trades sb)
                                  (tradeId \<mapsto> liquidateTrade (pl2_size ev) totalFee trade) \<rparr>));
          cumulativeEntity = getOrCreateCumulativeEntity s1;
          s2 = s1\<lparr> cumulativeStats := (cumulativeStats s1)
                    (SINGLE_INDEX \<mapsto> cumulativeEntity
                       \<lparr> c_totalLiquidations := c_totalLiquidations cumulativeEntity + 1 \<rparr>) \<rparr>
      in (case positionEntity of
            None \<Rightarrow> s2
          | Some pos \<Rightarrow>
              (case p_asset pos of
                 None \<Rightarrow> s2
               | Some asset \<Rightarrow>
                   let marketCumulativeStats = getOrCreateMarketCumulativeStats s2 (toHex asset)
                   in s2\<lparr> cumulativeStats := (cumulativeStats s2)
                           (toHex asset \<mapsto> marketCumulativeStats
                              \<lparr> c_totalLiquidations :=
                                  c_totalLiquidations marketCumulativeStats + 1 \<rparr>) \<rparr>)))"

section \<open>handleMarginTransferred\<close>

definition handleMarginTransferred :: "MarginTransferredEvent \<Rightarrow> store \<Rightarrow> store" where
  "handleMarginTransferred ev s =
     (let futuresMarketAddress = ev_address ev;
          txHash = toHex (ev_txHash ev);
          marketEntity = markets s (toHex futuresMarketAddress);
          marginTransferEntity =
            \<lparr> mt_timestamp = ev_timestamp ev,
              mt_account = mtr_account ev,
              mt_market = futuresMarketAddress,
              mt_size = mtr_marginDelta ev,
              mt_txHash = txHash,
              mt_asset = (case marketEntity of None \<Rightarrow> None | Some m \<Rightarrow> m_asset m),
              mt_marketKey = (case marketEntity of None \<Rightarrow> None
                              | Some m \<Rightarrow> Some (m_marketKey m)) \<rparr>;
          marketAsset = (case marketEntity of None \<Rightarrow> None | Some m \<Rightarrow> m_asset m);
          marginAccountId = marginAccountIdOf (mtr_account ev) futuresMarketAddress;
          s1 = (case marginAccounts s marginAccountId of
                  Some ma \<Rightarrow> s
                | None \<Rightarrow>
                    (case marketAsset of
                       None \<Rightarrow> s
                     | Some asset \<Rightarrow>
                         let marketStats = getOrCreateMarketCumulativeStats s (toHex asset)
                         in s\<lparr> cumulativeStats := (cumulativeStats s)
                                (toHex asset \<mapsto> marketStats
                                   \<lparr> c_totalTraders := c_totalTraders marketStats + 1 \<rparr>) \<rparr>));
          marginAccount0 =
            (case marginAccounts s marginAccountId of
               Some ma \<Rightarrow> ma
             | None \<Rightarrow>
                 \<lparr> ma_timestamp = ev_timestamp ev,
                   ma_account = mtr_account ev,
                   ma_market = futuresMarketAddress,
                   ma_margin = ZERO,
                   ma_deposits = ZERO,
                   ma_withdrawals = ZERO,
                   ma_asset = marketAsset \<rparr>);
          marginAccount1 =
            (if mtr_marginDelta ev > ZERO
             then marginAccount0
                    \<lparr> ma_deposits := ma_deposits marginAccount0 + \<bar>mtr_marginDelta ev\<bar> \<rparr>
             else marginAccount0);
          marginAccount2 =
            (if mtr_marginDelta ev < ZERO
             then marginAccount1
                    \<lparr> ma_withdrawals := ma_withdrawals marginAccount1 + \<bar>mtr_marginDelta ev\<bar> \<rparr>
             else marginAccount1);
          s2 = s1\<lparr> marginTransfers := (marginTransfers s1)
                    (marginTransferIdOf futuresMarketAddress (ev_txHash ev) (ev_logIndex ev) \<mapsto>
                     marginTransferEntity) \<rparr>
      in s2\<lparr> marginAccounts := (marginAccounts s2)(marginAccountId \<mapsto> marginAccount2) \<rparr>)"

section \<open>handleDelayedOrderRemoved\<close>

definition futuresOrderIdOf :: "Bytes \<Rightarrow> Bytes \<Rightarrow> BigInt \<Rightarrow> string" where
  "futuresOrderIdOf marketAsset sendingAccount targetRoundId =
     ''D-'' @ bytesToString marketAsset @ ''-'' @ toHex sendingAccount @ ''-''
       @ bigIntToString targetRoundId"

definition smartMarginOrderIdOf :: "Bytes \<Rightarrow> Bytes \<Rightarrow> string" where
  "smartMarginOrderIdOf sendingAccount marketKey =
     toHex sendingAccount @ ''-'' @ bytesToString marketKey"

definition fillOrder ::
  "DelayedOrderRemovedEvent \<Rightarrow> Bytes \<Rightarrow> string \<Rightarrow> FuturesMarketEntity \<Rightarrow> Bytes \<Rightarrow>
   FuturesOrder \<Rightarrow> FuturesStat \<Rightarrow> FuturesTrade \<Rightarrow> store \<Rightarrow> error + store" where
  \<comment> \<open>The branch \<^verbatim>\<open>if (statEntity && tradeEntity)\<close>, up to \<^verbatim>\<open>tradeEntity.save()\<close>; the
      order, already stamped with the keeper, is saved by the caller.\<close>
  "fillOrder ev account accountType marketEntity marketAsset order stat trade s =
     (let tradeId = tradeIdOf (ev_txHash ev) (ev_logIndex ev - 1);
          positionEntity = positions s (t_positionId trade);
          smartMarginOrderId = smartMarginOrderIdOf (dor_account ev) (m_marketKey marketEntity);
          trade1 = trade\<lparr> t_trackingCode := dor_trackingCode ev,
                           t_orderType := o_orderType order \<rparr>;
          useSmartMarginOrder =
            (case smartMarginOrders s smartMarginOrderId of
               None \<Rightarrow> None
             | Some smo \<Rightarrow>
                 (case smo_orderType smo of
                    None \<Rightarrow> None
                  | Some orderType \<Rightarrow>
                      if smo_recordTrade smo then Some (smo, orderType) else None));
          trade2 = (case useSmartMarginOrder of
                      None \<Rightarrow> trade1
                    | Some (smo, orderType) \<Rightarrow> trade1\<lparr> t_orderType := orderType \<rparr>);
          s1 = (case useSmartMarginOrder of
                  None \<Rightarrow> s
                | Some (smo, orderType) \<Rightarrow>
                    s\<lparr> smartMarginOrders := (smartMarginOrders s)
                         (smartMarginOrderId \<mapsto> smo\<lparr> smo_recordTrade := False \<rparr>) \<rparr>)
      in if o_keeper order \<noteq> o_account order then
           let trade3 = trade2\<lparr> t_feesPaid := t_feesPaid trade2 + dor_keeperDeposit ev,
                                t_keeperFeesPaid := dor_keeperDeposit ev \<rparr>;
               stat1 = stat\<lparr> st_feesPaid := st_feesPaid stat + dor_keeperDeposit ev \<rparr>;
               s2 = (case positionEntity of
                       None \<Rightarrow> s1
                     | Some pos \<Rightarrow>
                         s1\<lparr> positions := (positions s1)
                               (t_positionId trade \<mapsto>
                                pos\<lparr> p_feesPaid := p_feesPaid pos + dor_keeperDeposit ev \<rparr>) \<rparr>)
           in (case (if bytesToString (dor_trackingCode ev) = ''KWENTA''
                     then updateAggregateStatEntities accountType
                            (Some (m_marketKey marketEntity)) marketAsset (ev_timestamp ev)
                            ZERO ZERO ZERO (t_feesPaid trade3) s2
                     else Inr s2) of
                 Inl e \<Rightarrow> Inl e
               | Inr s3 \<Rightarrow>
                   let s4 = s3\<lparr> stats := (stats s3)(toHex account \<mapsto> stat1) \<rparr>
                   in Inr (s4\<lparr> trades := (trades s4)(tradeId \<mapsto> trade3) \<rparr>))
         else Inr (s1\<lparr> trades := (trades s1)(tradeId \<mapsto> trade2) \<rparr>))"

definition handleDelayedOrderRemoved ::
  "DelayedOrderRemovedEvent \<Rightarrow> store \<Rightarrow> error + store" where
  \<comment> \<open>The order id prints \<^verbatim>\<open>marketEntity.asset\<close>, which has no value when unset.\<close>
  "handleDelayedOrderRemoved ev s =
     (let sendingAccount = dor_account ev;
          account = fst (resolveAccount s sendingAccount);
          accountType = snd (resolveAccount s sendingAccount);
          statEntity = stats s (toHex account)
      in case markets s (toHex (ev_address ev)) of
           None \<Rightarrow> Inr s
         | Some marketEntity \<Rightarrow>
             (case m_asset marketEntity of
                None \<Rightarrow> Inl NullValue
              | Some marketAsset \<Rightarrow>
                  let futuresOrderEntityId =
                        futuresOrderIdOf marketAsset sendingAccount (dor_targetRoundId ev)
                  in (case orders s futuresOrderEntityId of
                        None \<Rightarrow> Inr s
                      | Some order0 \<Rightarrow>
                          let order1 = order0\<lparr> o_keeper := ev_txFrom ev \<rparr>;
                              tradeEntity =
                                trades s (tradeIdOf (ev_txHash ev) (ev_logIndex ev - 1))
                          in (case statEntity of
                                None \<Rightarrow>
                                  Inr (s\<lparr> orders := (orders s)
                                         (futuresOrderEntityId \<mapsto>
                                          order1\<lparr> o_status := ''Cancelled'' \<rparr>) \<rparr>)
                              | Some stat \<Rightarrow>
                                  (case tradeEntity of
                                     None \<Rightarrow>
                                       Inr (s\<lparr> orders := (orders s)
                                              (futuresOrderEntityId \<mapsto>
                                               order1\<lparr> o_status := ''Cancelled'' \<rparr>) \<rparr>)
                                   | Some trade \<Rightarrow>
                                       (case fillOrder ev account accountType marketEntity
                                               marketAsset (order1\<lparr> o_status := ''Filled'' \<rparr>)
                                               stat trade s of
                                          Inl e \<Rightarrow> Inl e
                                        | Inr s1 \<Rightarrow>
                                            Inr (s1\<lparr> orders := (orders s1)
                                                   (futuresOrderEntityId \<mapsto>
                                                    order1\<lparr> o_status := ''Filled'' \<rparr>) \<rparr>)))))))"

section \<open>The remaining handlers\<close>

definition handleV2MarketAdded :: "MarketAddedEvent \<Rightarrow> store \<Rightarrow> store" where
  "handleV2MarketAdded ev s =
     (let marketKey = bytesToString (mad_marketKey ev);
          marketStats = getOrCreateMarketCumulativeStats s (toHex (mad_marketKey ev));
          s1 = s\<lparr> cumulativeStats :=
                 (cumulativeStats s)(toHex (mad_marketKey ev) \<mapsto> marketStats) \<rparr>;
          marketEntity = \<lparr> m_asset = Some (mad_asset ev),
                           m_marketKey = mad_marketKey ev,
                           m_marketStats = toHex (mad_marketKey ev) \<rparr>;
          s2 = s1\<lparr> markets := (markets s1)(toHex (mad_market ev) \<mapsto> marketEntity) \<rparr>
      in if suffix ''PERP'' marketKey
         then s2\<lparr> perpsMarketSources := perpsMarketSources s2 @ [mad_market ev] \<rparr>
         else s2)"

definition handleMarketRemoved :: "MarketRemovedEvent \<Rightarrow> store \<Rightarrow> store" where
  "handleMarketRemoved ev s =
     s\<lparr> perpsMarketEntities := (perpsMarketEntities s)(toHex (mrm_market ev) := None) \<rparr>"

fun updateFundingRatePeriods ::
  "BigInt list \<Rightarrow> string list \<Rightarrow> BigInt \<Rightarrow> string \<Rightarrow> FundingRateUpdate \<Rightarrow> store \<Rightarrow>
   error + store" where
  \<comment> \<open>The loop over \<^verbatim>\<open>FUNDING_RATE_PERIODS\<close>, which reads \<^verbatim>\<open>FUNDING_RATE_PERIOD_TYPES\<close> at
      the same index. Both arrays are constants of \<^verbatim>\<open>./lib/helpers\<close>, which is not among
      the sources: they are the first two arguments.\<close>
  "updateFundingRatePeriods [] periodTypes timestamp asset rate s = Inr s"
| "updateFundingRatePeriods (periodSeconds # periods) [] timestamp asset rate s =
     Inl IndexOutOfRange"
| "updateFundingRatePeriods (periodSeconds # periods) (periodType # periodTypes) timestamp asset
       rate s =
     (case getTimeID timestamp periodSeconds of
        Inl e \<Rightarrow> Inl e
      | Inr periodId \<Rightarrow>
          let id = asset @ ''-'' @ periodType @ ''-'' @ bigIntToString periodId;
              period =
                (case fundingRatePeriods s id of
                   None \<Rightarrow>
                     \<lparr> frp_fundingRate = fr_fundingRate rate,
                       frp_asset = fr_asset rate,
                       frp_marketKey = fr_marketKey rate,
                       frp_period = periodType,
                       frp_timestamp = timestamp - timestamp smod periodSeconds \<rparr>
                 | Some existingPeriod \<Rightarrow>
                     existingPeriod\<lparr> frp_fundingRate := fr_fundingRate rate \<rparr>)
          in updateFundingRatePeriods periods periodTypes timestamp asset rate
               (s\<lparr> fundingRatePeriods := (fundingRatePeriods s)(id \<mapsto> period) \<rparr>))"

definition handleFundingRecomputed ::
  "BigInt list \<Rightarrow> string list \<Rightarrow> FundingRecomputedEvent \<Rightarrow> store \<Rightarrow> error + store" where
  \<comment> \<open>\<^verbatim>\<open>marketEntity.asset.toString()\<close> has no value when the asset is unset.\<close>
  "handleFundingRecomputed periods periodTypes ev s =
     (let futuresMarketAddress = ev_address ev;
          id = fundingRateUpdateIdOf futuresMarketAddress (frc_index ev);
          fundingRateUpdateEntity =
            \<lparr> fr_timestamp = frc_timestamp ev,
              fr_market = futuresMarketAddress,
              fr_sequenceLength = frc_index ev,
              fr_funding = frc_funding ev,
              fr_fundingRate = frc_fundingRate ev,
              fr_asset = Some ZERO_ADDRESS,
              fr_marketKey = ZERO_ADDRESS \<rparr>
      in case markets s (toHex futuresMarketAddress) of
           None \<Rightarrow>
             Inr (s\<lparr> fundingRateUpdates :=
                    (fundingRateUpdates s)(id \<mapsto> fundingRateUpdateEntity) \<rparr>)
         | Some marketEntity \<Rightarrow>
             let entity1 = fundingRateUpdateEntity
                   \<lparr> fr_asset := m_asset marketEntity,
                     fr_marketKey := m_marketKey marketEntity \<rparr>
             in (case m_asset marketEntity of
                   None \<Rightarrow> Inl NullValue
                 | Some asset \<Rightarrow>
                     (case updateFundingRatePeriods periods periodTypes (frc_timestamp ev)
                             (bytesToString asset) entity1 s of
                        Inl e \<Rightarrow> Inl e
                      | Inr s1 \<Rightarrow>
                          Inr (s1\<lparr> fundingRateUpdates :=
                                 (fundingRateUpdates s1)(id \<mapsto> entity1) \<rparr>))))"

definition handleDelayedOrderSubmitted ::
  "DelayedOrderSubmittedEvent \<Rightarrow> store \<Rightarrow> error + store" where
  \<comment> \<open>Every field of the order is assigned, whether the order was loaded or is new.\<close>
  "handleDelayedOrderSubmitted ev s =
     (let sendingAccount = dos_account ev;
          account = fst (resolveAccount s sendingAccount)
      in case markets s (toHex (ev_address ev)) of
           None \<Rightarrow> Inr s
         | Some marketEntity \<Rightarrow>
             (case m_asset marketEntity of
                None \<Rightarrow> Inl NullValue
              | Some marketAsset \<Rightarrow>
                  let futuresOrderEntityId =
                        futuresOrderIdOf marketAsset sendingAccount (dos_targetRoundId ev);
                      futuresOrderEntity =
                        \<lparr> o_size = dos_sizeDelta ev,
                          o_marketKey = m_marketKey marketEntity,
                          o_account = account,
                          o_abstractAccount = sendingAccount,
                          o_targetPrice = ZERO,
                          o_marginDelta = ZERO,
                          o_timestamp = ev_timestamp ev,
                          o_txnHash = ev_txHash ev,
                          o_orderId = dos_targetRoundId ev,
                          o_orderType =
                            (if dos_isOffchain ev then ''DelayedOffchain'' else ''Delayed''),
                          o_status = ''Pending'',
                          o_keeper = ZERO_ADDRESS \<rparr>
                  in Inr (s\<lparr> orders :=
                            (orders s)(futuresOrderEntityId \<mapsto> futuresOrderEntity) \<rparr>)))"

section \<open>The event stream\<close>

text \<open>
  The event source delivers one event at a time, in chain order, and a handler that
  aborts stops the stream. The two arrays of funding-rate periods are parameters.
\<close>

datatype perpsEvent =
    MarketAdded MarketAddedEvent
  | MarketRemoved MarketRemovedEvent
  | PositionModified PositionModifiedEvent
  | PositionModifiedV2 PositionModifiedV2Event
  | PositionLiquidated PositionLiquidatedEvent
  | PositionLiquidatedV2 PositionLiquidatedV2Event
  | MarginTransferred MarginTransferredEvent
  | FundingRecomputed FundingRecomputedEvent
  | DelayedOrderSubmitted DelayedOrderSubmittedEvent
  | DelayedOrderRemoved DelayedOrderRemovedEvent

fun handleEvent :: "BigInt list \<Rightarrow> string list \<Rightarrow> perpsEvent \<Rightarrow> store \<Rightarrow> error + store" where
  "handleEvent periods periodTypes (MarketAdded ev) s = Inr (handleV2MarketAdded ev s)"
| "handleEvent periods periodTypes (MarketRemoved ev) s = Inr (handleMarketRemoved ev s)"
| "handleEvent periods periodTypes (PositionModified ev) s = handlePositionModified ev s"
| "handleEvent periods periodTypes (PositionModifiedV2 ev) s = handlePositionModifiedV2 ev s"
| "handleEvent periods periodTypes (PositionLiquidated ev) s =
     Inr (handlePositionLiquidated ev s)"
| "handleEvent periods periodTypes (PositionLiquidatedV2 ev) s =
     Inr (handlePositionLiquidatedV2 ev s)"
| "handleEvent periods periodTypes (MarginTransferred ev) s =
     Inr (handleMarginTransferred ev s)"
| "handleEvent periods periodTypes (FundingRecomputed ev) s =
     handleFundingRecomputed periods periodTypes ev s"
| "handleEvent periods periodTypes (DelayedOrderSubmitted ev) s =
     handleDelayedOrderSubmitted ev s"
| "handleEvent periods periodTypes (DelayedOrderRemoved ev) s =
     handleDelayedOrderRemoved ev s"

fun handleEvents ::
  "BigInt list \<Rightarrow> string list \<Rightarrow> perpsEvent list \<Rightarrow> store \<Rightarrow> error + store" where
  "handleEvents periods periodTypes [] s = Inr s"
| "handleEvents periods periodTypes (ev # evs) s =
     (case handleEvent periods periodTypes ev s of
        Inl e \<Rightarrow> Inl e
      | Inr s1 \<Rightarrow> handleEvents periods periodTypes evs s1)"

definition emptyStore :: store where
  \<comment> \<open>The store before the first event.\<close>
  "emptyStore =
     \<lparr> smartMarginAccounts = Map.empty, markets = Map.empty, positions = Map.empty,
       trades = Map.empty, stats = Map.empty, cumulativeStats = Map.empty,
       aggregateStats = Map.empty, marginTransfers = Map.empty, marginAccounts = Map.empty,
       fundingPayments = Map.empty, fundingRateUpdates = Map.empty, orders = Map.empty,
       smartMarginOrders = Map.empty, fundingRatePeriods = Map.empty,
       perpsMarketEntities = Map.empty, perpsMarketSources = [] \<rparr>"

section \<open>The identities of the data model\<close>

text \<open>The spec's invariant of a position, \<^verbatim>\<open>pnlWithFeesPaid = pnl - feesPaid + netFunding\<close>.\<close>

definition positionPnlIdentity :: "FuturesPosition \<Rightarrow> bool" where
  "positionPnlIdentity p \<longleftrightarrow>
     p_pnlWithFeesPaid p = p_pnl p - p_feesPaid p + p_netFunding p"

text \<open>The spec's invariant of a trader's stat, \<^verbatim>\<open>pnlWithFeesPaid = pnl - feesPaid\<close>.\<close>

definition statPnlIdentity :: "FuturesStat \<Rightarrow> bool" where
  "statPnlIdentity st \<longleftrightarrow> st_pnlWithFeesPaid st = st_pnl st - st_feesPaid st"

section \<open>What the theorems below read off a store\<close>

definition avgEntryPriceAfter :: "perpsEvent list \<Rightarrow> store \<Rightarrow> string \<Rightarrow> BigInt option" where
  "avgEntryPriceAfter evs s positionId =
     (case handleEvents [] [] evs s of
        Inl e \<Rightarrow> None
      | Inr s' \<Rightarrow> map_option p_avgEntryPrice (positions s' positionId))"

definition pnlAndFullLoss :: "store \<Rightarrow> string \<Rightarrow> (BigInt \<times> BigInt) option" where
  \<comment> \<open>The two sides of the spec's identity on the stored position:
      \<^verbatim>\<open>pnl\<close> and \<^verbatim>\<open>-(initialMargin + netTransfers) + feesPaid - netFunding\<close>.\<close>
  "pnlAndFullLoss s positionId =
     map_option
       (\<lambda>p. (p_pnl p, - (p_initialMargin p + p_netTransfers p) + p_feesPaid p - p_netFunding p))
       (positions s positionId)"

definition fundingBetween ::
  "FundingRateUpdate option \<Rightarrow> FundingRateUpdate option \<Rightarrow> BigInt \<Rightarrow> BigInt option" where
  \<comment> \<open>The funding accrued by a position of the given size between two checkpoints, when
      both exist.\<close>
  "fundingBetween past current positionSize =
     (case past of
        None \<Rightarrow> None
      | Some pastFundingEntity \<Rightarrow>
          (case current of
             None \<Rightarrow> None
           | Some currentFundingEntity \<Rightarrow>
               Some (((fr_funding currentFundingEntity - fr_funding pastFundingEntity) * positionSize)
                       sdiv ETHER)))"

definition addLiquidation :: "FuturesCumulativeStat \<Rightarrow> FuturesCumulativeStat" where
  "addLiquidation c = c\<lparr> c_totalLiquidations := c_totalLiquidations c + 1 \<rparr>"

definition liquidationCounted :: "store \<Rightarrow> store \<Rightarrow> string \<Rightarrow> string \<Rightarrow> BigInt \<Rightarrow> bool" where
  \<comment> \<open>What a liquidation with the given fee, of the position and the account of the given
      ids, leaves in the counters of the store \<open>s'\<close>, when it started from \<open>s\<close>: the global
      counter is one more; with a stored position, the counter of its asset is one more
      and the account's stat, when there is one, counts the liquidation and the fee;
      without a stored position, only the global counter changes and no stat does.\<close>
  "liquidationCounted s s' positionId accountId fee \<longleftrightarrow>
     cumulativeStats s' SINGLE_INDEX = Some (addLiquidation (getOrCreateCumulativeEntity s)) \<and>
     (case positions s positionId of
        None \<Rightarrow>
          stats s' = stats s \<and>
          cumulativeStats s' =
            (cumulativeStats s)
              (SINGLE_INDEX \<mapsto> addLiquidation (getOrCreateCumulativeEntity s))
      | Some pos \<Rightarrow>
          (case p_asset pos of
             None \<Rightarrow>
               cumulativeStats s' =
                 (cumulativeStats s)
                   (SINGLE_INDEX \<mapsto> addLiquidation (getOrCreateCumulativeEntity s))
           | Some asset \<Rightarrow>
               cumulativeStats s' (toHex asset) =
                 Some (addLiquidation (getOrCreateMarketCumulativeStats s (toHex asset)))) \<and>
          (case stats s accountId of
             None \<Rightarrow> stats s' = stats s
           | Some stat \<Rightarrow>
               stats s' = (stats s)
                 (accountId \<mapsto>
                  stat\<lparr> st_liquidations := st_liquidations stat + 1,
                        st_feesPaid := st_feesPaid stat + fee,
                        st_pnl := st_pnl stat + fee,
                        st_pnlWithFeesPaid :=
                          st_pnl stat + fee - (st_feesPaid stat + fee) \<rparr>)))"

definition orderStatusAfter ::
  "DelayedOrderRemovedEvent \<Rightarrow> store \<Rightarrow> string \<Rightarrow> string option" where
  "orderStatusAfter ev s orderId =
     (case handleDelayedOrderRemoved ev s of
        Inl e \<Rightarrow> None
      | Inr s' \<Rightarrow> map_option o_status (orders s' orderId))"

definition entryPricesAgree :: "store \<Rightarrow> bool" where
  \<comment> \<open>On every stored position the deprecated \<^verbatim>\<open>entryPrice\<close> equals \<^verbatim>\<open>avgEntryPrice\<close>.\<close>
  "entryPricesAgree s \<longleftrightarrow>
     (\<forall>positionId pos. positions s positionId = Some pos \<longrightarrow>
        p_entryPrice pos = p_avgEntryPrice pos)"

text \<open>
  A sequence of same-direction size increases of one position: every event is of the
  given market and position id, has a non-zero \<^verbatim>\<open>tradeSize\<close>, does not change sides with
  respect to the size before it, and has a size larger in magnitude. Its volume-weighted
  sum adds \<^verbatim>\<open>|tradeSize| * lastPrice\<close> of every event; the truncation it can accumulate is
  one less than the size, in magnitude, at every event.
\<close>

fun sameDirectionIncreases ::
  "Bytes \<Rightarrow> BigInt \<Rightarrow> BigInt \<Rightarrow> PositionModifiedEvent list \<Rightarrow> bool" where
  "sameDirectionIncreases market posId oldSize [] \<longleftrightarrow> True"
| "sameDirectionIncreases market posId oldSize (ev # evs) \<longleftrightarrow>
     ev_address ev = market \<and> pm_id ev = posId \<and> pm_tradeSize ev \<noteq> 0 \<and>
     \<not> ((oldSize < 0 \<and> pm_size ev > 0) \<or> (oldSize > 0 \<and> pm_size ev < 0)) \<and>
     \<bar>pm_size ev\<bar> > \<bar>oldSize\<bar> \<and>
     sameDirectionIncreases market posId (pm_size ev) evs"

fun weightedVolume :: "PositionModifiedEvent list \<Rightarrow> BigInt" where
  "weightedVolume [] = 0"
| "weightedVolume (ev # evs) = \<bar>pm_tradeSize ev\<bar> * pm_lastPrice ev + weightedVolume evs"

fun truncationSlack :: "PositionModifiedEvent list \<Rightarrow> BigInt" where
  "truncationSlack [] = 0"
| "truncationSlack (ev # evs) = (\<bar>pm_size ev\<bar> - 1) + truncationSlack evs"

section \<open>A concrete market, trader and events\<close>

text \<open>
  The inputs on which the theorems below are instantiated: one market with asset
  \<^verbatim>\<open>sETH\<close>, one trader with an isolated-margin account, and amounts at the 18-decimal
  scale.
\<close>

definition exMarket :: Bytes where "exMarket = ''MKT''"
definition exTrader :: Bytes where "exTrader = ''alice''"

definition exStore :: store where
  "exStore = emptyStore
     \<lparr> markets := [toHex exMarket \<mapsto>
         \<lparr> m_asset = Some ''sETH'', m_marketKey = ''sETHPERP'',
           m_marketStats = toHex ''sETHPERP'' \<rparr>] \<rparr>"

definition exOpen :: PositionModifiedEvent where
  "exOpen =
     \<lparr> ev_address = exMarket, ev_logIndex = 7, ev_timestamp = 1700000000,
       ev_txHash = ''tx1'', ev_txFrom = exTrader,
       pm_id = 1, pm_account = exTrader,
       pm_margin = 1000 * 10 ^ 18, pm_size = 10 * 10 ^ 18, pm_tradeSize = 10 * 10 ^ 18,
       pm_lastPrice = 100 * 10 ^ 18, pm_fundingIndex = 3, pm_fee = 5 * 10 ^ 18 \<rparr>"

definition exOpenV2 :: PositionModifiedV2Event where
  "exOpenV2 = PositionModifiedEvent.extend exOpen \<lparr> pm_skew = 42 \<rparr>"

definition exStoreOpen :: store where
  "exStoreOpen = (case handlePositionModified exOpen exStore of Inl e \<Rightarrow> exStore | Inr s \<Rightarrow> s)"

definition exLiquidated :: PositionLiquidatedEvent where
  "exLiquidated =
     \<lparr> ev_address = exMarket, ev_logIndex = 9, ev_timestamp = 1700003600,
       ev_txHash = ''tx2'', ev_txFrom = ''keeper'',
       pl_id = 1, pl_account = exTrader, pl_size = 10 * 10 ^ 18, pl_fee = 2 * 10 ^ 18 \<rparr>"

definition exLiquidatedV2 :: PositionLiquidatedV2Event where
  "exLiquidatedV2 =
     \<lparr> ev_address = exMarket, ev_logIndex = 9, ev_timestamp = 1700003600,
       ev_txHash = ''tx2'', ev_txFrom = ''keeper'',
       pl2_id = 1, pl2_account = exTrader, pl2_size = 10 * 10 ^ 18,
       pl2_flaggerFee = 10 ^ 18, pl2_liquidatorFee = 10 ^ 18, pl2_stakersFee = 3 * 10 ^ 18 \<rparr>"

definition exIncrease :: PositionModifiedEvent where
  "exIncrease =
     \<lparr> ev_address = exMarket, ev_logIndex = 4, ev_timestamp = 1700000600,
       ev_txHash = ''tx3'', ev_txFrom = exTrader,
       pm_id = 1, pm_account = exTrader,
       pm_margin = 1000 * 10 ^ 18, pm_size = 15 * 10 ^ 18, pm_tradeSize = 5 * 10 ^ 18,
       pm_lastPrice = 110 * 10 ^ 18, pm_fundingIndex = 3, pm_fee = 3 * 10 ^ 18 \<rparr>"

definition exIncreaseAgain :: PositionModifiedEvent where
  "exIncreaseAgain =
     \<lparr> ev_address = exMarket, ev_logIndex = 2, ev_timestamp = 1700000700,
       ev_txHash = ''tx4'', ev_txFrom = exTrader,
       pm_id = 1, pm_account = exTrader,
       pm_margin = 1000 * 10 ^ 18, pm_size = 20 * 10 ^ 18, pm_tradeSize = 5 * 10 ^ 18,
       pm_lastPrice = 110 * 10 ^ 18, pm_fundingIndex = 3, pm_fee = 3 * 10 ^ 18 \<rparr>"

definition exIncreaseBoth :: PositionModifiedEvent where
  "exIncreaseBoth =
     \<lparr> ev_address = exMarket, ev_logIndex = 4, ev_timestamp = 1700000600,
       ev_txHash = ''tx3'', ev_txFrom = exTrader,
       pm_id = 1, pm_account = exTrader,
       pm_margin = 1000 * 10 ^ 18, pm_size = 20 * 10 ^ 18, pm_tradeSize = 10 * 10 ^ 18,
       pm_lastPrice = 110 * 10 ^ 18, pm_fundingIndex = 3, pm_fee = 6 * 10 ^ 18 \<rparr>"

definition exClose :: PositionModifiedEvent where
  "exClose =
     \<lparr> ev_address = exMarket, ev_logIndex = 11, ev_timestamp = 1700007200,
       ev_txHash = ''tx5'', ev_txFrom = exTrader,
       pm_id = 1, pm_account = exTrader,
       pm_margin = 1195 * 10 ^ 18, pm_size = 0, pm_tradeSize = - (10 * 10 ^ 18),
       pm_lastPrice = 120 * 10 ^ 18, pm_fundingIndex = 3, pm_fee = 5 * 10 ^ 18 \<rparr>"

definition exTransfer :: MarginTransferredEvent where
  "exTransfer =
     \<lparr> ev_address = exMarket, ev_logIndex = 20, ev_timestamp = 1700010000,
       ev_txHash = ''tx6'', ev_txFrom = ''bob'',
       mtr_account = ''bob'', mtr_marginDelta = 500 * 10 ^ 18 \<rparr>"

definition exAfterTransfer :: PositionModifiedEvent where
  "exAfterTransfer =
     \<lparr> ev_address = exMarket, ev_logIndex = 21, ev_timestamp = 1700010000,
       ev_txHash = ''tx6'', ev_txFrom = ''bob'',
       pm_id = 2, pm_account = ''bob'',
       pm_margin = 0, pm_size = 0, pm_tradeSize = 0,
       pm_lastPrice = 100 * 10 ^ 18, pm_fundingIndex = 3, pm_fee = 0 \<rparr>"

definition exStoreTransferred :: store where
  "exStoreTransferred = handleMarginTransferred exTransfer exStore"

definition exPrecursor :: PositionModifiedEvent where
  "exPrecursor =
     \<lparr> ev_address = exMarket, ev_logIndex = 8, ev_timestamp = 1700003600,
       ev_txHash = ''tx2'', ev_txFrom = ''keeper'',
       pm_id = 1, pm_account = exTrader,
       pm_margin = 0, pm_size = 0, pm_tradeSize = 0,
       pm_lastPrice = 1 * 10 ^ 18, pm_fundingIndex = 3, pm_fee = 1 * 10 ^ 18 \<rparr>"

definition exStorePrecursor :: store where
  "exStorePrecursor =
     (case handlePositionModified exPrecursor exStoreOpen of
        Inl e \<Rightarrow> exStoreOpen | Inr s \<Rightarrow> s)"

definition exStoreFunded :: store where
  "exStoreFunded = exStoreOpen
     \<lparr> fundingRateUpdates :=
         [fundingRateUpdateIdOf exMarket 3 \<mapsto>
            \<lparr> fr_timestamp = 1699990000, fr_market = exMarket, fr_sequenceLength = 3,
              fr_funding = 7 * 10 ^ 18, fr_fundingRate = 10 ^ 15,
              fr_asset = Some ''sETH'', fr_marketKey = ''sETHPERP'' \<rparr>,
          fundingRateUpdateIdOf exMarket 5 \<mapsto>
            \<lparr> fr_timestamp = 1700000500, fr_market = exMarket, fr_sequenceLength = 5,
              fr_funding = 9 * 10 ^ 18, fr_fundingRate = 10 ^ 15,
              fr_asset = Some ''sETH'', fr_marketKey = ''sETHPERP'' \<rparr>] \<rparr>"

definition exFunded :: PositionModifiedEvent where
  "exFunded =
     \<lparr> ev_address = exMarket, ev_logIndex = 4, ev_timestamp = 1700000600,
       ev_txHash = ''tx3'', ev_txFrom = exTrader,
       pm_id = 1, pm_account = exTrader,
       pm_margin = 1000 * 10 ^ 18, pm_size = 15 * 10 ^ 18, pm_tradeSize = 5 * 10 ^ 18,
       pm_lastPrice = 110 * 10 ^ 18, pm_fundingIndex = 5, pm_fee = 3 * 10 ^ 18 \<rparr>"

definition exLiquidatedMissing :: PositionLiquidatedEvent where
  "exLiquidatedMissing =
     \<lparr> ev_address = exMarket, ev_logIndex = 9, ev_timestamp = 1700003600,
       ev_txHash = ''tx2'', ev_txFrom = ''keeper'',
       pl_id = 99, pl_account = exTrader, pl_size = 10 * 10 ^ 18, pl_fee = 2 * 10 ^ 18 \<rparr>"

definition exSubmitAlice :: DelayedOrderSubmittedEvent where
  "exSubmitAlice =
     \<lparr> ev_address = exMarket, ev_logIndex = 3, ev_timestamp = 1699999900,
       ev_txHash = ''tx0'', ev_txFrom = exTrader,
       dos_account = exTrader, dos_sizeDelta = 10 * 10 ^ 18, dos_targetRoundId = 77,
       dos_isOffchain = True \<rparr>"

definition exSubmitCarol :: DelayedOrderSubmittedEvent where
  "exSubmitCarol =
     \<lparr> ev_address = exMarket, ev_logIndex = 5, ev_timestamp = 1699999950,
       ev_txHash = ''tx0b'', ev_txFrom = ''carol'',
       dos_account = ''carol'', dos_sizeDelta = 10 ^ 18, dos_targetRoundId = 78,
       dos_isOffchain = False \<rparr>"

definition exStoreOrders :: store where
  "exStoreOrders =
     (case handleEvents [] []
             [DelayedOrderSubmitted exSubmitAlice, DelayedOrderSubmitted exSubmitCarol,
              PositionModified exOpen] exStore of
        Inl e \<Rightarrow> exStore | Inr s \<Rightarrow> s)"

definition exRemoveAlice :: DelayedOrderRemovedEvent where
  "exRemoveAlice =
     \<lparr> ev_address = exMarket, ev_logIndex = 8, ev_timestamp = 1700000000,
       ev_txHash = ''tx1'', ev_txFrom = ''keeper'',
       dor_account = exTrader, dor_targetRoundId = 77, dor_keeperDeposit = 10 ^ 18,
       dor_trackingCode = ''KWENTA'' \<rparr>"

definition exRemoveCarol :: DelayedOrderRemovedEvent where
  "exRemoveCarol =
     \<lparr> ev_address = exMarket, ev_logIndex = 8, ev_timestamp = 1700000000,
       ev_txHash = ''tx1'', ev_txFrom = ''keeper'',
       dor_account = ''carol'', dor_targetRoundId = 78, dor_keeperDeposit = 10 ^ 18,
       dor_trackingCode = ''KWENTA'' \<rparr>"

definition exMarketAdded :: MarketAddedEvent where
  "exMarketAdded =
     \<lparr> ev_address = ''manager'', ev_logIndex = 1, ev_timestamp = 1699000000,
       ev_txHash = ''txm'', ev_txFrom = ''owner'',
       mad_market = exMarket, mad_asset = ''sETH'', mad_marketKey = ''sETHPERP'' \<rparr>"

section \<open>What each block of the handlers leaves unchanged\<close>

lemma updateAggregatePeriod_frame:
  "updateAggregatePeriod at mk a ts n v fs fk p s = Inr s' \<Longrightarrow>
     smartMarginAccounts s' = smartMarginAccounts s \<and>
     markets s' = markets s \<and>
     positions s' = positions s \<and>
     trades s' = trades s \<and>
     stats s' = stats s \<and>
     cumulativeStats s' = cumulativeStats s \<and>
     marginTransfers s' = marginTransfers s \<and>
     marginAccounts s' = marginAccounts s \<and>
     fundingPayments s' = fundingPayments s \<and>
     fundingRateUpdates s' = fundingRateUpdates s \<and>
     orders s' = orders s \<and>
     smartMarginOrders s' = smartMarginOrders s \<and>
     fundingRatePeriods s' = fundingRatePeriods s \<and>
     perpsMarketEntities s' = perpsMarketEntities s \<and>
     perpsMarketSources s' = perpsMarketSources s"
  unfolding updateAggregatePeriod_def Let_def
  by (auto split: sum.splits)

lemma updateAggregatePeriods_frame:
  "updateAggregatePeriods ps at mk a ts n v fs fk s = Inr s' \<Longrightarrow>
     smartMarginAccounts s' = smartMarginAccounts s \<and>
     markets s' = markets s \<and>
     positions s' = positions s \<and>
     trades s' = trades s \<and>
     stats s' = stats s \<and>
     cumulativeStats s' = cumulativeStats s \<and>
     marginTransfers s' = marginTransfers s \<and>
     marginAccounts s' = marginAccounts s \<and>
     fundingPayments s' = fundingPayments s \<and>
     fundingRateUpdates s' = fundingRateUpdates s \<and>
     orders s' = orders s \<and>
     smartMarginOrders s' = smartMarginOrders s \<and>
     fundingRatePeriods s' = fundingRatePeriods s \<and>
     perpsMarketEntities s' = perpsMarketEntities s \<and>
     perpsMarketSources s' = perpsMarketSources s"
proof (induction ps arbitrary: s)
  case Nil
  then show ?case by simp
next
  case (Cons p ps)
  from Cons.prems obtain s1 where
    s1: "updateAggregatePeriod at mk a ts n v fs fk p s = Inr s1" and
    rest: "updateAggregatePeriods ps at mk a ts n v fs fk s1 = Inr s'"
    by (auto split: sum.splits)
  from updateAggregatePeriod_frame [OF s1] Cons.IH [OF rest]
  show ?case by simp
qed

lemma updateAggregateStatEntities_frame:
  assumes "updateAggregateStatEntities at mk a ts n v fs fk s = Inr s'"
  shows "smartMarginAccounts s' = smartMarginAccounts s"
    and "markets s' = markets s"
    and "positions s' = positions s"
    and "trades s' = trades s"
    and "stats s' = stats s"
    and "cumulativeStats s' = cumulativeStats s"
    and "marginTransfers s' = marginTransfers s"
    and "marginAccounts s' = marginAccounts s"
    and "fundingPayments s' = fundingPayments s"
    and "fundingRateUpdates s' = fundingRateUpdates s"
    and "orders s' = orders s"
    and "smartMarginOrders s' = smartMarginOrders s"
    and "fundingRatePeriods s' = fundingRatePeriods s"
    and "perpsMarketEntities s' = perpsMarketEntities s"
    and "perpsMarketSources s' = perpsMarketSources s"
  using updateAggregatePeriods_frame [OF assms [unfolded updateAggregateStatEntities_def]]
  by simp_all

lemma updateMarketStats_frame:
  assumes "updateMarketStats ev me at pos s = Inr s'"
  shows "smartMarginAccounts s' = smartMarginAccounts s"
    and "markets s' = markets s"
    and "positions s' = positions s"
    and "trades s' = trades s"
    and "stats s' = stats s"
    and "marginTransfers s' = marginTransfers s"
    and "marginAccounts s' = marginAccounts s"
    and "fundingPayments s' = fundingPayments s"
    and "fundingRateUpdates s' = fundingRateUpdates s"
    and "orders s' = orders s"
    and "smartMarginOrders s' = smartMarginOrders s"
    and "fundingRatePeriods s' = fundingRatePeriods s"
    and "perpsMarketEntities s' = perpsMarketEntities s"
    and "perpsMarketSources s' = perpsMarketSources s"
proof -
  have "s' = s \<or> (\<exists>k c a. updateAggregateStatEntities at (p_marketKey pos) a (ev_timestamp ev)
           ONE (tradeVolume ev) (pm_fee ev) ZERO
           (s\<lparr> cumulativeStats := (cumulativeStats s)(k \<mapsto> c) \<rparr>) = Inr s')"
    using assms
    by (auto simp: updateMarketStats_def Let_def split: sum.splits option.splits)
  then have "smartMarginAccounts s' = smartMarginAccounts s \<and>
        markets s' = markets s \<and>
        positions s' = positions s \<and>
        trades s' = trades s \<and>
        stats s' = stats s \<and>
        marginTransfers s' = marginTransfers s \<and>
        marginAccounts s' = marginAccounts s \<and>
        fundingPayments s' = fundingPayments s \<and>
        fundingRateUpdates s' = fundingRateUpdates s \<and>
        orders s' = orders s \<and>
        smartMarginOrders s' = smartMarginOrders s \<and>
        fundingRatePeriods s' = fundingRatePeriods s \<and>
        perpsMarketEntities s' = perpsMarketEntities s \<and>
        perpsMarketSources s' = perpsMarketSources s"
  proof
    assume "s' = s"
    then show ?thesis by simp
  next
    assume "\<exists>k c a. updateAggregateStatEntities at (p_marketKey pos) a (ev_timestamp ev)
           ONE (tradeVolume ev) (pm_fee ev) ZERO
           (s\<lparr> cumulativeStats := (cumulativeStats s)(k \<mapsto> c) \<rparr>) = Inr s'"
    then obtain k c a where u: "updateAggregateStatEntities at (p_marketKey pos) a
           (ev_timestamp ev) ONE (tradeVolume ev) (pm_fee ev) ZERO
           (s\<lparr> cumulativeStats := (cumulativeStats s)(k \<mapsto> c) \<rparr>) = Inr s'"
      by blast
    show ?thesis using updateAggregateStatEntities_frame [OF u] by simp
  qed
  then show "smartMarginAccounts s' = smartMarginAccounts s"
    and "markets s' = markets s"
    and "positions s' = positions s"
    and "trades s' = trades s"
    and "stats s' = stats s"
    and "marginTransfers s' = marginTransfers s"
    and "marginAccounts s' = marginAccounts s"
    and "fundingPayments s' = fundingPayments s"
    and "fundingRateUpdates s' = fundingRateUpdates s"
    and "orders s' = orders s"
    and "smartMarginOrders s' = smartMarginOrders s"
    and "fundingRatePeriods s' = fundingRatePeriods s"
    and "perpsMarketEntities s' = perpsMarketEntities s"
    and "perpsMarketSources s' = perpsMarketSources s"
    by simp_all
qed

lemma accrueFunding_frame:
  shows "smartMarginAccounts (cx_store (accrueFunding ev account cx)) = smartMarginAccounts (cx_store cx)"
    and "markets (cx_store (accrueFunding ev account cx)) = markets (cx_store cx)"
    and "positions (cx_store (accrueFunding ev account cx)) = positions (cx_store cx)"
    and "trades (cx_store (accrueFunding ev account cx)) = trades (cx_store cx)"
    and "stats (cx_store (accrueFunding ev account cx)) = stats (cx_store cx)"
    and "cumulativeStats (cx_store (accrueFunding ev account cx)) = cumulativeStats (cx_store cx)"
    and "aggregateStats (cx_store (accrueFunding ev account cx)) = aggregateStats (cx_store cx)"
    and "marginTransfers (cx_store (accrueFunding ev account cx)) = marginTransfers (cx_store cx)"
    and "marginAccounts (cx_store (accrueFunding ev account cx)) = marginAccounts (cx_store cx)"
    and "fundingRateUpdates (cx_store (accrueFunding ev account cx)) = fundingRateUpdates (cx_store cx)"
    and "orders (cx_store (accrueFunding ev account cx)) = orders (cx_store cx)"
    and "smartMarginOrders (cx_store (accrueFunding ev account cx)) = smartMarginOrders (cx_store cx)"
    and "fundingRatePeriods (cx_store (accrueFunding ev account cx)) = fundingRatePeriods (cx_store cx)"
    and "perpsMarketEntities (cx_store (accrueFunding ev account cx)) = perpsMarketEntities (cx_store cx)"
    and "perpsMarketSources (cx_store (accrueFunding ev account cx)) = perpsMarketSources (cx_store cx)"
  by (simp_all add: accrueFunding_def Let_def split: option.splits)

lemma accrueFunding_cumulative:
  "cx_cumulative (accrueFunding ev account cx) = cx_cumulative cx"
  by (simp add: accrueFunding_def Let_def split: option.splits)

lemma applyMarginChange_frame:
  shows "smartMarginAccounts (cx_store (applyMarginChange ev account at fa cx)) = smartMarginAccounts (cx_store cx)"
    and "markets (cx_store (applyMarginChange ev account at fa cx)) = markets (cx_store cx)"
    and "positions (cx_store (applyMarginChange ev account at fa cx)) = positions (cx_store cx)"
    and "stats (cx_store (applyMarginChange ev account at fa cx)) = stats (cx_store cx)"
    and "cumulativeStats (cx_store (applyMarginChange ev account at fa cx)) = cumulativeStats (cx_store cx)"
    and "aggregateStats (cx_store (applyMarginChange ev account at fa cx)) = aggregateStats (cx_store cx)"
    and "marginTransfers (cx_store (applyMarginChange ev account at fa cx)) = marginTransfers (cx_store cx)"
    and "marginAccounts (cx_store (applyMarginChange ev account at fa cx)) = marginAccounts (cx_store cx)"
    and "fundingPayments (cx_store (applyMarginChange ev account at fa cx)) = fundingPayments (cx_store cx)"
    and "fundingRateUpdates (cx_store (applyMarginChange ev account at fa cx)) = fundingRateUpdates (cx_store cx)"
    and "orders (cx_store (applyMarginChange ev account at fa cx)) = orders (cx_store cx)"
    and "smartMarginOrders (cx_store (applyMarginChange ev account at fa cx)) = smartMarginOrders (cx_store cx)"
    and "fundingRatePeriods (cx_store (applyMarginChange ev account at fa cx)) = fundingRatePeriods (cx_store cx)"
    and "perpsMarketEntities (cx_store (applyMarginChange ev account at fa cx)) = perpsMarketEntities (cx_store cx)"
    and "perpsMarketSources (cx_store (applyMarginChange ev account at fa cx)) = perpsMarketSources (cx_store cx)"
  by (simp_all add: applyMarginChange_def Let_def split: option.splits)

lemma applyTrade_frame:
  assumes "applyTrade ev me account at fa cx = Inr cx'"
  shows "smartMarginAccounts (cx_store cx') = smartMarginAccounts (cx_store cx)"
    and "markets (cx_store cx') = markets (cx_store cx)"
    and "positions (cx_store cx') = positions (cx_store cx)"
    and "stats (cx_store cx') = stats (cx_store cx)"
    and "marginTransfers (cx_store cx') = marginTransfers (cx_store cx)"
    and "marginAccounts (cx_store cx') = marginAccounts (cx_store cx)"
    and "fundingPayments (cx_store cx') = fundingPayments (cx_store cx)"
    and "fundingRateUpdates (cx_store cx') = fundingRateUpdates (cx_store cx)"
    and "orders (cx_store cx') = orders (cx_store cx)"
    and "smartMarginOrders (cx_store cx') = smartMarginOrders (cx_store cx)"
    and "fundingRatePeriods (cx_store cx') = fundingRatePeriods (cx_store cx)"
    and "perpsMarketEntities (cx_store cx') = perpsMarketEntities (cx_store cx)"
    and "perpsMarketSources (cx_store cx') = perpsMarketSources (cx_store cx)"
proof -
  from assms obtain tr ps where
    u: "updateMarketStats ev me at ps
          ((cx_store cx)\<lparr> trades := (trades (cx_store cx))
              (tradeIdOf (ev_txHash ev) (ev_logIndex ev) \<mapsto> tr) \<rparr>) = Inr (cx_store cx')"
    by (auto simp: applyTrade_def Let_def split: sum.splits prod.splits)
  note f = updateMarketStats_frame [OF u]
  show "smartMarginAccounts (cx_store cx') = smartMarginAccounts (cx_store cx)"
    and "markets (cx_store cx') = markets (cx_store cx)"
    and "positions (cx_store cx') = positions (cx_store cx)"
    and "stats (cx_store cx') = stats (cx_store cx)"
    and "marginTransfers (cx_store cx') = marginTransfers (cx_store cx)"
    and "marginAccounts (cx_store cx') = marginAccounts (cx_store cx)"
    and "fundingPayments (cx_store cx') = fundingPayments (cx_store cx)"
    and "fundingRateUpdates (cx_store cx') = fundingRateUpdates (cx_store cx)"
    and "orders (cx_store cx') = orders (cx_store cx)"
    and "smartMarginOrders (cx_store cx') = smartMarginOrders (cx_store cx)"
    and "fundingRatePeriods (cx_store cx') = fundingRatePeriods (cx_store cx)"
    and "perpsMarketEntities (cx_store cx') = perpsMarketEntities (cx_store cx)"
    and "perpsMarketSources (cx_store cx') = perpsMarketSources (cx_store cx)"
    using f by simp_all
qed

lemma loadEntities_store: "cx_store (loadEntities ev s) = s"
  by (simp add: loadEntities_def Let_def)

lemma applyEvent_frame:
  assumes "applyEvent ev s = Inr cx"
  shows "smartMarginAccounts (cx_store cx) = smartMarginAccounts s"
    and "markets (cx_store cx) = markets s"
    and "positions (cx_store cx) = positions s"
    and "stats (cx_store cx) = stats s"
    and "marginTransfers (cx_store cx) = marginTransfers s"
    and "marginAccounts (cx_store cx) = marginAccounts s"
    and "fundingRateUpdates (cx_store cx) = fundingRateUpdates s"
    and "orders (cx_store cx) = orders s"
    and "smartMarginOrders (cx_store cx) = smartMarginOrders s"
    and "fundingRatePeriods (cx_store cx) = fundingRatePeriods s"
    and "perpsMarketEntities (cx_store cx) = perpsMarketEntities s"
    and "perpsMarketSources (cx_store cx) = perpsMarketSources s"
proof -
  define account where "account = fst (resolveAccount s (pm_account ev))"
  define cx1 where "cx1 = accrueFunding ev account (loadEntities ev s)"
  note f1 = accrueFunding_frame [of ev account "loadEntities ev s", folded cx1_def,
      unfolded loadEntities_store]
  have "smartMarginAccounts (cx_store cx) = smartMarginAccounts s \<and>
        markets (cx_store cx) = markets s \<and>
        positions (cx_store cx) = positions s \<and>
        stats (cx_store cx) = stats s \<and>
        marginTransfers (cx_store cx) = marginTransfers s \<and>
        marginAccounts (cx_store cx) = marginAccounts s \<and>
        fundingRateUpdates (cx_store cx) = fundingRateUpdates s \<and>
        orders (cx_store cx) = orders s \<and>
        smartMarginOrders (cx_store cx) = smartMarginOrders s \<and>
        fundingRatePeriods (cx_store cx) = fundingRatePeriods s \<and>
        perpsMarketEntities (cx_store cx) = perpsMarketEntities s \<and>
        perpsMarketSources (cx_store cx) = perpsMarketSources s"
  proof (cases "pm_tradeSize ev = 0")
    case True
    with assms have cx: "cx = applyMarginChange ev account
        (snd (resolveAccount s (pm_account ev))) (fundingAccruedOf ev (loadEntities ev s)) cx1"
      by (simp add: applyEvent_def Let_def cx1_def account_def)
    show ?thesis unfolding cx using f1 by (simp add: applyMarginChange_frame)
  next
    case False
    with assms have a: "applyTrade ev (markets s (toHex (ev_address ev))) account
        (snd (resolveAccount s (pm_account ev))) (fundingAccruedOf ev (loadEntities ev s)) cx1
        = Inr cx"
      by (simp add: applyEvent_def Let_def cx1_def account_def)
    show ?thesis using applyTrade_frame [OF a] f1 by simp
  qed
  then show "smartMarginAccounts (cx_store cx) = smartMarginAccounts s"
    and "markets (cx_store cx) = markets s"
    and "positions (cx_store cx) = positions s"
    and "stats (cx_store cx) = stats s"
    and "marginTransfers (cx_store cx) = marginTransfers s"
    and "marginAccounts (cx_store cx) = marginAccounts s"
    and "fundingRateUpdates (cx_store cx) = fundingRateUpdates s"
    and "orders (cx_store cx) = orders s"
    and "smartMarginOrders (cx_store cx) = smartMarginOrders s"
    and "fundingRatePeriods (cx_store cx) = fundingRatePeriods s"
    and "perpsMarketEntities (cx_store cx) = perpsMarketEntities s"
    and "perpsMarketSources (cx_store cx) = perpsMarketSources s"
    by simp_all
qed

lemma handlePositionModified_Inr:
  assumes "handlePositionModified ev s = Inr s'"
  obtains cx where "applyEvent ev s = Inr cx"
    and "s' = saveEntities ev (fst (resolveAccount s (pm_account ev)))
               (marginAccounts s (marginAccountIdOf (pm_account ev) (ev_address ev))) cx"
  using assms by (auto simp: handlePositionModified_def Let_def split: sum.splits)

lemma saveEntities_positions:
  "positions (saveEntities ev account ma cx) =
     (positions (cx_store cx))
       (positionIdOf (ev_address ev) (pm_id ev) \<mapsto> updateGlobalPosition ev (cx_position cx))"
  by (simp add: saveEntities_def Let_def split: option.splits)

lemma saveEntities_stats:
  "stats (saveEntities ev account ma cx) =
     (stats (cx_store cx))(toHex account \<mapsto> updateGlobalStat ev (cx_stat cx))"
  by (simp add: saveEntities_def Let_def split: option.splits)

lemma saveEntities_others:
  "trades (saveEntities ev account ma cx) = trades (cx_store cx)"
  "fundingPayments (saveEntities ev account ma cx) = fundingPayments (cx_store cx)"
  "cumulativeStats (saveEntities ev account ma cx) =
     (cumulativeStats (cx_store cx))(SINGLE_INDEX \<mapsto> cx_cumulative cx)"
  by (simp_all add: saveEntities_def Let_def split: option.splits)

section \<open>The entities in hand after each block\<close>

lemma loadEntities_position:
  "cx_position (loadEntities ev s) =
     (case positions s (positionIdOf (ev_address ev) (pm_id ev)) of
        None \<Rightarrow> newFuturesPosition ev (markets s (toHex (ev_address ev)))
                  (fst (resolveAccount s (pm_account ev))) (snd (resolveAccount s (pm_account ev)))
      | Some pos \<Rightarrow> pos)"
  by (simp add: loadEntities_def Let_def)

lemma loadEntities_stat:
  "cx_stat (loadEntities ev s) =
     (case stats s (toHex (fst (resolveAccount s (pm_account ev)))) of
        None \<Rightarrow> newFuturesStat (fst (resolveAccount s (pm_account ev)))
      | Some st \<Rightarrow> st)"
  by (simp add: loadEntities_def Let_def)

lemma accrueFunding_position_fields:
  shows "p_market (cx_position (accrueFunding ev account cx)) = p_market (cx_position cx)"
    and "p_asset (cx_position (accrueFunding ev account cx)) = p_asset (cx_position cx)"
    and "p_marketKey (cx_position (accrueFunding ev account cx)) = p_marketKey (cx_position cx)"
    and "p_account (cx_position (accrueFunding ev account cx)) = p_account (cx_position cx)"
    and "p_abstractAccount (cx_position (accrueFunding ev account cx)) = p_abstractAccount (cx_position cx)"
    and "p_accountType (cx_position (accrueFunding ev account cx)) = p_accountType (cx_position cx)"
    and "p_isLiquidated (cx_position (accrueFunding ev account cx)) = p_isLiquidated (cx_position cx)"
    and "p_isOpen (cx_position (accrueFunding ev account cx)) = p_isOpen (cx_position cx)"
    and "p_size (cx_position (accrueFunding ev account cx)) = p_size (cx_position cx)"
    and "p_timestamp (cx_position (accrueFunding ev account cx)) = p_timestamp (cx_position cx)"
    and "p_openTimestamp (cx_position (accrueFunding ev account cx)) = p_openTimestamp (cx_position cx)"
    and "p_avgEntryPrice (cx_position (accrueFunding ev account cx)) = p_avgEntryPrice (cx_position cx)"
    and "p_trades (cx_position (accrueFunding ev account cx)) = p_trades (cx_position cx)"
    and "p_entryPrice (cx_position (accrueFunding ev account cx)) = p_entryPrice (cx_position cx)"
    and "p_lastPrice (cx_position (accrueFunding ev account cx)) = p_lastPrice (cx_position cx)"
    and "p_margin (cx_position (accrueFunding ev account cx)) = p_margin (cx_position cx)"
    and "p_initialMargin (cx_position (accrueFunding ev account cx)) = p_initialMargin (cx_position cx)"
    and "p_pnl (cx_position (accrueFunding ev account cx)) = p_pnl (cx_position cx)"
    and "p_feesPaid (cx_position (accrueFunding ev account cx)) = p_feesPaid (cx_position cx)"
    and "p_pnlWithFeesPaid (cx_position (accrueFunding ev account cx)) = p_pnlWithFeesPaid (cx_position cx)"
    and "p_netTransfers (cx_position (accrueFunding ev account cx)) = p_netTransfers (cx_position cx)"
    and "p_totalDeposits (cx_position (accrueFunding ev account cx)) = p_totalDeposits (cx_position cx)"
    and "p_totalVolume (cx_position (accrueFunding ev account cx)) = p_totalVolume (cx_position cx)"
    and "p_exitPrice (cx_position (accrueFunding ev account cx)) = p_exitPrice (cx_position cx)"
    and "p_closeTimestamp (cx_position (accrueFunding ev account cx)) = p_closeTimestamp (cx_position cx)"
    and "p_lastTxHash (cx_position (accrueFunding ev account cx)) = p_lastTxHash (cx_position cx)"
  by (simp_all add: accrueFunding_def Let_def split: option.splits)

lemma accrueFunding_stat_fields:
  shows "st_account (cx_stat (accrueFunding ev account cx)) = st_account (cx_stat cx)"
    and "st_pnl (cx_stat (accrueFunding ev account cx)) = st_pnl (cx_stat cx)"
    and "st_pnlWithFeesPaid (cx_stat (accrueFunding ev account cx)) = st_pnlWithFeesPaid (cx_stat cx)"
    and "st_liquidations (cx_stat (accrueFunding ev account cx)) = st_liquidations (cx_stat cx)"
    and "st_totalTrades (cx_stat (accrueFunding ev account cx)) = st_totalTrades (cx_stat cx)"
    and "st_totalVolume (cx_stat (accrueFunding ev account cx)) = st_totalVolume (cx_stat cx)"
    and "st_smartMarginVolume (cx_stat (accrueFunding ev account cx)) = st_smartMarginVolume (cx_stat cx)"
  by (simp_all add: accrueFunding_def Let_def split: option.splits)

lemma applyEvent_trade:
  assumes "applyEvent ev s = Inr cx" and "pm_tradeSize ev \<noteq> 0"
  shows "\<exists>trade stat1 pos1.
     updatePnlAndEntryPrice ev
       (newMarketTrade ev (markets s (toHex (ev_address ev)))
          (fst (resolveAccount s (pm_account ev))) (snd (resolveAccount s (pm_account ev)))
          (fundingAccruedOf ev (loadEntities ev s)))
       (cx_stat (accrueFunding ev (fst (resolveAccount s (pm_account ev))) (loadEntities ev s)))
       (cx_position (accrueFunding ev (fst (resolveAccount s (pm_account ev))) (loadEntities ev s)))
       = Inr (trade, stat1, pos1) \<and>
     trades (cx_store cx) = (trades s)(tradeIdOf (ev_txHash ev) (ev_logIndex ev) \<mapsto> trade) \<and>
     cx_position cx = pos1\<lparr> p_trades := p_trades pos1 + 1,
                              p_totalVolume := p_totalVolume pos1 + tradeVolume ev \<rparr> \<and>
     cx_stat cx = stat1\<lparr> st_totalTrades := st_totalTrades stat1 + 1,
       st_totalVolume := st_totalVolume stat1 + tradeVolume ev,
       st_smartMarginVolume :=
         (if snd (resolveAccount s (pm_account ev)) = ''smart_margin''
          then st_smartMarginVolume stat1 + tradeVolume ev
          else st_smartMarginVolume stat1) \<rparr>"
proof -
  define account where "account = fst (resolveAccount s (pm_account ev))"
  define accountType where "accountType = snd (resolveAccount s (pm_account ev))"
  define cx1 where "cx1 = accrueFunding ev account (loadEntities ev s)"
  define fa where "fa = fundingAccruedOf ev (loadEntities ev s)"
  define me where "me = markets s (toHex (ev_address ev))"
  from assms have a: "applyTrade ev me account accountType fa cx1 = Inr cx"
    by (simp add: applyEvent_def Let_def cx1_def account_def accountType_def fa_def me_def)
  then obtain trade stat1 pos1 where
    u: "updatePnlAndEntryPrice ev (newMarketTrade ev me account accountType fa)
          (cx_stat cx1) (cx_position cx1) = Inr (trade, stat1, pos1)"
    by (auto simp: applyTrade_def split: sum.splits)
  from a u obtain c1 s2 where
    m: "updateMarketStats ev me accountType
          (pos1\<lparr> p_trades := p_trades pos1 + 1,
                  p_totalVolume := p_totalVolume pos1 + tradeVolume ev \<rparr>)
          ((cx_store cx1)\<lparr> trades := (trades (cx_store cx1))
              (tradeIdOf (ev_txHash ev) (ev_logIndex ev) \<mapsto> trade) \<rparr>) = Inr s2"
    and cx: "cx = \<lparr> cx_store = s2,
          cx_stat = stat1\<lparr> st_totalTrades := st_totalTrades stat1 + 1,
            st_totalVolume := st_totalVolume stat1 + tradeVolume ev,
            st_smartMarginVolume :=
              (if accountType = ''smart_margin''
               then st_smartMarginVolume stat1 + tradeVolume ev
               else st_smartMarginVolume stat1) \<rparr>,
          cx_position = pos1\<lparr> p_trades := p_trades pos1 + 1,
                  p_totalVolume := p_totalVolume pos1 + tradeVolume ev \<rparr>,
          cx_cumulative = c1 \<rparr>"
    by (auto simp: applyTrade_def Let_def split: sum.splits)
  have "trades s2 = (trades (cx_store cx1))(tradeIdOf (ev_txHash ev) (ev_logIndex ev) \<mapsto> trade)"
    using updateMarketStats_frame [OF m] by simp
  moreover have "trades (cx_store cx1) = trades s"
    unfolding cx1_def by (simp add: accrueFunding_frame loadEntities_store)
  ultimately have "trades (cx_store cx) =
      (trades s)(tradeIdOf (ev_txHash ev) (ev_logIndex ev) \<mapsto> trade)"
    by (simp add: cx)
  with u cx show ?thesis
    unfolding cx1_def account_def accountType_def fa_def me_def by auto
qed

lemma applyEvent_marginChange:
  assumes "applyEvent ev s = Inr cx" and "pm_tradeSize ev = 0"
  shows "cx = applyMarginChange ev (fst (resolveAccount s (pm_account ev)))
     (snd (resolveAccount s (pm_account ev))) (fundingAccruedOf ev (loadEntities ev s))
     (accrueFunding ev (fst (resolveAccount s (pm_account ev))) (loadEntities ev s))"
  using assms by (simp add: applyEvent_def Let_def)

section \<open>The position identity (C1)\<close>

lemma updateGlobalPosition_identity: "positionPnlIdentity (updateGlobalPosition ev pos)"
  by (simp add: positionPnlIdentity_def updateGlobalPosition_def Let_def)

lemma liquidatePosition_identity: "positionPnlIdentity (liquidatePosition ts fee pos)"
  by (simp add: positionPnlIdentity_def liquidatePosition_def Let_def)

lemma handlePositionModified_positions:
  assumes "handlePositionModified ev s = Inr s'"
  shows "\<exists>cx. applyEvent ev s = Inr cx \<and>
     positions s' = (positions s)
           (positionIdOf (ev_address ev) (pm_id ev) \<mapsto> updateGlobalPosition ev (cx_position cx))"
proof -
  from assms obtain cx where cx: "applyEvent ev s = Inr cx"
    and s': "s' = saveEntities ev (fst (resolveAccount s (pm_account ev)))
               (marginAccounts s (marginAccountIdOf (pm_account ev) (ev_address ev))) cx"
    by (rule handlePositionModified_Inr)
  have "positions s' = (positions s)
           (positionIdOf (ev_address ev) (pm_id ev) \<mapsto> updateGlobalPosition ev (cx_position cx))"
    unfolding s' saveEntities_positions by (simp add: applyEvent_frame [OF cx])
  with cx show ?thesis by blast
qed

lemma handlePositionLiquidated_positions:
  "positions (handlePositionLiquidated ev s) =
     (case positions s (positionIdOf (ev_address ev) (pl_id ev)) of
        None \<Rightarrow> positions s
      | Some pos \<Rightarrow> (positions s)(positionIdOf (ev_address ev) (pl_id ev) \<mapsto>
          liquidatePosition (ev_timestamp ev) (pl_fee ev) pos))"
  by (simp add: handlePositionLiquidated_def Let_def split: option.splits)

lemma handlePositionLiquidatedV2_positions:
  "positions (handlePositionLiquidatedV2 ev s) =
     (case positions s (positionIdOf (ev_address ev) (pl2_id ev)) of
        None \<Rightarrow> positions s
      | Some pos \<Rightarrow> (positions s)(positionIdOf (ev_address ev) (pl2_id ev) \<mapsto>
          liquidatePosition (ev_timestamp ev)
            (pl2_flaggerFee ev + pl2_liquidatorFee ev + pl2_stakersFee ev) pos))"
  by (simp add: handlePositionLiquidatedV2_def Let_def split: option.splits)

lemma truncate_fields [simp]:
  "ev_address (PositionModifiedEvent.truncate ev2) = ev_address ev2"
  "pm_id (PositionModifiedEvent.truncate ev2) = pm_id ev2"
  by (simp_all add: PositionModifiedEvent.truncate_def)

text \<open>
  C1. Every position that \<^verbatim>\<open>handlePositionModified\<close>, \<^verbatim>\<open>handlePositionModifiedV2\<close>,
  \<^verbatim>\<open>handlePositionLiquidated\<close> or \<^verbatim>\<open>handlePositionLiquidatedV2\<close> saves satisfies
  \<^verbatim>\<open>pnlWithFeesPaid = pnl - feesPaid + netFunding\<close>: the handler writes the position of
  the event's key, which satisfies the identity, and no other position (a liquidation
  of a missing position writes none).
\<close>

theorem position_pnlWithFeesPaid_identity:
  "(handlePositionModified ev s = Inr s1 \<longrightarrow>
      (\<exists>p. positionPnlIdentity p \<and>
           positions s1 = (positions s)(positionIdOf (ev_address ev) (pm_id ev) \<mapsto> p))) \<and>
   (handlePositionModifiedV2 ev2 s = Inr s2 \<longrightarrow>
      (\<exists>p. positionPnlIdentity p \<and>
           positions s2 = (positions s)(positionIdOf (ev_address ev2) (pm_id ev2) \<mapsto> p))) \<and>
   (case positions s (positionIdOf (ev_address lev) (pl_id lev)) of
      None \<Rightarrow> positions (handlePositionLiquidated lev s) = positions s
    | Some p0 \<Rightarrow>
        (\<exists>p. positionPnlIdentity p \<and>
             positions (handlePositionLiquidated lev s) =
               (positions s)(positionIdOf (ev_address lev) (pl_id lev) \<mapsto> p))) \<and>
   (case positions s (positionIdOf (ev_address lev2) (pl2_id lev2)) of
      None \<Rightarrow> positions (handlePositionLiquidatedV2 lev2 s) = positions s
    | Some p0 \<Rightarrow>
        (\<exists>p. positionPnlIdentity p \<and>
             positions (handlePositionLiquidatedV2 lev2 s) =
               (positions s)(positionIdOf (ev_address lev2) (pl2_id lev2) \<mapsto> p)))"
proof (intro conjI impI)
  assume "handlePositionModified ev s = Inr s1"
  from handlePositionModified_positions [OF this]
  obtain cx :: pm_state where "positions s1 = (positions s)
      (positionIdOf (ev_address ev) (pm_id ev) \<mapsto> updateGlobalPosition ev (cx_position cx))"
    by auto
  then show "\<exists>p. positionPnlIdentity p \<and>
      positions s1 = (positions s)(positionIdOf (ev_address ev) (pm_id ev) \<mapsto> p)"
    using updateGlobalPosition_identity by blast
next
  assume "handlePositionModifiedV2 ev2 s = Inr s2"
  then have "handlePositionModified (PositionModifiedEvent.truncate ev2) s = Inr s2"
    by (simp add: handlePositionModifiedV2_def)
  from handlePositionModified_positions [OF this]
  obtain cx :: pm_state where "positions s2 = (positions s)
      (positionIdOf (ev_address ev2) (pm_id ev2) \<mapsto>
       updateGlobalPosition (PositionModifiedEvent.truncate ev2) (cx_position cx))"
    unfolding truncate_fields by auto
  then show "\<exists>p. positionPnlIdentity p \<and>
      positions s2 = (positions s)(positionIdOf (ev_address ev2) (pm_id ev2) \<mapsto> p)"
    using updateGlobalPosition_identity by blast
next
  show "case positions s (positionIdOf (ev_address lev) (pl_id lev)) of
      None \<Rightarrow> positions (handlePositionLiquidated lev s) = positions s
    | Some p0 \<Rightarrow>
        (\<exists>p. positionPnlIdentity p \<and>
             positions (handlePositionLiquidated lev s) =
               (positions s)(positionIdOf (ev_address lev) (pl_id lev) \<mapsto> p))"
    using liquidatePosition_identity
    by (auto simp: handlePositionLiquidated_positions split: option.splits)
next
  show "case positions s (positionIdOf (ev_address lev2) (pl2_id lev2)) of
      None \<Rightarrow> positions (handlePositionLiquidatedV2 lev2 s) = positions s
    | Some p0 \<Rightarrow>
        (\<exists>p. positionPnlIdentity p \<and>
             positions (handlePositionLiquidatedV2 lev2 s) =
               (positions s)(positionIdOf (ev_address lev2) (pl2_id lev2) \<mapsto> p))"
    using liquidatePosition_identity
    by (auto simp: handlePositionLiquidatedV2_positions split: option.splits)
qed

lemma exOpen_runs: "\<exists>s'. handlePositionModified exOpen exStore = Inr s'"
proof -
  have "case handlePositionModified exOpen exStore of Inl e \<Rightarrow> False | Inr s \<Rightarrow> True"
    by code_simp
  then show ?thesis by (auto split: sum.splits)
qed

lemma exOpenV2_runs: "\<exists>s'. handlePositionModifiedV2 exOpenV2 exStore = Inr s'"
proof -
  have "case handlePositionModifiedV2 exOpenV2 exStore of Inl e \<Rightarrow> False | Inr s \<Rightarrow> True"
    by code_simp
  then show ?thesis by (auto split: sum.splits)
qed

lemma exStoreOpen_position:
  "positions exStoreOpen (positionIdOf (ev_address exLiquidated) (pl_id exLiquidated)) \<noteq> None"
  by code_simp

lemma exStoreOpen_positionV2:
  "positions exStoreOpen (positionIdOf (ev_address exLiquidatedV2) (pl2_id exLiquidatedV2)) \<noteq> None"
  by code_simp

theorem position_pnlWithFeesPaid_identity_witness:
  "(\<exists>s1 p. handlePositionModified exOpen exStore = Inr s1 \<and> positionPnlIdentity p \<and>
      positions s1 (positionIdOf (ev_address exOpen) (pm_id exOpen)) = Some p) \<and>
   (\<exists>s2 p. handlePositionModifiedV2 exOpenV2 exStore = Inr s2 \<and> positionPnlIdentity p \<and>
      positions s2 (positionIdOf (ev_address exOpenV2) (pm_id exOpenV2)) = Some p) \<and>
   (\<exists>p0 p. positions exStoreOpen (positionIdOf (ev_address exLiquidated) (pl_id exLiquidated))
        = Some p0 \<and> positionPnlIdentity p \<and>
      positions (handlePositionLiquidated exLiquidated exStoreOpen)
        (positionIdOf (ev_address exLiquidated) (pl_id exLiquidated)) = Some p) \<and>
   (\<exists>p0 p. positions exStoreOpen
        (positionIdOf (ev_address exLiquidatedV2) (pl2_id exLiquidatedV2)) = Some p0 \<and>
      positionPnlIdentity p \<and>
      positions (handlePositionLiquidatedV2 exLiquidatedV2 exStoreOpen)
        (positionIdOf (ev_address exLiquidatedV2) (pl2_id exLiquidatedV2)) = Some p)"
proof -
  obtain s1 where s1: "handlePositionModified exOpen exStore = Inr s1"
    using exOpen_runs by blast
  obtain s2 where s2: "handlePositionModifiedV2 exOpenV2 exStore = Inr s2"
    using exOpenV2_runs by blast
  obtain p0 where p0: "positions exStoreOpen
      (positionIdOf (ev_address exLiquidated) (pl_id exLiquidated)) = Some p0"
    using exStoreOpen_position by blast
  obtain q0 where q0: "positions exStoreOpen
      (positionIdOf (ev_address exLiquidatedV2) (pl2_id exLiquidatedV2)) = Some q0"
    using exStoreOpen_positionV2 by blast
  note modified = position_pnlWithFeesPaid_identity [of exOpen exStore s1 exOpenV2 s2 exLiquidated
      exLiquidatedV2]
  note liquidated = position_pnlWithFeesPaid_identity [of exOpen exStoreOpen s1 exOpenV2 s2
      exLiquidated exLiquidatedV2]
  have "\<exists>p. positionPnlIdentity p \<and>
      positions s1 (positionIdOf (ev_address exOpen) (pm_id exOpen)) = Some p"
    using modified s1 by auto
  moreover have "\<exists>p. positionPnlIdentity p \<and>
      positions s2 (positionIdOf (ev_address exOpenV2) (pm_id exOpenV2)) = Some p"
    using modified s2 by auto
  moreover have "\<exists>p. positionPnlIdentity p \<and>
      positions (handlePositionLiquidated exLiquidated exStoreOpen)
        (positionIdOf (ev_address exLiquidated) (pl_id exLiquidated)) = Some p"
    using liquidated by (auto simp: p0)
  moreover have "\<exists>p. positionPnlIdentity p \<and>
      positions (handlePositionLiquidatedV2 exLiquidatedV2 exStoreOpen)
        (positionIdOf (ev_address exLiquidatedV2) (pl2_id exLiquidatedV2)) = Some p"
    using liquidated by (auto simp: q0)
  ultimately show ?thesis
    using s1 s2 p0 q0 by blast
qed

section \<open>The stat identity (C2)\<close>

lemma updateGlobalStat_shift:
  "st_pnlWithFeesPaid (updateGlobalStat ev st) =
     st_pnl (updateGlobalStat ev st) - st_feesPaid (updateGlobalStat ev st) + pm_fee ev"
  by (simp add: updateGlobalStat_def Let_def)

lemma handlePositionModified_stats:
  assumes "handlePositionModified ev s = Inr s'"
  shows "\<exists>cx. applyEvent ev s = Inr cx \<and>
     stats s' = (stats s)
       (toHex (fst (resolveAccount s (pm_account ev))) \<mapsto> updateGlobalStat ev (cx_stat cx))"
proof -
  from assms obtain cx :: pm_state where cx: "applyEvent ev s = Inr cx"
    and s': "s' = saveEntities ev (fst (resolveAccount s (pm_account ev)))
               (marginAccounts s (marginAccountIdOf (pm_account ev) (ev_address ev))) cx"
    by (rule handlePositionModified_Inr)
  have "stats s' = (stats s)
       (toHex (fst (resolveAccount s (pm_account ev))) \<mapsto> updateGlobalStat ev (cx_stat cx))"
    unfolding s' saveEntities_stats by (simp add: applyEvent_frame [OF cx])
  with cx show ?thesis by blast
qed

lemma stat_saved_with_stale_total:
  assumes "handlePositionModified ev s = Inr s'"
  shows "\<exists>st. stats s' (toHex (fst (resolveAccount s (pm_account ev)))) = Some st \<and>
     st_pnlWithFeesPaid st = st_pnl st - st_feesPaid st + pm_fee ev"
proof -
  from handlePositionModified_stats [OF assms]
  obtain cx :: pm_state where "stats s' = (stats s)
       (toHex (fst (resolveAccount s (pm_account ev))) \<mapsto> updateGlobalStat ev (cx_stat cx))"
    by auto
  then show ?thesis
    using updateGlobalStat_shift [of ev "cx_stat cx"] by simp
qed

lemma exOpen_stat_eval:
  "case handlePositionModified exOpen exStore of
     Inl e \<Rightarrow> False
   | Inr s' \<Rightarrow>
       (case stats s' (toHex exTrader) of
          None \<Rightarrow> False
        | Some st \<Rightarrow> st_pnl st = 0 \<and> st_feesPaid st = 5000000000000000000 \<and>
            st_pnlWithFeesPaid st = 0)"
  by code_simp

text \<open>
  C2. The claim is that the stat saved by \<^verbatim>\<open>handlePositionModified\<close> satisfies
  \<^verbatim>\<open>pnlWithFeesPaid = pnl - feesPaid\<close>. The handler computes \<^verbatim>\<open>pnlWithFeesPaid\<close> before it
  adds the event's fee to \<^verbatim>\<open>feesPaid\<close>, so the saved total misses that fee
  (\<open>stat_saved_with_stale_total\<close>). On the opening trade of the example, with a fee of
  5 units, the saved stat has \<^verbatim>\<open>pnl = 0\<close>, \<^verbatim>\<open>feesPaid = 5\<close> units and
  \<^verbatim>\<open>pnlWithFeesPaid = 0\<close>: the identity fails.
\<close>

theorem stat_pnlWithFeesPaid_misses_fee:
  "\<exists>s' st. handlePositionModified exOpen exStore = Inr s' \<and>
     stats s' (toHex exTrader) = Some st \<and>
     st_pnl st = 0 \<and> st_feesPaid st = 5000000000000000000 \<and> st_pnlWithFeesPaid st = 0 \<and>
     \<not> statPnlIdentity st"
  using exOpen_stat_eval
  by (auto simp: statPnlIdentity_def split: sum.splits option.splits)

section \<open>Size increases and the average entry price (C3)\<close>

lemma truncation_error_bound:
  fixes x n :: int
  assumes "n \<noteq> 0"
  shows "\<bar>\<bar>n\<bar> * (x sdiv \<bar>n\<bar>) - x\<bar> < \<bar>n\<bar>"
proof -
  have "\<bar>n\<bar> * (x sdiv \<bar>n\<bar>) - x = - (x smod \<bar>n\<bar>)"
    using mult_sdiv_smod_eq [of "\<bar>n\<bar>" x] by simp
  moreover have "x smod \<bar>n\<bar> \<in> {- \<bar>\<bar>n\<bar>\<bar> + 1..\<bar>\<bar>n\<bar>\<bar> - 1}"
    using assms by (intro smod_int_range) simp
  then have "\<bar>x smod \<bar>n\<bar>\<bar> < \<bar>n\<bar>"
    by simp linarith
  ultimately show ?thesis by simp
qed

lemma updatePnlAndEntryPrice_increase:
  assumes "\<not> changesSides ev pos" and "\<bar>pm_size ev\<bar> > \<bar>p_size pos\<bar>"
  shows "updatePnlAndEntryPrice ev trade stat pos =
     Inr (trade, stat,
          pos\<lparr> p_entryPrice :=
                  (\<bar>p_size pos\<bar> * p_entryPrice pos + \<bar>pm_tradeSize ev\<bar> * pm_lastPrice ev)
                    sdiv \<bar>pm_size ev\<bar>,
                p_avgEntryPrice :=
                  (\<bar>p_size pos\<bar> * p_entryPrice pos + \<bar>pm_tradeSize ev\<bar> * pm_lastPrice ev)
                    sdiv \<bar>pm_size ev\<bar> \<rparr>)"
proof -
  from assms(2) have "pm_size ev \<noteq> 0" by auto
  with assms show ?thesis
    by (simp add: updatePnlAndEntryPrice_def Let_def bigIntDiv_def)
qed

lemma changesSides_cong:
  "p_size pos' = p_size pos \<Longrightarrow> changesSides ev pos' = changesSides ev pos"
  by (simp add: changesSides_def)

lemma size_increase_step:
  assumes run: "handlePositionModified ev s = Inr s'"
    and old: "positions s (positionIdOf (ev_address ev) (pm_id ev)) = Some pos"
    and trade: "pm_tradeSize ev \<noteq> 0"
    and side: "\<not> changesSides ev pos"
    and more: "\<bar>pm_size ev\<bar> > \<bar>p_size pos\<bar>"
  shows "\<exists>pos' trade' stat'.
     positions s' (positionIdOf (ev_address ev) (pm_id ev)) = Some pos' \<and>
     trades s' (tradeIdOf (ev_txHash ev) (ev_logIndex ev)) = Some trade' \<and>
     stats s' (toHex (fst (resolveAccount s (pm_account ev)))) = Some stat' \<and>
     t_pnl trade' = 0 \<and>
     p_pnl pos' = p_pnl pos \<and>
     st_pnl stat' =
       (case stats s (toHex (fst (resolveAccount s (pm_account ev)))) of
          None \<Rightarrow> 0 | Some stat \<Rightarrow> st_pnl stat) \<and>
     p_avgEntryPrice pos' =
       (\<bar>p_size pos\<bar> * p_entryPrice pos + \<bar>pm_tradeSize ev\<bar> * pm_lastPrice ev)
         sdiv \<bar>pm_size ev\<bar> \<and>
     \<bar>\<bar>pm_size ev\<bar> * p_avgEntryPrice pos'
        - (\<bar>p_size pos\<bar> * p_entryPrice pos + \<bar>pm_tradeSize ev\<bar> * pm_lastPrice ev)\<bar>
       < \<bar>pm_size ev\<bar> \<and>
     p_size pos' = pm_size ev \<and>
     p_entryPrice pos' = p_avgEntryPrice pos'"
proof -
  define account where "account = fst (resolveAccount s (pm_account ev))"
  define cx1 where "cx1 = accrueFunding ev account (loadEntities ev s)"
  define q where "q = (\<bar>p_size pos\<bar> * p_entryPrice pos + \<bar>pm_tradeSize ev\<bar> * pm_lastPrice ev)
         sdiv \<bar>pm_size ev\<bar>"
  from run obtain cx :: pm_state where cx: "applyEvent ev s = Inr cx"
    and s': "s' = saveEntities ev account
               (marginAccounts s (marginAccountIdOf (pm_account ev) (ev_address ev))) cx"
    unfolding account_def by (rule handlePositionModified_Inr)
  have pos1: "cx_position (loadEntities ev s) = pos"
    by (simp add: loadEntities_position old)
  have size1: "p_size (cx_position cx1) = p_size pos"
    and entry1: "p_entryPrice (cx_position cx1) = p_entryPrice pos"
    and pnl1: "p_pnl (cx_position cx1) = p_pnl pos"
    by (simp_all add: cx1_def accrueFunding_position_fields pos1)
  have stat1: "st_pnl (cx_stat cx1) =
      (case stats s (toHex account) of None \<Rightarrow> 0 | Some stat \<Rightarrow> st_pnl stat)"
    by (simp add: cx1_def accrueFunding_stat_fields loadEntities_stat account_def
        newFuturesStat_def ZERO_def split: option.splits)
  have side1: "\<not> changesSides ev (cx_position cx1)"
    using side changesSides_cong [OF size1] by simp
  have more1: "\<bar>pm_size ev\<bar> > \<bar>p_size (cx_position cx1)\<bar>"
    using more size1 by simp
  from applyEvent_trade [OF cx trade, folded account_def, folded cx1_def]
  obtain trade' stat1' pos1' where
    u: "updatePnlAndEntryPrice ev
       (newMarketTrade ev (markets s (toHex (ev_address ev))) account
          (snd (resolveAccount s (pm_account ev))) (fundingAccruedOf ev (loadEntities ev s)))
       (cx_stat cx1) (cx_position cx1) = Inr (trade', stat1', pos1')"
    and tr: "trades (cx_store cx) =
       (trades s)(tradeIdOf (ev_txHash ev) (ev_logIndex ev) \<mapsto> trade')"
    and cp: "cx_position cx = pos1'\<lparr> p_trades := p_trades pos1' + 1,
                              p_totalVolume := p_totalVolume pos1' + tradeVolume ev \<rparr>"
    and cs: "cx_stat cx = stat1'\<lparr> st_totalTrades := st_totalTrades stat1' + 1,
       st_totalVolume := st_totalVolume stat1' + tradeVolume ev,
       st_smartMarginVolume :=
         (if snd (resolveAccount s (pm_account ev)) = ''smart_margin''
          then st_smartMarginVolume stat1' + tradeVolume ev
          else st_smartMarginVolume stat1') \<rparr>"
    by blast
  from u updatePnlAndEntryPrice_increase [OF side1 more1]
  have t': "trade' = newMarketTrade ev (markets s (toHex (ev_address ev))) account
          (snd (resolveAccount s (pm_account ev))) (fundingAccruedOf ev (loadEntities ev s))"
    and st': "stat1' = cx_stat cx1"
    and p': "pos1' = (cx_position cx1)\<lparr> p_entryPrice := q, p_avgEntryPrice := q \<rparr>"
    by (simp_all add: q_def size1 entry1)
  have a: "positions s' (positionIdOf (ev_address ev) (pm_id ev)) =
      Some (updateGlobalPosition ev (cx_position cx))"
    by (simp add: s' saveEntities_positions)
  have b: "trades s' (tradeIdOf (ev_txHash ev) (ev_logIndex ev)) = Some trade'"
    by (simp add: s' saveEntities_others tr)
  have c: "stats s' (toHex account) = Some (updateGlobalStat ev (cx_stat cx))"
    by (simp add: s' saveEntities_stats)
  have d: "t_pnl trade' = 0"
    by (simp add: t' newMarketTrade_def ZERO_def)
  have e: "p_pnl (updateGlobalPosition ev (cx_position cx)) = p_pnl pos"
    by (simp add: updateGlobalPosition_def Let_def cp p' pnl1)
  have f: "st_pnl (updateGlobalStat ev (cx_stat cx)) =
      (case stats s (toHex account) of None \<Rightarrow> 0 | Some stat \<Rightarrow> st_pnl stat)"
    by (simp add: updateGlobalStat_def Let_def cs st' stat1)
  have g: "p_avgEntryPrice (updateGlobalPosition ev (cx_position cx)) = q"
    by (simp add: updateGlobalPosition_def Let_def cp p')
  from more have "pm_size ev \<noteq> 0" by auto
  then have h: "\<bar>\<bar>pm_size ev\<bar> * q
        - (\<bar>p_size pos\<bar> * p_entryPrice pos + \<bar>pm_tradeSize ev\<bar> * pm_lastPrice ev)\<bar>
       < \<bar>pm_size ev\<bar>"
    unfolding q_def by (rule truncation_error_bound)
  have i: "p_size (updateGlobalPosition ev (cx_position cx)) = pm_size ev"
    "p_entryPrice (updateGlobalPosition ev (cx_position cx)) = q"
    by (simp_all add: updateGlobalPosition_def Let_def cp p')
  from a b c d e f g h i show ?thesis
    unfolding account_def [symmetric] q_def [symmetric] by simp
qed

lemma sameDirectionIncreases_Cons:
  assumes "sameDirectionIncreases market posId (p_size pos) (ev # evs)"
  shows "ev_address ev = market" "pm_id ev = posId"
    "pm_tradeSize ev \<noteq> 0"
    "\<not> changesSides ev pos"
    "\<bar>pm_size ev\<bar> > \<bar>p_size pos\<bar>"
    "sameDirectionIncreases market posId (pm_size ev) evs"
  using assms by (simp_all add: changesSides_def ZERO_def)

lemma handleEvents_PositionModified_Cons:
  assumes "handleEvents periods periodTypes (map PositionModified (ev # evs)) s = Inr s'"
  obtains s1 where
     "handlePositionModified ev s = Inr s1"
     "handleEvents periods periodTypes (map PositionModified evs) s1 = Inr s'"
  using assms by (cases "handlePositionModified ev s") simp_all

lemma truncation_errors_add:
  fixes X a b W k S1 dp :: int
  assumes "\<bar>a - (b + dp)\<bar> < S1" "\<bar>X - (a + W)\<bar> \<le> k"
  shows "\<bar>X - (b + (dp + W))\<bar> \<le> (S1 - 1) + k"
  using assms by linarith

lemma size_increase_step_position:
  assumes "handlePositionModified ev s = Inr s'"
    and "positions s (positionIdOf (ev_address ev) (pm_id ev)) = Some pos"
    and "pm_tradeSize ev \<noteq> 0"
    and "\<not> changesSides ev pos"
    and "\<bar>pm_size ev\<bar> > \<bar>p_size pos\<bar>"
  obtains pos1 where "positions s' (positionIdOf (ev_address ev) (pm_id ev)) = Some pos1"
    and "p_pnl pos1 = p_pnl pos"
    and "\<bar>\<bar>pm_size ev\<bar> * p_avgEntryPrice pos1
        - (\<bar>p_size pos\<bar> * p_entryPrice pos + \<bar>pm_tradeSize ev\<bar> * pm_lastPrice ev)\<bar>
       < \<bar>pm_size ev\<bar>"
    and "p_size pos1 = pm_size ev"
    and "p_entryPrice pos1 = p_avgEntryPrice pos1"
  using size_increase_step [OF assms] by blast

lemma size_increases_bound:
  assumes "sameDirectionIncreases market posId (p_size pos) evs"
    and "positions s (positionIdOf market posId) = Some pos"
    and "p_entryPrice pos = p_avgEntryPrice pos"
    and "handleEvents periods periodTypes (map PositionModified evs) s = Inr s'"
  shows "\<exists>pos'. positions s' (positionIdOf market posId) = Some pos' \<and>
     p_pnl pos' = p_pnl pos \<and>
     p_entryPrice pos' = p_avgEntryPrice pos' \<and>
     \<bar>\<bar>p_size pos'\<bar> * p_avgEntryPrice pos'
        - (\<bar>p_size pos\<bar> * p_avgEntryPrice pos + weightedVolume evs)\<bar>
       \<le> truncationSlack evs"
  using assms
proof (induction evs arbitrary: s pos)
  case Nil
  then show ?case by simp
next
  case (Cons ev evs)
  note incr = sameDirectionIncreases_Cons [OF Cons.prems(1)]
  from Cons.prems(4) obtain s1 where
    first: "handlePositionModified ev s = Inr s1"
    and run: "handleEvents periods periodTypes (map PositionModified evs) s1 = Inr s'"
    by (rule handleEvents_PositionModified_Cons)
  from Cons.prems(2)
  have old: "positions s (positionIdOf (ev_address ev) (pm_id ev)) = Some pos"
    unfolding incr(1,2) .
  from size_increase_step_position [OF first old incr(3,4,5)]
  obtain pos1 where p1: "positions s1 (positionIdOf market posId) = Some pos1"
    and pnl1: "p_pnl pos1 = p_pnl pos"
    and bound1: "\<bar>\<bar>pm_size ev\<bar> * p_avgEntryPrice pos1
        - (\<bar>p_size pos\<bar> * p_avgEntryPrice pos + \<bar>pm_tradeSize ev\<bar> * pm_lastPrice ev)\<bar>
       < \<bar>pm_size ev\<bar>"
    and size1: "p_size pos1 = pm_size ev"
    and agree1: "p_entryPrice pos1 = p_avgEntryPrice pos1"
    unfolding incr(1,2) Cons.prems(3) by blast
  from incr(6) have rest1: "sameDirectionIncreases market posId (p_size pos1) evs"
    unfolding size1 .
  from Cons.IH [OF rest1 p1 agree1 run]
  obtain pos' where p': "positions s' (positionIdOf market posId) = Some pos'"
    and pnl': "p_pnl pos' = p_pnl pos1"
    and agree': "p_entryPrice pos' = p_avgEntryPrice pos'"
    and bound': "\<bar>\<bar>p_size pos'\<bar> * p_avgEntryPrice pos'
        - (\<bar>pm_size ev\<bar> * p_avgEntryPrice pos1 + weightedVolume evs)\<bar>
       \<le> truncationSlack evs"
    unfolding size1 by blast
  have "\<bar>\<bar>p_size pos'\<bar> * p_avgEntryPrice pos'
        - (\<bar>p_size pos\<bar> * p_avgEntryPrice pos + weightedVolume (ev # evs))\<bar>
       \<le> truncationSlack (ev # evs)"
    unfolding weightedVolume.simps truncationSlack.simps
    using bound1 bound' by (rule truncation_errors_add)
  moreover from pnl' pnl1 have "p_pnl pos' = p_pnl pos" by simp
  ultimately show ?case using p' agree' by blast
qed

text \<open>
  C3, as amended. On an event with a non-zero \<^verbatim>\<open>tradeSize\<close> that does not change sides and
  whose size is larger in magnitude than the stored one, \<^verbatim>\<open>handlePositionModified\<close> applies
  no PnL (the trade's PnL is zero, the PnL of the position and of the stat are unchanged)
  and sets \<^verbatim>\<open>avgEntryPrice\<close> to
  \<^verbatim>\<open>(|oldSize| * oldEntryPrice + |tradeSize| * lastPrice) / |newSize|\<close>, where the division
  truncates: \<^verbatim>\<open>|newSize| * avgEntryPrice\<close> differs from the volume-weighted sum by less than
  \<^verbatim>\<open>|newSize|\<close>. Consequently, after any sequence of such increases of one position,
  starting from a stored position whose \<^verbatim>\<open>entryPrice\<close> equals its \<^verbatim>\<open>avgEntryPrice\<close>, the PnL
  of the position is unchanged and \<^verbatim>\<open>|finalSize| * avgEntryPrice\<close> differs from the
  volume-weighted sum of all entry prices,
  \<^verbatim>\<open>|startSize| * startAvgEntryPrice\<close> plus \<^verbatim>\<open>|tradeSize| * lastPrice\<close> of every increase, by
  at most the sum of \<^verbatim>\<open>|size| - 1\<close> over the increases: the final \<^verbatim>\<open>avgEntryPrice\<close> is the
  volume-weighted average up to the truncation accumulated over the increments.
\<close>

theorem size_increase_sets_average_entry_price:
  "(handlePositionModified ev s = Inr s' \<and>
    positions s (positionIdOf (ev_address ev) (pm_id ev)) = Some pos \<and>
    pm_tradeSize ev \<noteq> 0 \<and> \<not> changesSides ev pos \<and> \<bar>pm_size ev\<bar> > \<bar>p_size pos\<bar> \<longrightarrow>
      (\<exists>pos' trade' stat'.
         positions s' (positionIdOf (ev_address ev) (pm_id ev)) = Some pos' \<and>
         trades s' (tradeIdOf (ev_txHash ev) (ev_logIndex ev)) = Some trade' \<and>
         stats s' (toHex (fst (resolveAccount s (pm_account ev)))) = Some stat' \<and>
         t_pnl trade' = 0 \<and>
         p_pnl pos' = p_pnl pos \<and>
         st_pnl stat' =
           (case stats s (toHex (fst (resolveAccount s (pm_account ev)))) of
              None \<Rightarrow> 0 | Some stat \<Rightarrow> st_pnl stat) \<and>
         p_avgEntryPrice pos' =
           (\<bar>p_size pos\<bar> * p_entryPrice pos + \<bar>pm_tradeSize ev\<bar> * pm_lastPrice ev)
             sdiv \<bar>pm_size ev\<bar> \<and>
         \<bar>\<bar>pm_size ev\<bar> * p_avgEntryPrice pos'
            - (\<bar>p_size pos\<bar> * p_entryPrice pos + \<bar>pm_tradeSize ev\<bar> * pm_lastPrice ev)\<bar>
           < \<bar>pm_size ev\<bar>)) \<and>
   (positions s0 (positionIdOf market posId) = Some pos0 \<and>
    p_entryPrice pos0 = p_avgEntryPrice pos0 \<and>
    sameDirectionIncreases market posId (p_size pos0) evs \<and>
    handleEvents periods periodTypes (map PositionModified evs) s0 = Inr s2 \<longrightarrow>
      (\<exists>pos2.
         positions s2 (positionIdOf market posId) = Some pos2 \<and>
         p_pnl pos2 = p_pnl pos0 \<and>
         \<bar>\<bar>p_size pos2\<bar> * p_avgEntryPrice pos2
            - (\<bar>p_size pos0\<bar> * p_avgEntryPrice pos0 + weightedVolume evs)\<bar>
           \<le> truncationSlack evs))"
proof (intro conjI impI)
  assume "handlePositionModified ev s = Inr s' \<and>
    positions s (positionIdOf (ev_address ev) (pm_id ev)) = Some pos \<and>
    pm_tradeSize ev \<noteq> 0 \<and> \<not> changesSides ev pos \<and> \<bar>pm_size ev\<bar> > \<bar>p_size pos\<bar>"
  then have "handlePositionModified ev s = Inr s'"
    "positions s (positionIdOf (ev_address ev) (pm_id ev)) = Some pos"
    "pm_tradeSize ev \<noteq> 0" "\<not> changesSides ev pos" "\<bar>pm_size ev\<bar> > \<bar>p_size pos\<bar>"
    by simp_all
  from size_increase_step [OF this]
  show "\<exists>pos' trade' stat'.
         positions s' (positionIdOf (ev_address ev) (pm_id ev)) = Some pos' \<and>
         trades s' (tradeIdOf (ev_txHash ev) (ev_logIndex ev)) = Some trade' \<and>
         stats s' (toHex (fst (resolveAccount s (pm_account ev)))) = Some stat' \<and>
         t_pnl trade' = 0 \<and>
         p_pnl pos' = p_pnl pos \<and>
         st_pnl stat' =
           (case stats s (toHex (fst (resolveAccount s (pm_account ev)))) of
              None \<Rightarrow> 0 | Some stat \<Rightarrow> st_pnl stat) \<and>
         p_avgEntryPrice pos' =
           (\<bar>p_size pos\<bar> * p_entryPrice pos + \<bar>pm_tradeSize ev\<bar> * pm_lastPrice ev)
             sdiv \<bar>pm_size ev\<bar> \<and>
         \<bar>\<bar>pm_size ev\<bar> * p_avgEntryPrice pos'
            - (\<bar>p_size pos\<bar> * p_entryPrice pos + \<bar>pm_tradeSize ev\<bar> * pm_lastPrice ev)\<bar>
           < \<bar>pm_size ev\<bar>"
    by blast
next
  assume "positions s0 (positionIdOf market posId) = Some pos0 \<and>
    p_entryPrice pos0 = p_avgEntryPrice pos0 \<and>
    sameDirectionIncreases market posId (p_size pos0) evs \<and>
    handleEvents periods periodTypes (map PositionModified evs) s0 = Inr s2"
  then have "sameDirectionIncreases market posId (p_size pos0) evs"
    "positions s0 (positionIdOf market posId) = Some pos0"
    "p_entryPrice pos0 = p_avgEntryPrice pos0"
    "handleEvents periods periodTypes (map PositionModified evs) s0 = Inr s2"
    by simp_all
  from size_increases_bound [OF this]
  show "\<exists>pos2.
         positions s2 (positionIdOf market posId) = Some pos2 \<and>
         p_pnl pos2 = p_pnl pos0 \<and>
         \<bar>\<bar>p_size pos2\<bar> * p_avgEntryPrice pos2
            - (\<bar>p_size pos0\<bar> * p_avgEntryPrice pos0 + weightedVolume evs)\<bar>
           \<le> truncationSlack evs"
    by blast
qed

text \<open>
  C3 as stated fails. From a position of 10 units entered at 100, an increase of 10
  units at 110 gives the average entry price 105 (the exact volume-weighted average);
  the same increase made in two steps of 5 units at 110 gives 104.999999999999999999:
  the first step truncates 103.33.. and the second step starts from the truncated value.
\<close>

theorem average_entry_price_depends_on_split:
  "avgEntryPriceAfter
     [PositionModified exOpen, PositionModified exIncrease, PositionModified exIncreaseAgain]
     exStore (positionIdOf exMarket 1) = Some 104999999999999999999 \<and>
   avgEntryPriceAfter
     [PositionModified exOpen, PositionModified exIncreaseBoth]
     exStore (positionIdOf exMarket 1) = Some 105000000000000000000 \<and>
   (10 * 10 ^ 18 * (100 * 10 ^ 18) + 5 * 10 ^ 18 * (110 * 10 ^ 18)
      + 5 * 10 ^ 18 * (110 * 10 ^ 18)) sdiv (20 * 10 ^ 18) = (105000000000000000000 :: int)"
  by code_simp

text \<open>The amended theorem on the second event of the spec's scenario (15 units, 5 of them
  bought at 110, after 10 units at 100), and on that event followed by a second increase
  of 5 units at 110.\<close>

lemma exIncrease_runs:
  "case handlePositionModified exIncrease exStoreOpen of Inl e \<Rightarrow> False | Inr s' \<Rightarrow> True"
  by code_simp

lemma exStoreOpen_size:
  "case positions exStoreOpen (positionIdOf (ev_address exIncrease) (pm_id exIncrease)) of
     None \<Rightarrow> False
   | Some pos \<Rightarrow> p_size pos = 10000000000000000000 \<and> p_entryPrice pos = 100000000000000000000 \<and>
       p_avgEntryPrice pos = 100000000000000000000"
  by code_simp

lemma exIncreases_run:
  "case handleEvents [] [] (map PositionModified [exIncrease, exIncreaseAgain]) exStoreOpen of
     Inl e \<Rightarrow> False
   | Inr s2 \<Rightarrow>
       (case positions s2 (positionIdOf exMarket 1) of
          None \<Rightarrow> False
        | Some pos2 \<Rightarrow> p_size pos2 = 20000000000000000000 \<and>
            p_avgEntryPrice pos2 = 104999999999999999999)"
  by code_simp

lemma exIncreases_values:
  "sameDirectionIncreases exMarket 1 10000000000000000000 [exIncrease, exIncreaseAgain]"
  "weightedVolume [exIncrease, exIncreaseAgain] = 1100 * 10 ^ 36"
  "truncationSlack [exIncrease, exIncreaseAgain] = 35 * 10 ^ 18 - 2"
  by code_simp+

theorem size_increase_sets_average_entry_price_witness:
  "(\<exists>s' pos pos'.
      handlePositionModified exIncrease exStoreOpen = Inr s' \<and>
      positions exStoreOpen (positionIdOf (ev_address exIncrease) (pm_id exIncrease)) = Some pos \<and>
      pm_tradeSize exIncrease \<noteq> 0 \<and>
      \<not> changesSides exIncrease pos \<and>
      \<bar>pm_size exIncrease\<bar> > \<bar>p_size pos\<bar> \<and>
      positions s' (positionIdOf (ev_address exIncrease) (pm_id exIncrease)) = Some pos' \<and>
      p_pnl pos' = p_pnl pos \<and>
      p_avgEntryPrice pos' = 103333333333333333333) \<and>
   (\<exists>s2 pos0 pos2.
      positions exStoreOpen (positionIdOf exMarket 1) = Some pos0 \<and>
      p_entryPrice pos0 = p_avgEntryPrice pos0 \<and>
      sameDirectionIncreases exMarket 1 (p_size pos0) [exIncrease, exIncreaseAgain] \<and>
      handleEvents [] [] (map PositionModified [exIncrease, exIncreaseAgain]) exStoreOpen
        = Inr s2 \<and>
      positions s2 (positionIdOf exMarket 1) = Some pos2 \<and>
      p_pnl pos2 = p_pnl pos0 \<and>
      p_avgEntryPrice pos2 = 104999999999999999999 \<and>
      \<bar>\<bar>p_size pos2\<bar> * p_avgEntryPrice pos2
         - (\<bar>p_size pos0\<bar> * p_avgEntryPrice pos0
            + weightedVolume [exIncrease, exIncreaseAgain])\<bar>
        \<le> truncationSlack [exIncrease, exIncreaseAgain])"
proof (rule conjI)
  obtain s' where run: "handlePositionModified exIncrease exStoreOpen = Inr s'"
    using exIncrease_runs by (auto split: sum.splits)
  obtain pos where old: "positions exStoreOpen
        (positionIdOf (ev_address exIncrease) (pm_id exIncrease)) = Some pos"
    and size: "p_size pos = 10000000000000000000"
    and entry: "p_entryPrice pos = 100000000000000000000"
    using exStoreOpen_size by (auto split: option.splits)
  have trade: "pm_tradeSize exIncrease \<noteq> 0"
    by (simp add: exIncrease_def)
  have side: "\<not> changesSides exIncrease pos"
    by (simp add: changesSides_def size exIncrease_def ZERO_def)
  have more: "\<bar>pm_size exIncrease\<bar> > \<bar>p_size pos\<bar>"
    by (simp add: size exIncrease_def)
  have q: "(\<bar>p_size pos\<bar> * p_entryPrice pos
      + \<bar>pm_tradeSize exIncrease\<bar> * pm_lastPrice exIncrease) sdiv \<bar>pm_size exIncrease\<bar>
      = 103333333333333333333"
    by (simp add: size entry exIncrease_def signed_divide_int_def)
  note inst = size_increase_sets_average_entry_price [of exIncrease exStoreOpen s' pos]
  from inst run old trade side more
  obtain pos' where "positions s' (positionIdOf (ev_address exIncrease) (pm_id exIncrease))
        = Some pos'"
    and "p_pnl pos' = p_pnl pos"
    and "p_avgEntryPrice pos' = 103333333333333333333"
    unfolding q by blast
  with run old trade side more show "\<exists>s' pos pos'.
      handlePositionModified exIncrease exStoreOpen = Inr s' \<and>
      positions exStoreOpen (positionIdOf (ev_address exIncrease) (pm_id exIncrease)) = Some pos \<and>
      pm_tradeSize exIncrease \<noteq> 0 \<and>
      \<not> changesSides exIncrease pos \<and>
      \<bar>pm_size exIncrease\<bar> > \<bar>p_size pos\<bar> \<and>
      positions s' (positionIdOf (ev_address exIncrease) (pm_id exIncrease)) = Some pos' \<and>
      p_pnl pos' = p_pnl pos \<and>
      p_avgEntryPrice pos' = 103333333333333333333"
    by blast
next
  have key: "positionIdOf (ev_address exIncrease) (pm_id exIncrease) = positionIdOf exMarket 1"
    by (simp add: exIncrease_def)
  obtain pos0 where old: "positions exStoreOpen (positionIdOf exMarket 1) = Some pos0"
    and size: "p_size pos0 = 10000000000000000000"
    and agree: "p_entryPrice pos0 = p_avgEntryPrice pos0"
    using exStoreOpen_size unfolding key by (auto split: option.splits)
  obtain s2 pos2 where run: "handleEvents [] [] (map PositionModified
        [exIncrease, exIncreaseAgain]) exStoreOpen = Inr s2"
    and new: "positions s2 (positionIdOf exMarket 1) = Some pos2"
    and avg: "p_avgEntryPrice pos2 = 104999999999999999999"
    using exIncreases_run by (auto split: sum.splits option.splits)
  have incr: "sameDirectionIncreases exMarket 1 (p_size pos0) [exIncrease, exIncreaseAgain]"
    unfolding size by (rule exIncreases_values(1))
  note inst = size_increase_sets_average_entry_price [where ?s0.0 = exStoreOpen
      and market = exMarket and posId = 1 and ?pos0.0 = pos0
      and evs = "[exIncrease, exIncreaseAgain]" and periods = "[]" and periodTypes = "[]"
      and ?s2.0 = s2]
  from inst old agree incr run new
  have "p_pnl pos2 = p_pnl pos0 \<and>
      \<bar>\<bar>p_size pos2\<bar> * p_avgEntryPrice pos2
         - (\<bar>p_size pos0\<bar> * p_avgEntryPrice pos0
            + weightedVolume [exIncrease, exIncreaseAgain])\<bar>
        \<le> truncationSlack [exIncrease, exIncreaseAgain]"
    by auto
  with old agree incr run new avg show "\<exists>s2 pos0 pos2.
      positions exStoreOpen (positionIdOf exMarket 1) = Some pos0 \<and>
      p_entryPrice pos0 = p_avgEntryPrice pos0 \<and>
      sameDirectionIncreases exMarket 1 (p_size pos0) [exIncrease, exIncreaseAgain] \<and>
      handleEvents [] [] (map PositionModified [exIncrease, exIncreaseAgain]) exStoreOpen
        = Inr s2 \<and>
      positions s2 (positionIdOf exMarket 1) = Some pos2 \<and>
      p_pnl pos2 = p_pnl pos0 \<and>
      p_avgEntryPrice pos2 = 104999999999999999999 \<and>
      \<bar>\<bar>p_size pos2\<bar> * p_avgEntryPrice pos2
         - (\<bar>p_size pos0\<bar> * p_avgEntryPrice pos0
            + weightedVolume [exIncrease, exIncreaseAgain])\<bar>
        \<le> truncationSlack [exIncrease, exIncreaseAgain]"
    by blast
qed

section \<open>Closing a position (C4)\<close>

lemma updatePnlAndEntryPrice_close:
  assumes "pm_size ev = 0"
  shows "updatePnlAndEntryPrice ev trade stat pos =
     Inr (trade\<lparr> t_pnl := priceMovePnl ev pos \<rparr>,
          stat\<lparr> st_pnl := st_pnl stat + priceMovePnl ev pos \<rparr>,
          pos\<lparr> p_pnl := p_pnl pos + priceMovePnl ev pos,
               p_isOpen := False,
               p_exitPrice := Some (pm_lastPrice ev),
               p_closeTimestamp := Some (ev_timestamp ev) \<rparr>)"
  using assms by (simp add: updatePnlAndEntryPrice_def Let_def)

lemma updatePnlAndEntryPrice_same_size:
  assumes "pm_size ev \<noteq> 0" and "p_size pos = pm_size ev"
  shows "updatePnlAndEntryPrice ev trade stat pos =
     Inr (trade\<lparr> t_pnl := reducePnl ev pos \<rparr>,
          stat\<lparr> st_pnl := st_pnl stat + reducePnl ev pos \<rparr>,
          pos\<lparr> p_pnl := p_pnl pos + reducePnl ev pos \<rparr>)"
  using assms by (auto simp: updatePnlAndEntryPrice_def Let_def changesSides_def)

lemma closing_trade_pnl:
  assumes run: "handlePositionModified ev s = Inr s'"
    and old: "positions s (positionIdOf (ev_address ev) (pm_id ev)) = Some pos"
    and trade: "pm_tradeSize ev \<noteq> 0"
    and closed: "pm_size ev = 0"
  shows "\<exists>pos' trade' stat'.
     positions s' (positionIdOf (ev_address ev) (pm_id ev)) = Some pos' \<and>
     trades s' (tradeIdOf (ev_txHash ev) (ev_logIndex ev)) = Some trade' \<and>
     stats s' (toHex (fst (resolveAccount s (pm_account ev)))) = Some stat' \<and>
     t_pnl trade' = ((pm_lastPrice ev - p_avgEntryPrice pos) * p_size pos) sdiv ETHER \<and>
     p_pnl pos' = p_pnl pos + ((pm_lastPrice ev - p_avgEntryPrice pos) * p_size pos) sdiv ETHER \<and>
     st_pnl stat' =
       (case stats s (toHex (fst (resolveAccount s (pm_account ev)))) of
          None \<Rightarrow> 0 | Some stat \<Rightarrow> st_pnl stat)
       + ((pm_lastPrice ev - p_avgEntryPrice pos) * p_size pos) sdiv ETHER \<and>
     \<not> p_isOpen pos' \<and>
     p_exitPrice pos' = Some (pm_lastPrice ev) \<and>
     p_closeTimestamp pos' = Some (ev_timestamp ev)"
proof -
  define account where "account = fst (resolveAccount s (pm_account ev))"
  define cx1 where "cx1 = accrueFunding ev account (loadEntities ev s)"
  define newPnl where
    "newPnl = ((pm_lastPrice ev - p_avgEntryPrice pos) * p_size pos) sdiv ETHER"
  from run obtain cx :: pm_state where cx: "applyEvent ev s = Inr cx"
    and s': "s' = saveEntities ev account
               (marginAccounts s (marginAccountIdOf (pm_account ev) (ev_address ev))) cx"
    unfolding account_def by (rule handlePositionModified_Inr)
  have pos1: "cx_position (loadEntities ev s) = pos"
    by (simp add: loadEntities_position old)
  have size1: "p_size (cx_position cx1) = p_size pos"
    and avg1: "p_avgEntryPrice (cx_position cx1) = p_avgEntryPrice pos"
    and pnl1: "p_pnl (cx_position cx1) = p_pnl pos"
    by (simp_all add: cx1_def accrueFunding_position_fields pos1)
  have move: "priceMovePnl ev (cx_position cx1) = newPnl"
    by (simp add: priceMovePnl_def newPnl_def size1 avg1)
  have stat1: "st_pnl (cx_stat cx1) =
      (case stats s (toHex account) of None \<Rightarrow> 0 | Some stat \<Rightarrow> st_pnl stat)"
    by (simp add: cx1_def accrueFunding_stat_fields loadEntities_stat account_def
        newFuturesStat_def ZERO_def split: option.splits)
  from applyEvent_trade [OF cx trade, folded account_def, folded cx1_def]
  obtain trade' stat1' pos1' where
    u: "updatePnlAndEntryPrice ev
       (newMarketTrade ev (markets s (toHex (ev_address ev))) account
          (snd (resolveAccount s (pm_account ev))) (fundingAccruedOf ev (loadEntities ev s)))
       (cx_stat cx1) (cx_position cx1) = Inr (trade', stat1', pos1')"
    and tr: "trades (cx_store cx) =
       (trades s)(tradeIdOf (ev_txHash ev) (ev_logIndex ev) \<mapsto> trade')"
    and cp: "cx_position cx = pos1'\<lparr> p_trades := p_trades pos1' + 1,
                              p_totalVolume := p_totalVolume pos1' + tradeVolume ev \<rparr>"
    and cs: "cx_stat cx = stat1'\<lparr> st_totalTrades := st_totalTrades stat1' + 1,
       st_totalVolume := st_totalVolume stat1' + tradeVolume ev,
       st_smartMarginVolume :=
         (if snd (resolveAccount s (pm_account ev)) = ''smart_margin''
          then st_smartMarginVolume stat1' + tradeVolume ev
          else st_smartMarginVolume stat1') \<rparr>"
    by blast
  from u updatePnlAndEntryPrice_close [OF closed]
  have t': "t_pnl trade' = newPnl"
    and st': "stat1' = (cx_stat cx1)\<lparr> st_pnl := st_pnl (cx_stat cx1) + newPnl \<rparr>"
    and p': "pos1' = (cx_position cx1)\<lparr> p_pnl := p_pnl (cx_position cx1) + newPnl,
               p_isOpen := False,
               p_exitPrice := Some (pm_lastPrice ev),
               p_closeTimestamp := Some (ev_timestamp ev) \<rparr>"
    by (auto simp: move)
  have a: "positions s' (positionIdOf (ev_address ev) (pm_id ev)) =
      Some (updateGlobalPosition ev (cx_position cx))"
    by (simp add: s' saveEntities_positions)
  have b: "trades s' (tradeIdOf (ev_txHash ev) (ev_logIndex ev)) = Some trade'"
    by (simp add: s' saveEntities_others tr)
  have c: "stats s' (toHex account) = Some (updateGlobalStat ev (cx_stat cx))"
    by (simp add: s' saveEntities_stats)
  have e: "p_pnl (updateGlobalPosition ev (cx_position cx)) = p_pnl pos + newPnl"
    "\<not> p_isOpen (updateGlobalPosition ev (cx_position cx))"
    "p_exitPrice (updateGlobalPosition ev (cx_position cx)) = Some (pm_lastPrice ev)"
    "p_closeTimestamp (updateGlobalPosition ev (cx_position cx)) = Some (ev_timestamp ev)"
    by (simp_all add: updateGlobalPosition_def Let_def cp p' pnl1)
  have f: "st_pnl (updateGlobalStat ev (cx_stat cx)) =
      (case stats s (toHex account) of None \<Rightarrow> 0 | Some stat \<Rightarrow> st_pnl stat) + newPnl"
    by (simp add: updateGlobalStat_def Let_def cs st' stat1)
  from a b c t' e f show ?thesis
    unfolding account_def [symmetric] newPnl_def [symmetric] by simp
qed

lemma open_new_position:
  assumes run: "handlePositionModified ev s = Inr s'"
    and new: "positions s (positionIdOf (ev_address ev) (pm_id ev)) = None"
    and trade: "pm_tradeSize ev \<noteq> 0"
    and size: "pm_size ev \<noteq> 0"
  shows "\<exists>pos'. positions s' (positionIdOf (ev_address ev) (pm_id ev)) = Some pos' \<and>
     p_avgEntryPrice pos' = pm_lastPrice ev \<and> p_size pos' = pm_size ev \<and> p_pnl pos' = 0"
proof -
  define account where "account = fst (resolveAccount s (pm_account ev))"
  define cx1 where "cx1 = accrueFunding ev account (loadEntities ev s)"
  from run obtain cx :: pm_state where cx: "applyEvent ev s = Inr cx"
    and s': "s' = saveEntities ev account
               (marginAccounts s (marginAccountIdOf (pm_account ev) (ev_address ev))) cx"
    unfolding account_def by (rule handlePositionModified_Inr)
  have pos1: "cx_position (loadEntities ev s) =
      newFuturesPosition ev (markets s (toHex (ev_address ev))) account
        (snd (resolveAccount s (pm_account ev)))"
    by (simp add: loadEntities_position new account_def)
  have size1: "p_size (cx_position cx1) = pm_size ev"
    and avg1: "p_avgEntryPrice (cx_position cx1) = pm_lastPrice ev"
    and pnl1: "p_pnl (cx_position cx1) = 0"
    by (simp_all add: cx1_def accrueFunding_position_fields pos1 newFuturesPosition_def ZERO_def)
  have zero: "reducePnl ev (cx_position cx1) = 0"
    by (simp add: reducePnl_def avg1)
  from applyEvent_trade [OF cx trade, folded account_def, folded cx1_def]
  obtain trade' stat1' pos1' where
    u: "updatePnlAndEntryPrice ev
       (newMarketTrade ev (markets s (toHex (ev_address ev))) account
          (snd (resolveAccount s (pm_account ev))) (fundingAccruedOf ev (loadEntities ev s)))
       (cx_stat cx1) (cx_position cx1) = Inr (trade', stat1', pos1')"
    and cp: "cx_position cx = pos1'\<lparr> p_trades := p_trades pos1' + 1,
                              p_totalVolume := p_totalVolume pos1' + tradeVolume ev \<rparr>"
    by blast
  from u updatePnlAndEntryPrice_same_size [OF size size1]
  have p': "pos1' = (cx_position cx1)\<lparr> p_pnl := p_pnl (cx_position cx1) + 0 \<rparr>"
    by (auto simp: zero)
  have a: "positions s' (positionIdOf (ev_address ev) (pm_id ev)) =
      Some (updateGlobalPosition ev (cx_position cx))"
    by (simp add: s' saveEntities_positions)
  have e: "p_avgEntryPrice (updateGlobalPosition ev (cx_position cx)) = pm_lastPrice ev"
    "p_size (updateGlobalPosition ev (cx_position cx)) = pm_size ev"
    "p_pnl (updateGlobalPosition ev (cx_position cx)) = 0"
    by (simp_all add: updateGlobalPosition_def Let_def cp p' pnl1 avg1)
  from a e show ?thesis by simp
qed

text \<open>
  C4. When \<^verbatim>\<open>handlePositionModified\<close> processes an event with a non-zero \<^verbatim>\<open>tradeSize\<close> and
  a new size of zero on a stored position, the trade's PnL is
  \<^verbatim>\<open>(lastPrice - avgEntryPrice) * oldSize / UNIT\<close>, that PnL is added to the PnL of the
  position and of the stat, the position is marked not open, and the exit price and the
  close timestamp are recorded. In particular, opening a position of size \<open>S\<close> at price
  \<open>P1\<close> and closing it at \<open>P2\<close> with the next event of that position gives the trade PnL
  \<^verbatim>\<open>(P2 - P1) * S / UNIT\<close>, which is also the PnL of the position.
\<close>

theorem close_realises_pnl:
  "(handlePositionModified ev s = Inr s' \<and>
    positions s (positionIdOf (ev_address ev) (pm_id ev)) = Some pos \<and>
    pm_tradeSize ev \<noteq> 0 \<and> pm_size ev = 0 \<longrightarrow>
      (\<exists>pos' trade' stat'.
         positions s' (positionIdOf (ev_address ev) (pm_id ev)) = Some pos' \<and>
         trades s' (tradeIdOf (ev_txHash ev) (ev_logIndex ev)) = Some trade' \<and>
         stats s' (toHex (fst (resolveAccount s (pm_account ev)))) = Some stat' \<and>
         t_pnl trade' = ((pm_lastPrice ev - p_avgEntryPrice pos) * p_size pos) sdiv ETHER \<and>
         p_pnl pos' =
           p_pnl pos + ((pm_lastPrice ev - p_avgEntryPrice pos) * p_size pos) sdiv ETHER \<and>
         st_pnl stat' =
           (case stats s (toHex (fst (resolveAccount s (pm_account ev)))) of
              None \<Rightarrow> 0 | Some stat \<Rightarrow> st_pnl stat)
           + ((pm_lastPrice ev - p_avgEntryPrice pos) * p_size pos) sdiv ETHER \<and>
         \<not> p_isOpen pos' \<and>
         p_exitPrice pos' = Some (pm_lastPrice ev) \<and>
         p_closeTimestamp pos' = Some (ev_timestamp ev))) \<and>
   (positions s0 (positionIdOf (ev_address evOpen) (pm_id evOpen)) = None \<and>
    handlePositionModified evOpen s0 = Inr s1 \<and>
    pm_tradeSize evOpen \<noteq> 0 \<and> pm_size evOpen \<noteq> 0 \<and>
    handlePositionModified evClose s1 = Inr s2 \<and>
    ev_address evClose = ev_address evOpen \<and> pm_id evClose = pm_id evOpen \<and>
    pm_tradeSize evClose \<noteq> 0 \<and> pm_size evClose = 0 \<longrightarrow>
      (\<exists>pos2 trade2.
         positions s2 (positionIdOf (ev_address evOpen) (pm_id evOpen)) = Some pos2 \<and>
         trades s2 (tradeIdOf (ev_txHash evClose) (ev_logIndex evClose)) = Some trade2 \<and>
         t_pnl trade2 = ((pm_lastPrice evClose - pm_lastPrice evOpen) * pm_size evOpen) sdiv ETHER \<and>
         p_pnl pos2 = ((pm_lastPrice evClose - pm_lastPrice evOpen) * pm_size evOpen) sdiv ETHER \<and>
         \<not> p_isOpen pos2))"
proof (intro conjI impI)
  assume "handlePositionModified ev s = Inr s' \<and>
    positions s (positionIdOf (ev_address ev) (pm_id ev)) = Some pos \<and>
    pm_tradeSize ev \<noteq> 0 \<and> pm_size ev = 0"
  then show "\<exists>pos' trade' stat'.
         positions s' (positionIdOf (ev_address ev) (pm_id ev)) = Some pos' \<and>
         trades s' (tradeIdOf (ev_txHash ev) (ev_logIndex ev)) = Some trade' \<and>
         stats s' (toHex (fst (resolveAccount s (pm_account ev)))) = Some stat' \<and>
         t_pnl trade' = ((pm_lastPrice ev - p_avgEntryPrice pos) * p_size pos) sdiv ETHER \<and>
         p_pnl pos' =
           p_pnl pos + ((pm_lastPrice ev - p_avgEntryPrice pos) * p_size pos) sdiv ETHER \<and>
         st_pnl stat' =
           (case stats s (toHex (fst (resolveAccount s (pm_account ev)))) of
              None \<Rightarrow> 0 | Some stat \<Rightarrow> st_pnl stat)
           + ((pm_lastPrice ev - p_avgEntryPrice pos) * p_size pos) sdiv ETHER \<and>
         \<not> p_isOpen pos' \<and>
         p_exitPrice pos' = Some (pm_lastPrice ev) \<and>
         p_closeTimestamp pos' = Some (ev_timestamp ev)"
    using closing_trade_pnl [of ev s s' pos] by blast
next
  assume h: "positions s0 (positionIdOf (ev_address evOpen) (pm_id evOpen)) = None \<and>
    handlePositionModified evOpen s0 = Inr s1 \<and>
    pm_tradeSize evOpen \<noteq> 0 \<and> pm_size evOpen \<noteq> 0 \<and>
    handlePositionModified evClose s1 = Inr s2 \<and>
    ev_address evClose = ev_address evOpen \<and> pm_id evClose = pm_id evOpen \<and>
    pm_tradeSize evClose \<noteq> 0 \<and> pm_size evClose = 0"
  then obtain pos1 where
    p1: "positions s1 (positionIdOf (ev_address evOpen) (pm_id evOpen)) = Some pos1"
    and avg: "p_avgEntryPrice pos1 = pm_lastPrice evOpen"
    and size: "p_size pos1 = pm_size evOpen"
    and pnl: "p_pnl pos1 = 0"
    using open_new_position [of evOpen s0 s1] by blast
  from h p1 have p1': "positions s1 (positionIdOf (ev_address evClose) (pm_id evClose)) = Some pos1"
    by simp
  from h have c: "handlePositionModified evClose s1 = Inr s2"
    "pm_tradeSize evClose \<noteq> 0" "pm_size evClose = 0"
    by simp_all
  from closing_trade_pnl [OF c(1) p1' c(2) c(3)]
  obtain pos2 trade2 where
    "positions s2 (positionIdOf (ev_address evClose) (pm_id evClose)) = Some pos2"
    "trades s2 (tradeIdOf (ev_txHash evClose) (ev_logIndex evClose)) = Some trade2"
    "t_pnl trade2 = ((pm_lastPrice evClose - p_avgEntryPrice pos1) * p_size pos1) sdiv ETHER"
    "p_pnl pos2 = p_pnl pos1
       + ((pm_lastPrice evClose - p_avgEntryPrice pos1) * p_size pos1) sdiv ETHER"
    "\<not> p_isOpen pos2"
    by blast
  with h show "\<exists>pos2 trade2.
         positions s2 (positionIdOf (ev_address evOpen) (pm_id evOpen)) = Some pos2 \<and>
         trades s2 (tradeIdOf (ev_txHash evClose) (ev_logIndex evClose)) = Some trade2 \<and>
         t_pnl trade2 = ((pm_lastPrice evClose - pm_lastPrice evOpen) * pm_size evOpen) sdiv ETHER \<and>
         p_pnl pos2 = ((pm_lastPrice evClose - pm_lastPrice evOpen) * pm_size evOpen) sdiv ETHER \<and>
         \<not> p_isOpen pos2"
    by (simp add: avg size pnl)
qed


lemma exOpen_result: "handlePositionModified exOpen exStore = Inr exStoreOpen"
  using exOpen_runs by (auto simp: exStoreOpen_def)

lemma exStore_no_position:
  "positions exStore (positionIdOf (ev_address exOpen) (pm_id exOpen)) = None"
  by (simp add: exStore_def emptyStore_def)

lemma exClose_runs:
  "case handlePositionModified exClose exStoreOpen of Inl e \<Rightarrow> False | Inr s' \<Rightarrow> True"
  by code_simp

theorem close_realises_pnl_witness:
  "\<exists>s2 pos pos2 trade2.
     positions exStore (positionIdOf (ev_address exOpen) (pm_id exOpen)) = None \<and>
     handlePositionModified exOpen exStore = Inr exStoreOpen \<and>
     positions exStoreOpen (positionIdOf (ev_address exClose) (pm_id exClose)) = Some pos \<and>
     handlePositionModified exClose exStoreOpen = Inr s2 \<and>
     pm_tradeSize exClose \<noteq> 0 \<and> pm_size exClose = 0 \<and>
     positions s2 (positionIdOf (ev_address exOpen) (pm_id exOpen)) = Some pos2 \<and>
     trades s2 (tradeIdOf (ev_txHash exClose) (ev_logIndex exClose)) = Some trade2 \<and>
     t_pnl trade2 = 200 * 10 ^ 18 \<and>
     p_pnl pos2 = 200 * 10 ^ 18 \<and>
     \<not> p_isOpen pos2 \<and>
     p_exitPrice pos2 = Some (120 * 10 ^ 18)"
proof -
  obtain s2 where run: "handlePositionModified exClose exStoreOpen = Inr s2"
    using exClose_runs by (auto split: sum.splits)
  obtain pos where old: "positions exStoreOpen
        (positionIdOf (ev_address exClose) (pm_id exClose)) = Some pos"
    using exStoreOpen_position by (auto simp: exClose_def exLiquidated_def)
  have ids: "ev_address exClose = ev_address exOpen" "pm_id exClose = pm_id exOpen"
    "pm_tradeSize exClose \<noteq> 0" "pm_size exClose = 0"
    "pm_tradeSize exOpen \<noteq> 0" "pm_size exOpen \<noteq> 0"
    by (simp_all add: exClose_def exOpen_def)
  have amount: "((pm_lastPrice exClose - pm_lastPrice exOpen) * pm_size exOpen) sdiv ETHER
      = 200 * 10 ^ 18"
    by (simp add: exClose_def exOpen_def ETHER_def signed_divide_int_def)
  note inst = close_realises_pnl [of exClose exStoreOpen s2 pos exStore exOpen exStoreOpen
      exClose s2]
  from inst run old ids obtain pos' where
    g: "positions s2 (positionIdOf (ev_address exClose) (pm_id exClose)) = Some pos'"
       "p_exitPrice pos' = Some (pm_lastPrice exClose)"
    by blast
  from inst exStore_no_position exOpen_result run ids obtain pos2 trade2 where
    r: "positions s2 (positionIdOf (ev_address exOpen) (pm_id exOpen)) = Some pos2"
       "trades s2 (tradeIdOf (ev_txHash exClose) (ev_logIndex exClose)) = Some trade2"
       "t_pnl trade2 = 200 * 10 ^ 18" "p_pnl pos2 = 200 * 10 ^ 18" "\<not> p_isOpen pos2"
    unfolding amount by blast
  from g r ids have "p_exitPrice pos2 = Some (120 * 10 ^ 18)"
    by (simp add: exClose_def)
  with r run old ids exStore_no_position exOpen_result show ?thesis
    by blast
qed

section \<open>Margin transfers (C5)\<close>

lemma applyMarginChange_transfer:
  assumes "marginTransfers (cx_store cx)
      (marginTransferIdOf (ev_address ev) (ev_txHash ev) (ev_logIndex ev - 1)) = Some mt"
  shows "applyMarginChange ev account accountType fundingAccrued cx =
     cx\<lparr> cx_position := (cx_position cx)
           \<lparr> p_netTransfers := p_netTransfers (cx_position cx) + mt_size mt,
             p_totalDeposits :=
               (if mt_size mt > 0 then p_totalDeposits (cx_position cx) + mt_size mt
                else p_totalDeposits (cx_position cx)) \<rparr> \<rparr>"
  using assms by (simp add: applyMarginChange_def Let_def ZERO_def)

text \<open>
  C5. When \<^verbatim>\<open>handlePositionModified\<close> processes an event with a zero \<^verbatim>\<open>tradeSize\<close> and a
  \<^verbatim>\<open>FuturesMarginTransfer\<close> exists at the key (market, txHash, logIndex - 1), the signed
  size of the transfer is added to the position's \<^verbatim>\<open>netTransfers\<close>, and to its
  \<^verbatim>\<open>totalDeposits\<close> when positive, and no trade entity is written, whatever the event's
  size and margin are (a position created by this event starts from zero).
\<close>

theorem margin_transfer_is_not_a_liquidation:
  assumes run: "handlePositionModified ev s = Inr s'"
    and trade: "pm_tradeSize ev = 0"
    and transfer: "marginTransfers s
        (marginTransferIdOf (ev_address ev) (ev_txHash ev) (ev_logIndex ev - 1)) = Some mt"
  shows "trades s' = trades s \<and>
     (\<exists>pos'. positions s' (positionIdOf (ev_address ev) (pm_id ev)) = Some pos' \<and>
        p_netTransfers pos' =
          (case positions s (positionIdOf (ev_address ev) (pm_id ev)) of
             None \<Rightarrow> 0 | Some pos \<Rightarrow> p_netTransfers pos) + mt_size mt \<and>
        p_totalDeposits pos' =
          (case positions s (positionIdOf (ev_address ev) (pm_id ev)) of
             None \<Rightarrow> 0 | Some pos \<Rightarrow> p_totalDeposits pos)
          + (if mt_size mt > 0 then mt_size mt else 0))"
proof -
  define account where "account = fst (resolveAccount s (pm_account ev))"
  define cx1 where "cx1 = accrueFunding ev account (loadEntities ev s)"
  from run obtain cx :: pm_state where cx: "applyEvent ev s = Inr cx"
    and s': "s' = saveEntities ev account
               (marginAccounts s (marginAccountIdOf (pm_account ev) (ev_address ev))) cx"
    unfolding account_def by (rule handlePositionModified_Inr)
  have store1: "marginTransfers (cx_store cx1) = marginTransfers s"
    "trades (cx_store cx1) = trades s"
    by (simp_all add: cx1_def accrueFunding_frame loadEntities_store)
  have nt1: "p_netTransfers (cx_position cx1) =
      (case positions s (positionIdOf (ev_address ev) (pm_id ev)) of
         None \<Rightarrow> 0 | Some pos \<Rightarrow> p_netTransfers pos)"
    and td1: "p_totalDeposits (cx_position cx1) =
      (case positions s (positionIdOf (ev_address ev) (pm_id ev)) of
         None \<Rightarrow> 0 | Some pos \<Rightarrow> p_totalDeposits pos)"
    by (simp_all add: cx1_def accrueFunding_position_fields loadEntities_position
        newFuturesPosition_def ZERO_def split: option.splits)
  have "cx = applyMarginChange ev account (snd (resolveAccount s (pm_account ev)))
      (fundingAccruedOf ev (loadEntities ev s)) cx1"
    using applyEvent_marginChange [OF cx trade] by (simp add: account_def cx1_def)
  also have "\<dots> = cx1\<lparr> cx_position := (cx_position cx1)
           \<lparr> p_netTransfers := p_netTransfers (cx_position cx1) + mt_size mt,
             p_totalDeposits :=
               (if mt_size mt > 0 then p_totalDeposits (cx_position cx1) + mt_size mt
                else p_totalDeposits (cx_position cx1)) \<rparr> \<rparr>"
    by (rule applyMarginChange_transfer) (simp add: store1 transfer)
  finally have cx_eq: "cx = cx1\<lparr> cx_position := (cx_position cx1)
           \<lparr> p_netTransfers := p_netTransfers (cx_position cx1) + mt_size mt,
             p_totalDeposits :=
               (if mt_size mt > 0 then p_totalDeposits (cx_position cx1) + mt_size mt
                else p_totalDeposits (cx_position cx1)) \<rparr> \<rparr>" .
  have a: "trades s' = trades s"
    by (simp add: s' saveEntities_others cx_eq store1)
  have b: "positions s' (positionIdOf (ev_address ev) (pm_id ev)) =
      Some (updateGlobalPosition ev (cx_position cx))"
    by (simp add: s' saveEntities_positions)
  have c: "p_netTransfers (updateGlobalPosition ev (cx_position cx)) =
      (case positions s (positionIdOf (ev_address ev) (pm_id ev)) of
         None \<Rightarrow> 0 | Some pos \<Rightarrow> p_netTransfers pos) + mt_size mt"
    by (simp add: updateGlobalPosition_def Let_def cx_eq nt1)
  have d: "p_totalDeposits (updateGlobalPosition ev (cx_position cx)) =
      (case positions s (positionIdOf (ev_address ev) (pm_id ev)) of
         None \<Rightarrow> 0 | Some pos \<Rightarrow> p_totalDeposits pos)
      + (if mt_size mt > 0 then mt_size mt else 0)"
    by (simp add: updateGlobalPosition_def Let_def cx_eq td1)
  from a b c d show ?thesis by simp
qed

text \<open>The scenario of the spec: a deposit of 500, then the event with zero trade size, size
  and margin at the next log index.\<close>

lemma exAfterTransfer_runs:
  "case handlePositionModified exAfterTransfer exStoreTransferred of
     Inl e \<Rightarrow> False | Inr s' \<Rightarrow> True"
  by code_simp

lemma exStoreTransferred_transfer:
  "case marginTransfers exStoreTransferred
      (marginTransferIdOf (ev_address exAfterTransfer) (ev_txHash exAfterTransfer)
         (ev_logIndex exAfterTransfer - 1)) of
     None \<Rightarrow> False | Some mt \<Rightarrow> mt_size mt = 500 * 10 ^ 18"
  by code_simp

lemma exStoreTransferred_start:
  "trades exStoreTransferred = Map.empty"
  "positions exStoreTransferred (positionIdOf (ev_address exAfterTransfer) (pm_id exAfterTransfer))
     = None"
  by (simp_all add: exStoreTransferred_def handleMarginTransferred_def Let_def exStore_def
      emptyStore_def split: option.splits)

theorem margin_transfer_is_not_a_liquidation_witness:
  "\<exists>s' mt pos'.
     handlePositionModified exAfterTransfer exStoreTransferred = Inr s' \<and>
     pm_tradeSize exAfterTransfer = 0 \<and> pm_size exAfterTransfer = 0 \<and>
     pm_margin exAfterTransfer = 0 \<and>
     marginTransfers exStoreTransferred
       (marginTransferIdOf (ev_address exAfterTransfer) (ev_txHash exAfterTransfer)
          (ev_logIndex exAfterTransfer - 1)) = Some mt \<and>
     trades s' = Map.empty \<and>
     positions s' (positionIdOf (ev_address exAfterTransfer) (pm_id exAfterTransfer))
       = Some pos' \<and>
     p_netTransfers pos' = 500 * 10 ^ 18 \<and>
     p_totalDeposits pos' = 500 * 10 ^ 18"
proof -
  obtain s' where run: "handlePositionModified exAfterTransfer exStoreTransferred = Inr s'"
    using exAfterTransfer_runs by (auto split: sum.splits)
  obtain mt where transfer: "marginTransfers exStoreTransferred
       (marginTransferIdOf (ev_address exAfterTransfer) (ev_txHash exAfterTransfer)
          (ev_logIndex exAfterTransfer - 1)) = Some mt"
    and size: "mt_size mt = 500 * 10 ^ 18"
    using exStoreTransferred_transfer by (auto split: option.splits)
  have zero: "pm_tradeSize exAfterTransfer = 0" "pm_size exAfterTransfer = 0"
    "pm_margin exAfterTransfer = 0"
    by (simp_all add: exAfterTransfer_def)
  from margin_transfer_is_not_a_liquidation [OF run zero(1) transfer]
  obtain pos' where "trades s' = Map.empty"
    "positions s' (positionIdOf (ev_address exAfterTransfer) (pm_id exAfterTransfer))
       = Some pos'"
    "p_netTransfers pos' = 500 * 10 ^ 18" "p_totalDeposits pos' = 500 * 10 ^ 18"
    by (auto simp: exStoreTransferred_start size)
  with run transfer zero show ?thesis by blast
qed

section \<open>Liquidation forces the full loss (C6)\<close>

lemma applyMarginChange_liquidation:
  assumes "marginTransfers (cx_store cx)
      (marginTransferIdOf (ev_address ev) (ev_txHash ev) (ev_logIndex ev - 1)) = None"
    and "pm_size ev = 0" and "pm_margin ev = 0"
  shows "cx_position (applyMarginChange ev account accountType fundingAccrued cx) =
     (cx_position cx)
       \<lparr> p_pnl := - (p_initialMargin (cx_position cx) + p_netTransfers (cx_position cx))
                    + p_feesPaid (cx_position cx) - p_netFunding (cx_position cx),
         p_pnlWithFeesPaid :=
           - (p_initialMargin (cx_position cx) + p_netTransfers (cx_position cx)) \<rparr>"
  using assms by (simp add: applyMarginChange_def Let_def)

lemma liquidation_precursor_position:
  assumes run: "handlePositionModified ev s = Inr s1"
    and trade: "pm_tradeSize ev = 0"
    and transfer: "marginTransfers s
        (marginTransferIdOf (ev_address ev) (ev_txHash ev) (ev_logIndex ev - 1)) = None"
    and size: "pm_size ev = 0" and margin: "pm_margin ev = 0"
  shows "\<exists>pos1. positions s1 (positionIdOf (ev_address ev) (pm_id ev)) = Some pos1 \<and>
     p_pnl pos1 = - (p_initialMargin pos1 + p_netTransfers pos1) + p_feesPaid pos1
                  - p_netFunding pos1 - pm_fee ev"
proof -
  define account where "account = fst (resolveAccount s (pm_account ev))"
  define cx1 where "cx1 = accrueFunding ev account (loadEntities ev s)"
  from run obtain cx :: pm_state where cx: "applyEvent ev s = Inr cx"
    and s1: "s1 = saveEntities ev account
               (marginAccounts s (marginAccountIdOf (pm_account ev) (ev_address ev))) cx"
    unfolding account_def by (rule handlePositionModified_Inr)
  have store1: "marginTransfers (cx_store cx1) = marginTransfers s"
    by (simp add: cx1_def accrueFunding_frame loadEntities_store)
  have cxe: "cx = applyMarginChange ev account (snd (resolveAccount s (pm_account ev)))
      (fundingAccruedOf ev (loadEntities ev s)) cx1"
    using applyEvent_marginChange [OF cx trade] by (simp add: account_def cx1_def)
  have pos: "cx_position cx = (cx_position cx1)
       \<lparr> p_pnl := - (p_initialMargin (cx_position cx1) + p_netTransfers (cx_position cx1))
                    + p_feesPaid (cx_position cx1) - p_netFunding (cx_position cx1),
         p_pnlWithFeesPaid :=
           - (p_initialMargin (cx_position cx1) + p_netTransfers (cx_position cx1)) \<rparr>"
    unfolding cxe by (rule applyMarginChange_liquidation) (simp_all add: store1 transfer size margin)
  have a: "positions s1 (positionIdOf (ev_address ev) (pm_id ev)) =
      Some (updateGlobalPosition ev (cx_position cx))"
    by (simp add: s1 saveEntities_positions)
  have b: "p_pnl (updateGlobalPosition ev (cx_position cx)) =
      - (p_initialMargin (updateGlobalPosition ev (cx_position cx))
         + p_netTransfers (updateGlobalPosition ev (cx_position cx)))
      + p_feesPaid (updateGlobalPosition ev (cx_position cx))
      - p_netFunding (updateGlobalPosition ev (cx_position cx)) - pm_fee ev"
    by (simp add: updateGlobalPosition_def Let_def pos)
  from a b show ?thesis by simp
qed

lemma liquidatePosition_keeps_offset:
  assumes "p_pnl pos = - (p_initialMargin pos + p_netTransfers pos) + p_feesPaid pos
                  - p_netFunding pos - d"
  shows "p_pnl (liquidatePosition ts fee pos) =
     - (p_initialMargin (liquidatePosition ts fee pos)
        + p_netTransfers (liquidatePosition ts fee pos))
     + p_feesPaid (liquidatePosition ts fee pos)
     - p_netFunding (liquidatePosition ts fee pos) - d"
  using assms by (simp add: liquidatePosition_def Let_def)

lemma liquidated_position_misses_event_fee:
  assumes run: "handlePositionModified ev s = Inr s1"
    and trade: "pm_tradeSize ev = 0"
    and transfer: "marginTransfers s
        (marginTransferIdOf (ev_address ev) (ev_txHash ev) (ev_logIndex ev - 1)) = None"
    and size: "pm_size ev = 0" and margin: "pm_margin ev = 0"
    and same: "ev_address lev = ev_address ev" "pl_id lev = pm_id ev"
    and same2: "ev_address lev2 = ev_address ev" "pl2_id lev2 = pm_id ev"
  shows "(\<exists>pos2. positions (handlePositionLiquidated lev s1)
              (positionIdOf (ev_address ev) (pm_id ev)) = Some pos2 \<and>
            p_pnl pos2 = - (p_initialMargin pos2 + p_netTransfers pos2) + p_feesPaid pos2
                         - p_netFunding pos2 - pm_fee ev) \<and>
         (\<exists>pos2. positions (handlePositionLiquidatedV2 lev2 s1)
              (positionIdOf (ev_address ev) (pm_id ev)) = Some pos2 \<and>
            p_pnl pos2 = - (p_initialMargin pos2 + p_netTransfers pos2) + p_feesPaid pos2
                         - p_netFunding pos2 - pm_fee ev)"
proof -
  from liquidation_precursor_position [OF run trade transfer size margin]
  obtain pos1 where p1: "positions s1 (positionIdOf (ev_address ev) (pm_id ev)) = Some pos1"
    and id1: "p_pnl pos1 = - (p_initialMargin pos1 + p_netTransfers pos1) + p_feesPaid pos1
                  - p_netFunding pos1 - pm_fee ev"
    by blast
  have "positions (handlePositionLiquidated lev s1) (positionIdOf (ev_address ev) (pm_id ev)) =
      Some (liquidatePosition (ev_timestamp lev) (pl_fee lev) pos1)"
    by (simp add: handlePositionLiquidated_positions same p1)
  moreover have "positions (handlePositionLiquidatedV2 lev2 s1)
      (positionIdOf (ev_address ev) (pm_id ev)) =
      Some (liquidatePosition (ev_timestamp lev2)
        (pl2_flaggerFee lev2 + pl2_liquidatorFee lev2 + pl2_stakersFee lev2) pos1)"
    by (simp add: handlePositionLiquidatedV2_positions same2 p1)
  ultimately show ?thesis
    using liquidatePosition_keeps_offset [OF id1] by simp
qed

lemma exPrecursor_runs:
  "case handlePositionModified exPrecursor exStoreOpen of Inl e \<Rightarrow> False | Inr s' \<Rightarrow> True"
  by code_simp

lemma exPrecursor_result: "handlePositionModified exPrecursor exStoreOpen = Inr exStorePrecursor"
  using exPrecursor_runs by (auto simp: exStorePrecursor_def split: sum.splits)

lemma exPrecursor_no_transfer:
  "marginTransfers exStoreOpen
     (marginTransferIdOf (ev_address exPrecursor) (ev_txHash exPrecursor)
        (ev_logIndex exPrecursor - 1)) = None"
  by code_simp

lemma exPrecursor_trade:
  "map_option t_orderType
     (trades exStorePrecursor (tradeIdOf (ev_txHash exPrecursor) (ev_logIndex exPrecursor)))
   = Some ''Liquidation''"
  by code_simp

lemma exLiquidated_values:
  "pnlAndFullLoss (handlePositionLiquidated exLiquidated exStorePrecursor)
     (positionIdOf exMarket 1)
   = Some (- (998 * 10 ^ 18), - (997 * 10 ^ 18))"
  by code_simp

lemma exPrecursor_position:
  "map_option (\<lambda>pos. (p_initialMargin pos + p_netTransfers pos, p_pnlWithFeesPaid pos))
     (positions exStorePrecursor (positionIdOf exMarket 1))
   = Some (1005 * 10 ^ 18, - (1006 * 10 ^ 18))"
  by code_simp

text \<open>
  C6. The claim is that after \<^verbatim>\<open>handlePositionModified\<close> has taken the liquidation branch
  and \<^verbatim>\<open>PositionLiquidated\<close> has been processed, the position satisfies
  \<^verbatim>\<open>pnl = -(initialMargin + netTransfers) + feesPaid - netFunding\<close>. The liquidation branch
  computes the full-loss values from \<^verbatim>\<open>feesPaid\<close> before the event's own fee is added: the
  trailing update of the handler then adds the fee to \<^verbatim>\<open>feesPaid\<close> and recomputes
  \<^verbatim>\<open>pnlWithFeesPaid\<close>, overwriting the value \<^verbatim>\<open>-(initialMargin + netTransfers)\<close> that the
  branch had just assigned, and leaves \<^verbatim>\<open>pnl\<close> short of the identity by that fee
  (\<open>liquidated_position_misses_event_fee\<close>). \<^verbatim>\<open>handlePositionLiquidated\<close> adds its fee to
  both \<^verbatim>\<open>feesPaid\<close> and \<^verbatim>\<open>pnl\<close> and so keeps the difference. On the open position of the
  example (initial margin 1005, fees paid 5), a liquidation-branch event with a fee of 1
  leaves \<^verbatim>\<open>pnlWithFeesPaid = -1006\<close>, more than the full loss \<^verbatim>\<open>-1005\<close>; followed by
  \<^verbatim>\<open>PositionLiquidated\<close> with a fee of 2, the position has \<^verbatim>\<open>pnl = -998\<close>, while
  \<^verbatim>\<open>-(initialMargin + netTransfers) + feesPaid - netFunding = -997\<close>: the identity fails.
\<close>

theorem liquidation_identity_off_by_event_fee:
  "handlePositionModified exPrecursor exStoreOpen = Inr exStorePrecursor \<and>
   pm_tradeSize exPrecursor = 0 \<and> pm_size exPrecursor = 0 \<and> pm_margin exPrecursor = 0 \<and>
   marginTransfers exStoreOpen
     (marginTransferIdOf (ev_address exPrecursor) (ev_txHash exPrecursor)
        (ev_logIndex exPrecursor - 1)) = None \<and>
   map_option t_orderType
     (trades exStorePrecursor (tradeIdOf (ev_txHash exPrecursor) (ev_logIndex exPrecursor)))
     = Some ''Liquidation'' \<and>
   map_option (\<lambda>pos. (p_initialMargin pos + p_netTransfers pos, p_pnlWithFeesPaid pos))
     (positions exStorePrecursor (positionIdOf exMarket 1))
     = Some (1005 * 10 ^ 18, - (1006 * 10 ^ 18)) \<and>
   pnlAndFullLoss (handlePositionLiquidated exLiquidated exStorePrecursor)
     (positionIdOf exMarket 1)
     = Some (- (998 * 10 ^ 18), - (997 * 10 ^ 18))"
  using exPrecursor_result exPrecursor_no_transfer exPrecursor_trade exPrecursor_position
    exLiquidated_values
  by (simp add: exPrecursor_def)

section \<open>Funding accrual (C7)\<close>

lemma accrueFunding_result:
  assumes "cx_position (loadEntities ev s) = pos"
    and "p_fundingIndex pos \<noteq> pm_fundingIndex ev"
  shows "case fundingBetween
              (fundingRateUpdates s (fundingRateUpdateIdOf (ev_address ev) (p_fundingIndex pos)))
              (fundingRateUpdates s (fundingRateUpdateIdOf (ev_address ev) (pm_fundingIndex ev)))
              (p_size pos) of
           None \<Rightarrow> accrueFunding ev account (loadEntities ev s) = loadEntities ev s
         | Some fa \<Rightarrow>
             p_netFunding (cx_position (accrueFunding ev account (loadEntities ev s)))
               = p_netFunding pos + fa \<and>
             p_fundingIndex (cx_position (accrueFunding ev account (loadEntities ev s)))
               = pm_fundingIndex ev \<and>
             st_feesPaid (cx_stat (accrueFunding ev account (loadEntities ev s)))
               = st_feesPaid (cx_stat (loadEntities ev s)) - fa \<and>
             fundingPayments (cx_store (accrueFunding ev account (loadEntities ev s))) =
               (if fa \<noteq> 0
                then (fundingPayments s)
                  (fundingPaymentIdOf (positionIdOf (ev_address ev) (pm_id ev))
                     (ev_txHash ev) (ev_logIndex ev) \<mapsto>
                   \<lparr> fp_timestamp = ev_timestamp ev, fp_account = account,
                     fp_positionId = positionIdOf (ev_address ev) (pm_id ev),
                     fp_marketKey = p_marketKey pos, fp_asset = p_asset pos,
                     fp_amount = fa \<rparr>)
                else fundingPayments s)"
  using assms
  by (auto simp: accrueFunding_def fundingBetween_def Let_def loadEntities_store ZERO_def
      split: option.splits)


lemma updatePnlAndEntryPrice_keeps:
  assumes "updatePnlAndEntryPrice ev trade stat pos = Inr (trade', stat', pos')"
  shows "p_netFunding pos' = p_netFunding pos"
    and "p_fundingIndex pos' = p_fundingIndex pos"
    and "st_feesPaid stat' = st_feesPaid stat"
  using assms
  by (auto simp: updatePnlAndEntryPrice_def Let_def bigIntDiv_def split: if_splits)

lemma applyMarginChange_keeps:
  shows "p_netFunding (cx_position (applyMarginChange ev account accountType fa cx))
           = p_netFunding (cx_position cx)"
    and "p_fundingIndex (cx_position (applyMarginChange ev account accountType fa cx))
           = p_fundingIndex (cx_position cx)"
    and "st_feesPaid (cx_stat (applyMarginChange ev account accountType fa cx))
           = st_feesPaid (cx_stat cx)"
  by (simp_all add: applyMarginChange_def Let_def split: option.splits)

lemma applyEvent_keeps_funding:
  assumes cx: "applyEvent ev s = Inr cx"
  shows "p_netFunding (cx_position cx) = p_netFunding (cx_position
             (accrueFunding ev (fst (resolveAccount s (pm_account ev))) (loadEntities ev s)))"
    and "p_fundingIndex (cx_position cx) = p_fundingIndex (cx_position
             (accrueFunding ev (fst (resolveAccount s (pm_account ev))) (loadEntities ev s)))"
    and "st_feesPaid (cx_stat cx) = st_feesPaid (cx_stat
             (accrueFunding ev (fst (resolveAccount s (pm_account ev))) (loadEntities ev s)))"
    and "fundingPayments (cx_store cx) = fundingPayments (cx_store
             (accrueFunding ev (fst (resolveAccount s (pm_account ev))) (loadEntities ev s)))"
proof -
  define cx1 where
    "cx1 = accrueFunding ev (fst (resolveAccount s (pm_account ev))) (loadEntities ev s)"
  have "p_netFunding (cx_position cx) = p_netFunding (cx_position cx1) \<and>
        p_fundingIndex (cx_position cx) = p_fundingIndex (cx_position cx1) \<and>
        st_feesPaid (cx_stat cx) = st_feesPaid (cx_stat cx1) \<and>
        fundingPayments (cx_store cx) = fundingPayments (cx_store cx1)"
  proof (cases "pm_tradeSize ev = 0")
    case True
    from applyEvent_marginChange [OF cx True] show ?thesis
      by (simp add: cx1_def applyMarginChange_keeps applyMarginChange_frame)
  next
    case False
    from applyEvent_trade [OF cx False, folded cx1_def]
    obtain trade' stat1' pos1' where
      u: "updatePnlAndEntryPrice ev
         (newMarketTrade ev (markets s (toHex (ev_address ev)))
            (fst (resolveAccount s (pm_account ev))) (snd (resolveAccount s (pm_account ev)))
            (fundingAccruedOf ev (loadEntities ev s)))
         (cx_stat cx1) (cx_position cx1) = Inr (trade', stat1', pos1')"
      and cp: "cx_position cx = pos1'\<lparr> p_trades := p_trades pos1' + 1,
                                p_totalVolume := p_totalVolume pos1' + tradeVolume ev \<rparr>"
      and cs: "cx_stat cx = stat1'\<lparr> st_totalTrades := st_totalTrades stat1' + 1,
         st_totalVolume := st_totalVolume stat1' + tradeVolume ev,
         st_smartMarginVolume :=
           (if snd (resolveAccount s (pm_account ev)) = ''smart_margin''
            then st_smartMarginVolume stat1' + tradeVolume ev
            else st_smartMarginVolume stat1') \<rparr>"
      by blast
    from cx False have a: "applyTrade ev (markets s (toHex (ev_address ev)))
        (fst (resolveAccount s (pm_account ev)))
        (snd (resolveAccount s (pm_account ev))) (fundingAccruedOf ev (loadEntities ev s)) cx1
        = Inr cx"
      by (simp add: applyEvent_def Let_def cx1_def)
    show ?thesis
      using updatePnlAndEntryPrice_keeps [OF u] applyTrade_frame [OF a]
      by (simp add: cp cs)
  qed
  then show
    "p_netFunding (cx_position cx) = p_netFunding (cx_position
             (accrueFunding ev (fst (resolveAccount s (pm_account ev))) (loadEntities ev s)))"
    "p_fundingIndex (cx_position cx) = p_fundingIndex (cx_position
             (accrueFunding ev (fst (resolveAccount s (pm_account ev))) (loadEntities ev s)))"
    "st_feesPaid (cx_stat cx) = st_feesPaid (cx_stat
             (accrueFunding ev (fst (resolveAccount s (pm_account ev))) (loadEntities ev s)))"
    "fundingPayments (cx_store cx) = fundingPayments (cx_store
             (accrueFunding ev (fst (resolveAccount s (pm_account ev))) (loadEntities ev s)))"
    unfolding cx1_def by simp_all
qed

text \<open>
  C7. When the funding index stored on the position differs from the event's,
  \<^verbatim>\<open>handlePositionModified\<close> accrues funding exactly when the \<^verbatim>\<open>FundingRateUpdate\<close> of the
  stored index and that of the event's index both exist. Then the accrued funding
  \<^verbatim>\<open>(currentFunding - pastFunding) * positionSize / UNIT\<close> is added to the position's
  \<^verbatim>\<open>netFunding\<close> and subtracted from the stat's \<^verbatim>\<open>feesPaid\<close> (to which the event's fee is
  added afterwards), a \<^verbatim>\<open>FundingPayment\<close> is saved when the amount is not zero, and the
  stored index becomes the event's. When a checkpoint is missing, the net funding and the
  stored index are unchanged, the stat's fees grow by the event's fee only, and no payment
  is saved.
\<close>

theorem funding_accrues_between_checkpoints:
  assumes run: "handlePositionModified ev s = Inr s'"
    and old: "positions s (positionIdOf (ev_address ev) (pm_id ev)) = Some pos"
    and differs: "p_fundingIndex pos \<noteq> pm_fundingIndex ev"
  shows "\<exists>pos' stat'.
     positions s' (positionIdOf (ev_address ev) (pm_id ev)) = Some pos' \<and>
     stats s' (toHex (fst (resolveAccount s (pm_account ev)))) = Some stat' \<and>
     (case fundingBetween
              (fundingRateUpdates s (fundingRateUpdateIdOf (ev_address ev) (p_fundingIndex pos)))
              (fundingRateUpdates s (fundingRateUpdateIdOf (ev_address ev) (pm_fundingIndex ev)))
              (p_size pos) of
        None \<Rightarrow>
          p_netFunding pos' = p_netFunding pos \<and>
          p_fundingIndex pos' = p_fundingIndex pos \<and>
          st_feesPaid stat' =
            (case stats s (toHex (fst (resolveAccount s (pm_account ev)))) of
               None \<Rightarrow> 0 | Some stat \<Rightarrow> st_feesPaid stat) + pm_fee ev \<and>
          fundingPayments s' = fundingPayments s
      | Some fa \<Rightarrow>
          p_netFunding pos' = p_netFunding pos + fa \<and>
          p_fundingIndex pos' = pm_fundingIndex ev \<and>
          st_feesPaid stat' =
            (case stats s (toHex (fst (resolveAccount s (pm_account ev)))) of
               None \<Rightarrow> 0 | Some stat \<Rightarrow> st_feesPaid stat) - fa + pm_fee ev \<and>
          fundingPayments s' =
            (if fa \<noteq> 0
             then (fundingPayments s)
               (fundingPaymentIdOf (positionIdOf (ev_address ev) (pm_id ev))
                  (ev_txHash ev) (ev_logIndex ev) \<mapsto>
                \<lparr> fp_timestamp = ev_timestamp ev,
                  fp_account = fst (resolveAccount s (pm_account ev)),
                  fp_positionId = positionIdOf (ev_address ev) (pm_id ev),
                  fp_marketKey = p_marketKey pos, fp_asset = p_asset pos,
                  fp_amount = fa \<rparr>)
             else fundingPayments s))"
proof -
  define account where "account = fst (resolveAccount s (pm_account ev))"
  define cx1 where "cx1 = accrueFunding ev account (loadEntities ev s)"
  define fb where "fb = fundingBetween
      (fundingRateUpdates s (fundingRateUpdateIdOf (ev_address ev) (p_fundingIndex pos)))
      (fundingRateUpdates s (fundingRateUpdateIdOf (ev_address ev) (pm_fundingIndex ev)))
      (p_size pos)"
  define fees0 where "fees0 =
      (case stats s (toHex account) of None \<Rightarrow> 0 | Some stat \<Rightarrow> st_feesPaid stat)"
  from run obtain cx :: pm_state where cx: "applyEvent ev s = Inr cx"
    and s': "s' = saveEntities ev account
               (marginAccounts s (marginAccountIdOf (pm_account ev) (ev_address ev))) cx"
    unfolding account_def by (rule handlePositionModified_Inr)
  have pos0: "cx_position (loadEntities ev s) = pos"
    by (simp add: loadEntities_position old)
  have stat0: "st_feesPaid (cx_stat (loadEntities ev s)) = fees0"
    by (simp add: loadEntities_stat fees0_def account_def newFuturesStat_def ZERO_def
        split: option.splits)
  note keep = applyEvent_keeps_funding [OF cx, folded account_def, folded cx1_def]
  note funding = accrueFunding_result [OF pos0 differs, of account, folded cx1_def fb_def]
  have a: "positions s' (positionIdOf (ev_address ev) (pm_id ev)) =
      Some (updateGlobalPosition ev (cx_position cx))"
    by (simp add: s' saveEntities_positions)
  have b: "stats s' (toHex account) = Some (updateGlobalStat ev (cx_stat cx))"
    by (simp add: s' saveEntities_stats)
  have c: "p_netFunding (updateGlobalPosition ev (cx_position cx)) = p_netFunding (cx_position cx1)"
    "p_fundingIndex (updateGlobalPosition ev (cx_position cx)) = p_fundingIndex (cx_position cx1)"
    by (simp_all add: updateGlobalPosition_def Let_def keep)
  have d: "st_feesPaid (updateGlobalStat ev (cx_stat cx)) = st_feesPaid (cx_stat cx1) + pm_fee ev"
    by (simp add: updateGlobalStat_def Let_def keep)
  have e: "fundingPayments s' = fundingPayments (cx_store cx1)"
    by (simp add: s' saveEntities_others keep)
  have "case fb of
        None \<Rightarrow>
          p_netFunding (updateGlobalPosition ev (cx_position cx)) = p_netFunding pos \<and>
          p_fundingIndex (updateGlobalPosition ev (cx_position cx)) = p_fundingIndex pos \<and>
          st_feesPaid (updateGlobalStat ev (cx_stat cx)) = fees0 + pm_fee ev \<and>
          fundingPayments s' = fundingPayments s
      | Some fa \<Rightarrow>
          p_netFunding (updateGlobalPosition ev (cx_position cx)) = p_netFunding pos + fa \<and>
          p_fundingIndex (updateGlobalPosition ev (cx_position cx)) = pm_fundingIndex ev \<and>
          st_feesPaid (updateGlobalStat ev (cx_stat cx)) = fees0 - fa + pm_fee ev \<and>
          fundingPayments s' =
            (if fa \<noteq> 0
             then (fundingPayments s)
               (fundingPaymentIdOf (positionIdOf (ev_address ev) (pm_id ev))
                  (ev_txHash ev) (ev_logIndex ev) \<mapsto>
                \<lparr> fp_timestamp = ev_timestamp ev,
                  fp_account = account,
                  fp_positionId = positionIdOf (ev_address ev) (pm_id ev),
                  fp_marketKey = p_marketKey pos, fp_asset = p_asset pos,
                  fp_amount = fa \<rparr>)
             else fundingPayments s)"
  proof (cases fb)
    case None
    with funding have "cx1 = loadEntities ev s" by simp
    with None show ?thesis
      by (simp add: c d e pos0 stat0 loadEntities_store)
  next
    case (Some fa)
    with funding show ?thesis
      by (simp add: c d e stat0)
  qed
  with a b show ?thesis
    unfolding account_def [symmetric] fb_def [symmetric] fees0_def [symmetric] by blast
qed


lemma exFunded_runs:
  "case handlePositionModified exFunded exStoreFunded of Inl e \<Rightarrow> False | Inr s' \<Rightarrow> True"
  "case handlePositionModified exFunded exStoreOpen of Inl e \<Rightarrow> False | Inr s' \<Rightarrow> True"
  by code_simp+

lemma exStoreFunded_position:
  "case positions exStoreFunded (positionIdOf (ev_address exFunded) (pm_id exFunded)) of
     None \<Rightarrow> False
   | Some pos \<Rightarrow> p_fundingIndex pos = 3 \<and> p_netFunding pos = 0 \<and>
       p_size pos = 10000000000000000000"
  "case positions exStoreOpen (positionIdOf (ev_address exFunded) (pm_id exFunded)) of
     None \<Rightarrow> False
   | Some pos \<Rightarrow> p_fundingIndex pos = 3 \<and> p_netFunding pos = 0 \<and>
       p_size pos = 10000000000000000000"
  by code_simp+

lemma exStoreFunded_checkpoints:
  "fundingBetween
     (fundingRateUpdates exStoreFunded (fundingRateUpdateIdOf (ev_address exFunded) 3))
     (fundingRateUpdates exStoreFunded
        (fundingRateUpdateIdOf (ev_address exFunded) (pm_fundingIndex exFunded)))
     10000000000000000000 = Some 20000000000000000000"
  "fundingBetween
     (fundingRateUpdates exStoreOpen (fundingRateUpdateIdOf (ev_address exFunded) 3))
     (fundingRateUpdates exStoreOpen
        (fundingRateUpdateIdOf (ev_address exFunded) (pm_fundingIndex exFunded)))
     10000000000000000000 = None"
  by code_simp+

lemma exStoreFunded_stat:
  "case stats exStoreFunded (toHex (fst (resolveAccount exStoreFunded (pm_account exFunded)))) of
     None \<Rightarrow> False | Some stat \<Rightarrow> st_feesPaid stat = 5000000000000000000"
  "case stats exStoreOpen (toHex (fst (resolveAccount exStoreOpen (pm_account exFunded)))) of
     None \<Rightarrow> False | Some stat \<Rightarrow> st_feesPaid stat = 5000000000000000000"
  by code_simp+

theorem funding_accrues_between_checkpoints_witness:
  "(\<exists>s' pos pos' stat' payment.
      handlePositionModified exFunded exStoreFunded = Inr s' \<and>
      positions exStoreFunded (positionIdOf (ev_address exFunded) (pm_id exFunded)) = Some pos \<and>
      p_fundingIndex pos \<noteq> pm_fundingIndex exFunded \<and>
      positions s' (positionIdOf (ev_address exFunded) (pm_id exFunded)) = Some pos' \<and>
      stats s' (toHex (fst (resolveAccount exStoreFunded (pm_account exFunded)))) = Some stat' \<and>
      p_netFunding pos' = 20 * 10 ^ 18 \<and>
      p_fundingIndex pos' = 5 \<and>
      st_feesPaid stat' = - (12 * 10 ^ 18) \<and>
      fundingPayments s'
        (fundingPaymentIdOf (positionIdOf (ev_address exFunded) (pm_id exFunded))
           (ev_txHash exFunded) (ev_logIndex exFunded)) = Some payment \<and>
      fp_amount payment = 20 * 10 ^ 18) \<and>
   (\<exists>s' pos pos' stat'.
      handlePositionModified exFunded exStoreOpen = Inr s' \<and>
      positions exStoreOpen (positionIdOf (ev_address exFunded) (pm_id exFunded)) = Some pos \<and>
      p_fundingIndex pos \<noteq> pm_fundingIndex exFunded \<and>
      positions s' (positionIdOf (ev_address exFunded) (pm_id exFunded)) = Some pos' \<and>
      stats s' (toHex (fst (resolveAccount exStoreOpen (pm_account exFunded)))) = Some stat' \<and>
      p_netFunding pos' = 0 \<and>
      p_fundingIndex pos' = 3 \<and>
      st_feesPaid stat' = 8 * 10 ^ 18 \<and>
      fundingPayments s' = fundingPayments exStoreOpen)"
proof (rule conjI)
  obtain s' where run: "handlePositionModified exFunded exStoreFunded = Inr s'"
    using exFunded_runs(1) by (auto split: sum.splits)
  obtain pos where old: "positions exStoreFunded
        (positionIdOf (ev_address exFunded) (pm_id exFunded)) = Some pos"
    and pos: "p_fundingIndex pos = 3" "p_netFunding pos = 0" "p_size pos = 10000000000000000000"
    using exStoreFunded_position(1) by (auto split: option.splits)
  obtain stat where stat: "stats exStoreFunded
        (toHex (fst (resolveAccount exStoreFunded (pm_account exFunded)))) = Some stat"
    "st_feesPaid stat = 5000000000000000000"
    using exStoreFunded_stat(1) by (auto split: option.splits)
  have differs: "p_fundingIndex pos \<noteq> pm_fundingIndex exFunded"
    by (simp add: pos exFunded_def)
  have idx: "pm_fundingIndex exFunded = 5" "pm_fee exFunded = 3 * 10 ^ 18"
    by (simp_all add: exFunded_def)
  from funding_accrues_between_checkpoints [OF run old differs]
  obtain pos' stat' where
    "positions s' (positionIdOf (ev_address exFunded) (pm_id exFunded)) = Some pos'"
    "stats s' (toHex (fst (resolveAccount exStoreFunded (pm_account exFunded)))) = Some stat'"
    "p_netFunding pos' = 20 * 10 ^ 18" "p_fundingIndex pos' = 5"
    "st_feesPaid stat' = - (12 * 10 ^ 18)"
    "\<exists>payment. fundingPayments s'
        (fundingPaymentIdOf (positionIdOf (ev_address exFunded) (pm_id exFunded))
           (ev_txHash exFunded) (ev_logIndex exFunded)) = Some payment \<and>
      fp_amount payment = 20 * 10 ^ 18"
    unfolding pos exStoreFunded_checkpoints(1) by (auto simp: stat idx)
  with run old differs show "\<exists>s' pos pos' stat' payment.
      handlePositionModified exFunded exStoreFunded = Inr s' \<and>
      positions exStoreFunded (positionIdOf (ev_address exFunded) (pm_id exFunded)) = Some pos \<and>
      p_fundingIndex pos \<noteq> pm_fundingIndex exFunded \<and>
      positions s' (positionIdOf (ev_address exFunded) (pm_id exFunded)) = Some pos' \<and>
      stats s' (toHex (fst (resolveAccount exStoreFunded (pm_account exFunded)))) = Some stat' \<and>
      p_netFunding pos' = 20 * 10 ^ 18 \<and>
      p_fundingIndex pos' = 5 \<and>
      st_feesPaid stat' = - (12 * 10 ^ 18) \<and>
      fundingPayments s'
        (fundingPaymentIdOf (positionIdOf (ev_address exFunded) (pm_id exFunded))
           (ev_txHash exFunded) (ev_logIndex exFunded)) = Some payment \<and>
      fp_amount payment = 20 * 10 ^ 18"
    by blast
next
  obtain s' where run: "handlePositionModified exFunded exStoreOpen = Inr s'"
    using exFunded_runs(2) by (auto split: sum.splits)
  obtain pos where old: "positions exStoreOpen
        (positionIdOf (ev_address exFunded) (pm_id exFunded)) = Some pos"
    and pos: "p_fundingIndex pos = 3" "p_netFunding pos = 0" "p_size pos = 10000000000000000000"
    using exStoreFunded_position(2) by (auto split: option.splits)
  obtain stat where stat: "stats exStoreOpen
        (toHex (fst (resolveAccount exStoreOpen (pm_account exFunded)))) = Some stat"
    "st_feesPaid stat = 5000000000000000000"
    using exStoreFunded_stat(2) by (auto split: option.splits)
  have differs: "p_fundingIndex pos \<noteq> pm_fundingIndex exFunded"
    by (simp add: pos exFunded_def)
  have fee: "pm_fee exFunded = 3 * 10 ^ 18"
    by (simp add: exFunded_def)
  from funding_accrues_between_checkpoints [OF run old differs]
  obtain pos' stat' where
    "positions s' (positionIdOf (ev_address exFunded) (pm_id exFunded)) = Some pos'"
    "stats s' (toHex (fst (resolveAccount exStoreOpen (pm_account exFunded)))) = Some stat'"
    "p_netFunding pos' = 0" "p_fundingIndex pos' = 3"
    "st_feesPaid stat' = 8 * 10 ^ 18"
    "fundingPayments s' = fundingPayments exStoreOpen"
    unfolding pos exStoreFunded_checkpoints(2) by (auto simp: stat fee)
  with run old differs show "\<exists>s' pos pos' stat'.
      handlePositionModified exFunded exStoreOpen = Inr s' \<and>
      positions exStoreOpen (positionIdOf (ev_address exFunded) (pm_id exFunded)) = Some pos \<and>
      p_fundingIndex pos \<noteq> pm_fundingIndex exFunded \<and>
      positions s' (positionIdOf (ev_address exFunded) (pm_id exFunded)) = Some pos' \<and>
      stats s' (toHex (fst (resolveAccount exStoreOpen (pm_account exFunded)))) = Some stat' \<and>
      p_netFunding pos' = 0 \<and>
      p_fundingIndex pos' = 3 \<and>
      st_feesPaid stat' = 8 * 10 ^ 18 \<and>
      fundingPayments s' = fundingPayments exStoreOpen"
    by blast
qed

section \<open>Counting liquidations (C8)\<close>

lemma toHex_not_SINGLE_INDEX: "toHex b \<noteq> SINGLE_INDEX"
  by (simp add: toHex_def SINGLE_INDEX_def)

lemma getOrCreateMarketCumulativeStats_other:
  "k \<noteq> k' \<Longrightarrow>
   getOrCreateMarketCumulativeStats (s\<lparr> cumulativeStats := (cumulativeStats s)(k' \<mapsto> c) \<rparr>) k
     = getOrCreateMarketCumulativeStats s k"
  by (simp add: getOrCreateMarketCumulativeStats_def)

lemma liquidateStat_fields:
  "liquidateStat fee stat =
     stat\<lparr> st_liquidations := st_liquidations stat + 1,
           st_feesPaid := st_feesPaid stat + fee,
           st_pnl := st_pnl stat + fee,
           st_pnlWithFeesPaid := st_pnl stat + fee - (st_feesPaid stat + fee) \<rparr>"
  by (simp add: liquidateStat_def Let_def)

lemma handlePositionLiquidated_counted:
  "liquidationCounted s (handlePositionLiquidated ev s)
     (positionIdOf (ev_address ev) (pl_id ev))
     (toHex (fst (resolveAccount s (pl_account ev)))) (pl_fee ev)"
  by (simp add: liquidationCounted_def handlePositionLiquidated_def Let_def addLiquidation_def
      getOrCreateCumulativeEntity_def getOrCreateMarketCumulativeStats_def
      toHex_not_SINGLE_INDEX liquidateStat_fields
      split: option.splits)

lemma handlePositionLiquidatedV2_counted:
  "liquidationCounted s (handlePositionLiquidatedV2 ev s)
     (positionIdOf (ev_address ev) (pl2_id ev))
     (toHex (fst (resolveAccount s (pl2_account ev))))
     (pl2_flaggerFee ev + pl2_liquidatorFee ev + pl2_stakersFee ev)"
  by (simp add: liquidationCounted_def handlePositionLiquidatedV2_def Let_def addLiquidation_def
      getOrCreateCumulativeEntity_def getOrCreateMarketCumulativeStats_def
      toHex_not_SINGLE_INDEX liquidateStat_fields
      split: option.splits)

text \<open>
  C8, as amended. Every invocation of \<^verbatim>\<open>handlePositionLiquidated\<close> and of its V2 variant
  adds one to the global \<^verbatim>\<open>totalLiquidations\<close>, also when no position is stored for the
  event; when a position is stored and has an asset, the counter of that asset is one
  more; when a position is stored and a stat exists for the resolved account, the stat's
  \<^verbatim>\<open>liquidations\<close> is one more and the fee is added to its \<^verbatim>\<open>feesPaid\<close> and to its \<^verbatim>\<open>pnl\<close>.
  When no position is stored, no stat changes.
\<close>

theorem liquidations_are_counted:
  "liquidationCounted s (handlePositionLiquidated ev s)
     (positionIdOf (ev_address ev) (pl_id ev))
     (toHex (fst (resolveAccount s (pl_account ev)))) (pl_fee ev) \<and>
   liquidationCounted s (handlePositionLiquidatedV2 ev2 s)
     (positionIdOf (ev_address ev2) (pl2_id ev2))
     (toHex (fst (resolveAccount s (pl2_account ev2))))
     (pl2_flaggerFee ev2 + pl2_liquidatorFee ev2 + pl2_stakersFee ev2)"
  using handlePositionLiquidated_counted handlePositionLiquidatedV2_counted by blast

text \<open>
  C8 as stated fails for a stat without a position: the trader of the example has a stat,
  the event names a position that is not stored, and the stat's \<^verbatim>\<open>liquidations\<close> stays 0
  and its \<^verbatim>\<open>feesPaid\<close> stays 5, while the global counter goes from 0 to 1.
\<close>

theorem stat_not_updated_without_position:
  "positions exStoreOpen
     (positionIdOf (ev_address exLiquidatedMissing) (pl_id exLiquidatedMissing)) = None \<and>
   map_option st_liquidations
     (stats exStoreOpen (toHex (fst (resolveAccount exStoreOpen (pl_account exLiquidatedMissing)))))
     = Some 0 \<and>
   map_option st_liquidations
     (stats (handlePositionLiquidated exLiquidatedMissing exStoreOpen)
        (toHex (fst (resolveAccount exStoreOpen (pl_account exLiquidatedMissing))))) = Some 0 \<and>
   map_option st_feesPaid
     (stats (handlePositionLiquidated exLiquidatedMissing exStoreOpen)
        (toHex (fst (resolveAccount exStoreOpen (pl_account exLiquidatedMissing)))))
     = Some (5 * 10 ^ 18) \<and>
   map_option c_totalLiquidations
     (cumulativeStats (handlePositionLiquidated exLiquidatedMissing exStoreOpen) SINGLE_INDEX)
     = Some 1"
  by code_simp

section \<open>Removed orders (C9)\<close>

lemma fillOrder_orders:
  assumes "fillOrder ev account accountType marketEntity marketAsset order stat trade s = Inr s'"
  shows "orders s' = orders s"
proof (cases "o_keeper order \<noteq> o_account order \<and> bytesToString (dor_trackingCode ev) = ''KWENTA''")
  case False
  with assms show ?thesis
    by (auto simp: fillOrder_def Let_def split: option.splits if_splits prod.splits)
next
  case True
  with assms obtain akey mk ts fk s2 s3 where
    u: "updateAggregateStatEntities accountType mk akey ts ZERO ZERO ZERO fk s2 = Inr s3"
    and s2: "orders s2 = orders s" and s': "orders s' = orders s3"
    by (auto simp: fillOrder_def Let_def split: option.splits if_splits prod.splits sum.splits)
  from updateAggregateStatEntities_frame [OF u] s2 s' show ?thesis by simp
qed


text \<open>
  C9, as amended. When \<^verbatim>\<open>handleDelayedOrderRemoved\<close> finds the market, with its asset, and
  the order of the event, it stamps the order's keeper with the transaction sender and
  sets its status to \<^verbatim>\<open>Filled\<close> when a \<^verbatim>\<open>FuturesStat\<close> of the resolved account and a
  \<^verbatim>\<open>FuturesTrade\<close> at (txHash, logIndex - 1) both exist, and to \<^verbatim>\<open>Cancelled\<close> otherwise;
  no other order changes.
\<close>

theorem removed_order_is_filled_or_cancelled:
  assumes run: "handleDelayedOrderRemoved ev s = Inr s'"
    and market: "markets s (toHex (ev_address ev)) = Some marketEntity"
    and asset: "m_asset marketEntity = Some marketAsset"
    and order: "orders s (futuresOrderIdOf marketAsset (dor_account ev) (dor_targetRoundId ev))
        = Some order"
  shows "orders s' = (orders s)
     (futuresOrderIdOf marketAsset (dor_account ev) (dor_targetRoundId ev) \<mapsto>
      order\<lparr> o_keeper := ev_txFrom ev,
             o_status :=
               (if stats s (toHex (fst (resolveAccount s (dor_account ev)))) \<noteq> None \<and>
                   trades s (tradeIdOf (ev_txHash ev) (ev_logIndex ev - 1)) \<noteq> None
                then ''Filled'' else ''Cancelled'') \<rparr>)"
proof (cases "stats s (toHex (fst (resolveAccount s (dor_account ev))))")
  case None
  with run market asset order show ?thesis
    by (auto simp: handleDelayedOrderRemoved_def Let_def)
next
  case (Some stat)
  note stat = this
  show ?thesis
  proof (cases "trades s (tradeIdOf (ev_txHash ev) (ev_logIndex ev - 1))")
    case None
    with run market asset order stat show ?thesis
      by (auto simp: handleDelayedOrderRemoved_def Let_def)
  next
    case (Some trade)
    with run market asset order stat obtain s1 where
      f: "fillOrder ev (fst (resolveAccount s (dor_account ev)))
            (snd (resolveAccount s (dor_account ev))) marketEntity marketAsset
            (order\<lparr> o_keeper := ev_txFrom ev, o_status := ''Filled'' \<rparr>) stat trade s = Inr s1"
      and s': "s' = s1\<lparr> orders := (orders s1)
            (futuresOrderIdOf marketAsset (dor_account ev) (dor_targetRoundId ev) \<mapsto>
             order\<lparr> o_keeper := ev_txFrom ev, o_status := ''Filled'' \<rparr>) \<rparr>"
      by (auto simp: handleDelayedOrderRemoved_def Let_def split: sum.splits)
    from fillOrder_orders [OF f] s' stat Some show ?thesis by simp
  qed
qed

lemma exRemove_runs:
  "case handleDelayedOrderRemoved exRemoveAlice exStoreOrders of
     Inl e \<Rightarrow> False | Inr s' \<Rightarrow> True"
  by code_simp

lemma exStoreOrders_market:
  "case markets exStoreOrders (toHex (ev_address exRemoveAlice)) of
     None \<Rightarrow> False | Some m \<Rightarrow> m_asset m = Some ''sETH''"
  by code_simp

lemma exStoreOrders_order:
  "map_option o_status
     (orders exStoreOrders
        (futuresOrderIdOf ''sETH'' (dor_account exRemoveAlice) (dor_targetRoundId exRemoveAlice)))
   = Some ''Pending''"
  by code_simp

lemma exStoreOrders_trade_and_stat:
  "stats exStoreOrders (toHex (fst (resolveAccount exStoreOrders (dor_account exRemoveAlice))))
     \<noteq> None"
  "trades exStoreOrders (tradeIdOf (ev_txHash exRemoveAlice) (ev_logIndex exRemoveAlice - 1))
     \<noteq> None"
  by code_simp+

theorem removed_order_is_filled_or_cancelled_witness:
  "\<exists>s' marketEntity order order'.
     handleDelayedOrderRemoved exRemoveAlice exStoreOrders = Inr s' \<and>
     markets exStoreOrders (toHex (ev_address exRemoveAlice)) = Some marketEntity \<and>
     m_asset marketEntity = Some ''sETH'' \<and>
     orders exStoreOrders
       (futuresOrderIdOf ''sETH'' (dor_account exRemoveAlice) (dor_targetRoundId exRemoveAlice))
       = Some order \<and>
     o_status order = ''Pending'' \<and>
     orders s'
       (futuresOrderIdOf ''sETH'' (dor_account exRemoveAlice) (dor_targetRoundId exRemoveAlice))
       = Some order' \<and>
     o_status order' = ''Filled'' \<and>
     o_keeper order' = ''keeper''"
proof -
  obtain s' where run: "handleDelayedOrderRemoved exRemoveAlice exStoreOrders = Inr s'"
    using exRemove_runs by (auto split: sum.splits)
  obtain marketEntity where market:
    "markets exStoreOrders (toHex (ev_address exRemoveAlice)) = Some marketEntity"
    and asset: "m_asset marketEntity = Some ''sETH''"
    using exStoreOrders_market by (auto split: option.splits)
  obtain order where order: "orders exStoreOrders
       (futuresOrderIdOf ''sETH'' (dor_account exRemoveAlice) (dor_targetRoundId exRemoveAlice))
       = Some order"
    and pending: "o_status order = ''Pending''"
    using exStoreOrders_order by auto
  have sender: "ev_txFrom exRemoveAlice = ''keeper''"
    by (simp add: exRemoveAlice_def)
  from removed_order_is_filled_or_cancelled [OF run market asset order]
  have "orders s'
       (futuresOrderIdOf ''sETH'' (dor_account exRemoveAlice) (dor_targetRoundId exRemoveAlice))
       = Some (order\<lparr> o_keeper := ''keeper'', o_status := ''Filled'' \<rparr>)"
    using exStoreOrders_trade_and_stat by (simp add: sender)
  with run market asset order pending show ?thesis by simp
qed

text \<open>
  C9 as stated fails when the trade at (txHash, logIndex - 1) exists but the resolved
  account has no stat: the order of the second trader of the example, removed right after
  the first trader's trade, is marked \<^verbatim>\<open>Cancelled\<close>.
\<close>

theorem order_cancelled_although_trade_exists:
  "map_option o_status
     (orders exStoreOrders
        (futuresOrderIdOf ''sETH'' (dor_account exRemoveCarol) (dor_targetRoundId exRemoveCarol)))
     = Some ''Pending'' \<and>
   map_option t_orderType
     (trades exStoreOrders (tradeIdOf (ev_txHash exRemoveCarol) (ev_logIndex exRemoveCarol - 1)))
     = Some ''Market'' \<and>
   stats exStoreOrders (toHex (fst (resolveAccount exStoreOrders (dor_account exRemoveCarol))))
     = None \<and>
   orderStatusAfter exRemoveCarol exStoreOrders
     (futuresOrderIdOf ''sETH'' (dor_account exRemoveCarol) (dor_targetRoundId exRemoveCarol))
     = Some ''Cancelled''"
  by code_simp

section \<open>The two entry-price fields (C10)\<close>

lemma updatePnlAndEntryPrice_agree:
  assumes "updatePnlAndEntryPrice ev trade stat pos = Inr (trade', stat', pos')"
    and "p_entryPrice pos = p_avgEntryPrice pos"
  shows "p_entryPrice pos' = p_avgEntryPrice pos'"
  using assms
  by (auto simp: updatePnlAndEntryPrice_def Let_def bigIntDiv_def split: if_splits)

lemma applyMarginChange_prices:
  "p_entryPrice (cx_position (applyMarginChange ev account accountType fa cx))
     = p_entryPrice (cx_position cx)"
  "p_avgEntryPrice (cx_position (applyMarginChange ev account accountType fa cx))
     = p_avgEntryPrice (cx_position cx)"
  by (simp_all add: applyMarginChange_def Let_def split: option.splits)

lemma handlePositionModified_agree:
  assumes run: "handlePositionModified ev s = Inr s'" and inv: "entryPricesAgree s"
  shows "entryPricesAgree s'"
proof -
  define account where "account = fst (resolveAccount s (pm_account ev))"
  define cx1 where "cx1 = accrueFunding ev account (loadEntities ev s)"
  from run obtain cx :: pm_state where cx: "applyEvent ev s = Inr cx"
    and s': "s' = saveEntities ev account
               (marginAccounts s (marginAccountIdOf (pm_account ev) (ev_address ev))) cx"
    unfolding account_def by (rule handlePositionModified_Inr)
  have "p_entryPrice (cx_position (loadEntities ev s))
      = p_avgEntryPrice (cx_position (loadEntities ev s))"
    using inv
    by (auto simp: loadEntities_position newFuturesPosition_def entryPricesAgree_def
        split: option.splits)
  then have agree1: "p_entryPrice (cx_position cx1) = p_avgEntryPrice (cx_position cx1)"
    by (simp add: cx1_def accrueFunding_position_fields)
  have agree: "p_entryPrice (cx_position cx) = p_avgEntryPrice (cx_position cx)"
  proof (cases "pm_tradeSize ev = 0")
    case True
    from applyEvent_marginChange [OF cx True] agree1 show ?thesis
      by (simp add: cx1_def account_def applyMarginChange_prices)
  next
    case False
    from applyEvent_trade [OF cx False, folded account_def, folded cx1_def]
    obtain trade' stat1' pos1' where
      u: "updatePnlAndEntryPrice ev
         (newMarketTrade ev (markets s (toHex (ev_address ev))) account
            (snd (resolveAccount s (pm_account ev))) (fundingAccruedOf ev (loadEntities ev s)))
         (cx_stat cx1) (cx_position cx1) = Inr (trade', stat1', pos1')"
      and cp: "cx_position cx = pos1'\<lparr> p_trades := p_trades pos1' + 1,
                                p_totalVolume := p_totalVolume pos1' + tradeVolume ev \<rparr>"
      by blast
    from updatePnlAndEntryPrice_agree [OF u agree1] show ?thesis
      by (simp add: cp)
  qed
  have saved: "p_entryPrice (updateGlobalPosition ev (cx_position cx))
      = p_avgEntryPrice (updateGlobalPosition ev (cx_position cx))"
    using agree by (simp add: updateGlobalPosition_def Let_def)
  have "positions s' = (positions s)
      (positionIdOf (ev_address ev) (pm_id ev) \<mapsto> updateGlobalPosition ev (cx_position cx))"
    by (simp add: s' saveEntities_positions applyEvent_frame [OF cx])
  with inv saved show ?thesis
    by (auto simp: entryPricesAgree_def)
qed

lemma liquidatePosition_prices:
  "p_entryPrice (liquidatePosition ts fee pos) = p_entryPrice pos"
  "p_avgEntryPrice (liquidatePosition ts fee pos) = p_avgEntryPrice pos"
  by (simp_all add: liquidatePosition_def Let_def)

lemma handlePositionLiquidated_agree:
  assumes "entryPricesAgree s"
  shows "entryPricesAgree (handlePositionLiquidated ev s)"
  using assms
  by (auto simp: entryPricesAgree_def handlePositionLiquidated_positions
      liquidatePosition_prices split: option.splits if_splits)

lemma handlePositionLiquidatedV2_agree:
  assumes "entryPricesAgree s"
  shows "entryPricesAgree (handlePositionLiquidatedV2 ev s)"
  using assms
  by (auto simp: entryPricesAgree_def handlePositionLiquidatedV2_positions
      liquidatePosition_prices split: option.splits if_splits)

lemma fillOrder_positions:
  assumes "fillOrder ev account accountType marketEntity marketAsset order stat trade s = Inr s'"
  shows "positions s' = positions s \<or>
     (\<exists>pos. positions s (t_positionId trade) = Some pos \<and>
        positions s' = (positions s)
          (t_positionId trade \<mapsto> pos\<lparr> p_feesPaid := p_feesPaid pos + dor_keeperDeposit ev \<rparr>))"
proof (cases "o_keeper order \<noteq> o_account order \<and> bytesToString (dor_trackingCode ev) = ''KWENTA''")
  case False
  with assms show ?thesis
    by (auto simp: fillOrder_def Let_def split: option.splits if_splits prod.splits)
next
  case True
  with assms obtain akey mk ts fk s2 s3 where
    u: "updateAggregateStatEntities accountType mk akey ts ZERO ZERO ZERO fk s2 = Inr s3"
    and s2: "positions s2 = positions s \<or>
     (\<exists>pos. positions s (t_positionId trade) = Some pos \<and>
        positions s2 = (positions s)
          (t_positionId trade \<mapsto> pos\<lparr> p_feesPaid := p_feesPaid pos + dor_keeperDeposit ev \<rparr>))"
    and s': "positions s' = positions s3"
    by (auto simp: fillOrder_def Let_def split: option.splits if_splits prod.splits sum.splits)
  from updateAggregateStatEntities_frame [OF u] s2 s' show ?thesis by simp
qed

lemma handleDelayedOrderRemoved_order_positions:
  assumes run: "handleDelayedOrderRemoved ev s = Inr s'"
    and market: "markets s (toHex (ev_address ev)) = Some marketEntity"
    and asset: "m_asset marketEntity = Some marketAsset"
    and order: "orders s (futuresOrderIdOf marketAsset (dor_account ev) (dor_targetRoundId ev))
        = Some order"
  shows "positions s' = positions s \<or>
     (\<exists>k pos fees. positions s k = Some pos \<and>
        positions s' = (positions s)(k \<mapsto> pos\<lparr> p_feesPaid := fees \<rparr>))"
proof (cases "stats s (toHex (fst (resolveAccount s (dor_account ev))))")
  case None
  with run market asset order show ?thesis
    by (auto simp: handleDelayedOrderRemoved_def Let_def)
next
  case (Some stat)
  note stat = this
  show ?thesis
  proof (cases "trades s (tradeIdOf (ev_txHash ev) (ev_logIndex ev - 1))")
    case None
    with run market asset order stat show ?thesis
      by (auto simp: handleDelayedOrderRemoved_def Let_def)
  next
    case (Some trade)
    with run market asset order stat obtain s1 where
      f: "fillOrder ev (fst (resolveAccount s (dor_account ev)))
            (snd (resolveAccount s (dor_account ev))) marketEntity marketAsset
            (order\<lparr> o_keeper := ev_txFrom ev, o_status := ''Filled'' \<rparr>) stat trade s = Inr s1"
      and s': "positions s' = positions s1"
      by (auto simp: handleDelayedOrderRemoved_def Let_def split: sum.splits)
    from fillOrder_positions [OF f] s' show ?thesis by auto
  qed
qed

lemma handleDelayedOrderRemoved_positions:
  assumes run: "handleDelayedOrderRemoved ev s = Inr s'"
  shows "positions s' = positions s \<or>
     (\<exists>k pos fees. positions s k = Some pos \<and>
        positions s' = (positions s)(k \<mapsto> pos\<lparr> p_feesPaid := fees \<rparr>))"
proof (cases "markets s (toHex (ev_address ev))")
  case None
  with run show ?thesis by (auto simp: handleDelayedOrderRemoved_def Let_def)
next
  case (Some marketEntity)
  note market = this
  show ?thesis
  proof (cases "m_asset marketEntity")
    case None
    with run market show ?thesis by (simp add: handleDelayedOrderRemoved_def Let_def)
  next
    case (Some marketAsset)
    note asset = this
    show ?thesis
    proof (cases "orders s (futuresOrderIdOf marketAsset (dor_account ev) (dor_targetRoundId ev))")
      case None
      with run market asset show ?thesis
        by (auto simp: handleDelayedOrderRemoved_def Let_def)
    next
      case (Some order)
      from handleDelayedOrderRemoved_order_positions [OF run market asset Some]
      show ?thesis .
    qed
  qed
qed

lemma handleDelayedOrderRemoved_agree:
  assumes run: "handleDelayedOrderRemoved ev s = Inr s'" and inv: "entryPricesAgree s"
  shows "entryPricesAgree s'"
  using handleDelayedOrderRemoved_positions [OF run] inv
  by (auto simp: entryPricesAgree_def split: if_splits)

lemma updateFundingRatePeriods_positions:
  "updateFundingRatePeriods periods periodTypes ts asset rate s = Inr s' \<Longrightarrow>
   positions s' = positions s"
proof (induction periods periodTypes ts asset rate s rule: updateFundingRatePeriods.induct)
  case (1 periodTypes timestamp asset rate s)
  then show ?case by simp
next
  case (2 periodSeconds periods timestamp asset rate s)
  then show ?case by simp
next
  case (3 periodSeconds periods periodType periodTypes timestamp asset rate s)
  from "3.prems" obtain periodId where
    t: "getTimeID timestamp periodSeconds = Inr periodId"
    by (auto split: sum.splits)
  from "3.prems" "3.IH" [OF t refl refl] t show ?case
    by (simp add: Let_def)
qed

lemma other_handlers_positions:
  "positions (handleV2MarketAdded mad s) = positions s"
  "positions (handleMarketRemoved mrm s) = positions s"
  "positions (handleMarginTransferred mtr s) = positions s"
  by (simp_all add: handleV2MarketAdded_def handleMarketRemoved_def handleMarginTransferred_def
      Let_def split: option.splits)

lemma handleFundingRecomputed_positions:
  "handleFundingRecomputed periods periodTypes ev s = Inr s' \<Longrightarrow> positions s' = positions s"
  by (auto simp: handleFundingRecomputed_def Let_def split: option.splits sum.splits
      dest: updateFundingRatePeriods_positions)

lemma handleDelayedOrderSubmitted_positions:
  "handleDelayedOrderSubmitted ev s = Inr s' \<Longrightarrow> positions s' = positions s"
  by (auto simp: handleDelayedOrderSubmitted_def Let_def split: option.splits)

lemma handleEvent_agree:
  assumes "handleEvent periods periodTypes event s = Inr s'" and "entryPricesAgree s"
  shows "entryPricesAgree s'"
proof (cases event)
  case (MarketAdded ev)
  with assms show ?thesis by (auto simp: entryPricesAgree_def other_handlers_positions)
next
  case (MarketRemoved ev)
  with assms show ?thesis by (auto simp: entryPricesAgree_def other_handlers_positions)
next
  case (PositionModified ev)
  with assms show ?thesis by (simp add: handlePositionModified_agree)
next
  case (PositionModifiedV2 ev)
  with assms show ?thesis
    by (simp add: handlePositionModifiedV2_def handlePositionModified_agree)
next
  case (PositionLiquidated ev)
  with assms show ?thesis by (auto simp: handlePositionLiquidated_agree)
next
  case (PositionLiquidatedV2 ev)
  with assms show ?thesis by (auto simp: handlePositionLiquidatedV2_agree)
next
  case (MarginTransferred ev)
  with assms show ?thesis by (auto simp: entryPricesAgree_def other_handlers_positions)
next
  case (FundingRecomputed ev)
  with assms show ?thesis
    by (auto simp: entryPricesAgree_def dest: handleFundingRecomputed_positions)
next
  case (DelayedOrderSubmitted ev)
  with assms show ?thesis
    by (auto simp: entryPricesAgree_def dest: handleDelayedOrderSubmitted_positions)
next
  case (DelayedOrderRemoved ev)
  with assms show ?thesis by (simp add: handleDelayedOrderRemoved_agree)
qed

lemma handleEvents_agree:
  "handleEvents periods periodTypes events s = Inr s' \<Longrightarrow> entryPricesAgree s \<Longrightarrow>
   entryPricesAgree s'"
proof (induction events arbitrary: s)
  case Nil
  then show ?case by simp
next
  case (Cons event events)
  from Cons.prems(1) obtain s1 where
    first: "handleEvent periods periodTypes event s = Inr s1"
    and rest: "handleEvents periods periodTypes events s1 = Inr s'"
    by (auto split: sum.splits)
  from handleEvent_agree [OF first Cons.prems(2)] have "entryPricesAgree s1" .
  with rest show ?case by (rule Cons.IH)
qed

lemma emptyStore_agree: "entryPricesAgree emptyStore"
  by (simp add: entryPricesAgree_def emptyStore_def)


text \<open>
  C10. On every position stored after any stream of events, delivered to the handlers
  from the empty store (or from any store on which the two fields agree), the deprecated
  \<^verbatim>\<open>entryPrice\<close> equals \<^verbatim>\<open>avgEntryPrice\<close>: \<^verbatim>\<open>handlePositionModified\<close> sets both to
  \<^verbatim>\<open>lastPrice\<close> on creation and on a side flip and both to the same weighted average on a
  size increase, and no other handler writes either field.
\<close>

theorem entry_price_fields_never_diverge:
  "entryPricesAgree emptyStore \<and>
   (entryPricesAgree s0 \<and> handleEvents periods periodTypes events s0 = Inr s \<and>
    positions s positionId = Some pos \<longrightarrow> p_entryPrice pos = p_avgEntryPrice pos)"
proof (intro conjI impI)
  show "entryPricesAgree emptyStore"
    by (rule emptyStore_agree)
next
  assume h: "entryPricesAgree s0 \<and> handleEvents periods periodTypes events s0 = Inr s \<and>
    positions s positionId = Some pos"
  then have "entryPricesAgree s"
    using handleEvents_agree by blast
  with h show "p_entryPrice pos = p_avgEntryPrice pos"
    unfolding entryPricesAgree_def by blast
qed

lemma exStream_runs:
  "case handleEvents [] []
          [MarketAdded exMarketAdded, PositionModified exOpen, PositionModified exIncrease]
          emptyStore of
     Inl e \<Rightarrow> False
   | Inr s \<Rightarrow>
       (case positions s (positionIdOf exMarket 1) of
          None \<Rightarrow> False
        | Some pos \<Rightarrow> p_avgEntryPrice pos = 103333333333333333333)"
  by code_simp

theorem entry_price_fields_never_diverge_witness:
  "\<exists>s pos.
     entryPricesAgree emptyStore \<and>
     handleEvents [] []
       [MarketAdded exMarketAdded, PositionModified exOpen, PositionModified exIncrease]
       emptyStore = Inr s \<and>
     positions s (positionIdOf exMarket 1) = Some pos \<and>
     p_avgEntryPrice pos = 103333333333333333333 \<and>
     p_entryPrice pos = 103333333333333333333"
proof -
  obtain s pos where run: "handleEvents [] []
       [MarketAdded exMarketAdded, PositionModified exOpen, PositionModified exIncrease]
       emptyStore = Inr s"
    and pos: "positions s (positionIdOf exMarket 1) = Some pos"
    and avg: "p_avgEntryPrice pos = 103333333333333333333"
    using exStream_runs by (auto split: sum.splits option.splits)
  note inst = entry_price_fields_never_diverge [of emptyStore "[]" "[]"
      "[MarketAdded exMarketAdded, PositionModified exOpen, PositionModified exIncrease]"
      s "positionIdOf exMarket 1" pos]
  from inst run pos have "p_entryPrice pos = p_avgEntryPrice pos" by blast
  with inst run pos avg show ?thesis by auto
qed

end
